theory Spec2Isabelle
  imports Main
begin

section \<open>Values, objects and strings of the server\<close>

text \<open>
  The server (\<^verbatim>\<open>src/server.js\<close>) is an Express application over a Supabase client.
  Scalar JavaScript values are a datatype; a flat object (a request body, the claims
  decoded from a token, a database row) is an association list from property names to
  scalars, each property once, read with \<open>get\<close>: a missing property reads as
  \<open>undefined\<close>. Numbers are the integers. A character is a UTF-16 code unit below
  256 (\<open>CHR 0xA0\<close> is U+00A0), so the strings are those of the Latin-1 range and
  the length of a string is the number of its characters.
\<close>

datatype jsval = JUndefined | JNull | JBool bool | JNum int | JStr string

type_synonym obj = "(string \<times> jsval) list"

fun truthy :: "jsval \<Rightarrow> bool" where
  "truthy JUndefined = False"
| "truthy JNull = False"
| "truthy (JBool b) = b"
| "truthy (JNum n) = (n \<noteq> 0)"
| "truthy (JStr s) = (s \<noteq> [])"

definition get :: "obj \<Rightarrow> string \<Rightarrow> jsval" where
  "get ob k = (case map_of ob k of None \<Rightarrow> JUndefined | Some v \<Rightarrow> v)"

text \<open>\<open>a || b\<close> on values.\<close>

definition orElse :: "jsval \<Rightarrow> jsval \<Rightarrow> jsval" where
  "orElse a b = (if truthy a then a else b)"

text \<open>\<open>delete o.k\<close> and the spread \<open>{...o, k: v}\<close>.\<close>

definition del_prop :: "string \<Rightarrow> obj \<Rightarrow> obj" where
  "del_prop k ob = filter (\<lambda>kv. fst kv \<noteq> k) ob"

definition set_prop :: "string \<Rightarrow> jsval \<Rightarrow> obj \<Rightarrow> obj" where
  "set_prop k v ob = del_prop k ob @ [(k, v)]"

text \<open>\<open>s.split(' ')\<close>: the pieces of \<open>s\<close> between single separators.\<close>

fun split_on :: "char \<Rightarrow> string \<Rightarrow> string list" where
  "split_on c [] = [[]]"
| "split_on c (x # xs) =
     (if x = c then [] # split_on c xs
      else (case split_on c xs of [] \<Rightarrow> [[x]] | p # ps \<Rightarrow> (x # p) # ps))"

text \<open>
  The white space of \<open>\s\<close> and of \<open>trim\<close>: of the characters below 256, the
  tabulators, the line ends, the form feed, the space and the no-break space U+00A0.
\<close>

definition is_space :: "char \<Rightarrow> bool" where
  "is_space c =
     (c \<in> set [CHR 0x09, CHR 0x0A, CHR 0x0B, CHR 0x0C, CHR 0x0D, CHR '' '', CHR 0xA0])"

definition trim :: "string \<Rightarrow> string" where
  "trim s = rev (dropWhile is_space (rev (dropWhile is_space s)))"

text \<open>
  \<open>toLowerCase\<close>: the capital letters below 256 are \<open>A\<close> to \<open>Z\<close> and U+00C0 to
  U+00DE without the multiplication sign U+00D7; the small letter of each is 32 above it.
\<close>

definition lower_char :: "char \<Rightarrow> char" where
  "lower_char c =
     (case map_of
        (zip (''ABCDEFGHIJKLMNOPQRSTUVWXYZ'' @
              [CHR 0xC0, CHR 0xC1, CHR 0xC2, CHR 0xC3, CHR 0xC4, CHR 0xC5, CHR 0xC6, CHR 0xC7,
               CHR 0xC8, CHR 0xC9, CHR 0xCA, CHR 0xCB, CHR 0xCC, CHR 0xCD, CHR 0xCE, CHR 0xCF,
               CHR 0xD0, CHR 0xD1, CHR 0xD2, CHR 0xD3, CHR 0xD4, CHR 0xD5, CHR 0xD6,
               CHR 0xD8, CHR 0xD9, CHR 0xDA, CHR 0xDB, CHR 0xDC, CHR 0xDD, CHR 0xDE])
             (''abcdefghijklmnopqrstuvwxyz'' @
              [CHR 0xE0, CHR 0xE1, CHR 0xE2, CHR 0xE3, CHR 0xE4, CHR 0xE5, CHR 0xE6, CHR 0xE7,
               CHR 0xE8, CHR 0xE9, CHR 0xEA, CHR 0xEB, CHR 0xEC, CHR 0xED, CHR 0xEE, CHR 0xEF,
               CHR 0xF0, CHR 0xF1, CHR 0xF2, CHR 0xF3, CHR 0xF4, CHR 0xF5, CHR 0xF6,
               CHR 0xF8, CHR 0xF9, CHR 0xFA, CHR 0xFB, CHR 0xFC, CHR 0xFD, CHR 0xFE])) c of
        None \<Rightarrow> c | Some d \<Rightarrow> d)"

definition toLowerCase :: "string \<Rightarrow> string" where
  "toLowerCase s = map lower_char s"

section \<open>Requests and responses\<close>

datatype http_method = GET | POST | PUT | DELETE

text \<open>
  A request as it arrives: \<open>authorization\<close> is \<open>req.headers['authorization']\<close>,
  \<open>body\<close> the parsed JSON body, \<open>query\<close> the query string (its values are strings).
\<close>

record request =
  rmethod :: http_method
  rpath :: "string list"
  authorization :: "string option"
  body :: obj
  query :: "(string \<times> string) list"

text \<open>
  The request as the middleware and the handlers see it: the route's parameters and
  \<open>req.user\<close>, which is \<open>None\<close> until a middleware sets it.
\<close>

record ctx =
  req :: request
  params :: "(string \<times> string) list"
  user :: "obj option"

definition qparam :: "ctx \<Rightarrow> string \<Rightarrow> jsval" where
  "qparam c k = (case map_of (query (req c)) k of None \<Rightarrow> JUndefined | Some s \<Rightarrow> JStr s)"

definition param :: "ctx \<Rightarrow> string \<Rightarrow> jsval" where
  "param c k = (case map_of (params c) k of None \<Rightarrow> JUndefined | Some s \<Rightarrow> JStr s)"

definition bparam :: "ctx \<Rightarrow> string \<Rightarrow> jsval" where
  "bparam c k = get (body (req c)) k"

text \<open>A JSON response: the status and the fields of the body.\<close>

datatype field = Val jsval | Obj obj | Rows "obj list" | Strs "string list"

record response =
  status :: nat
  rbody :: "(string \<times> field) list"

definition code_of :: "response \<Rightarrow> field option" where
  "code_of r = map_of (rbody r) ''code''"

definition err :: "string \<Rightarrow> string \<Rightarrow> (string \<times> field) list" where
  "err e c = [(''error'', Val (JStr e)), (''code'', Val (JStr c))]"

section \<open>The middleware\<close>

text \<open>
  \<open>jwt.verify(token, JWT_SECRET, cb)\<close> calls back with the decoded claims or with an
  error, of which the middleware reads the \<open>name\<close>.
\<close>

datatype verify_result = Decoded obj | VerifyError string

text \<open>A middleware answers the request or calls \<open>next()\<close>.\<close>

datatype mw_result = Next ctx | Reply response

text \<open>\<open>authHeader && authHeader.split(' ')[1]\<close>, and whether it is truthy.\<close>

definition bearer_token :: "string option \<Rightarrow> string option" where
  "bearer_token h =
     (case h of None \<Rightarrow> None
      | Some a \<Rightarrow> (if a = [] then None
                  else (case split_on CHR '' '' a of
                          _ # t # _ \<Rightarrow> (if t = [] then None else Some t)
                        | _ \<Rightarrow> None)))"

definition token_error_code :: "string \<Rightarrow> string \<times> string" where
  "token_error_code name =
     (if name = ''TokenExpiredError'' then (''Token has expired'', ''TOKEN_EXPIRED'')
      else if name = ''JsonWebTokenError'' then (''Token is malformed'', ''MALFORMED_TOKEN'')
      else if name = ''NotBeforeError'' then (''Token not active yet'', ''TOKEN_NOT_ACTIVE'')
      else (''Invalid or expired token'', ''INVALID_TOKEN''))"

definition authenticateToken :: "(string \<Rightarrow> verify_result) \<Rightarrow> ctx \<Rightarrow> mw_result" where
  "authenticateToken verify c =
     (case bearer_token (authorization (req c)) of
        None \<Rightarrow> Reply \<lparr>status = 401, rbody = err ''Access token required'' ''NO_TOKEN''\<rparr>
      | Some t \<Rightarrow>
          (case verify t of
             VerifyError name \<Rightarrow>
               Reply \<lparr>status = 403,
                      rbody = err (fst (token_error_code name)) (snd (token_error_code name))\<rparr>
           | Decoded u \<Rightarrow> Next (c\<lparr>user := Some u\<rparr>)))"

definition optionalAuthentication :: "(string \<Rightarrow> verify_result) \<Rightarrow> ctx \<Rightarrow> mw_result" where
  "optionalAuthentication verify c =
     (case bearer_token (authorization (req c)) of
        None \<Rightarrow> Next (c\<lparr>user := None\<rparr>)
      | Some t \<Rightarrow>
          (case verify t of
             VerifyError name \<Rightarrow> Next (c\<lparr>user := None\<rparr>)
           | Decoded u \<Rightarrow> Next (c\<lparr>user := Some u\<rparr>)))"

text \<open>
  \<open>requireRole(roles)\<close> takes an array of role names or a single name
  (\<open>Array.isArray(roles) ? roles : [roles]\<close>).
\<close>

datatype roles_arg = RoleList "string list" | RoleName string

fun allowedRoles :: "roles_arg \<Rightarrow> string list" where
  "allowedRoles (RoleList rs) = rs"
| "allowedRoles (RoleName r) = [r]"

definition js_includes :: "string list \<Rightarrow> jsval \<Rightarrow> bool" where
  "js_includes rs v = (v \<in> set (map JStr rs))"

definition requireRole :: "roles_arg \<Rightarrow> ctx \<Rightarrow> mw_result" where
  "requireRole roles c =
     (case user c of
        None \<Rightarrow> Reply \<lparr>status = 401, rbody = err ''Authentication required'' ''AUTH_REQUIRED''\<rparr>
      | Some u \<Rightarrow>
          (if \<not> js_includes (allowedRoles roles) (get u ''role'')
           then Reply \<lparr>status = 403,
                       rbody = err ''Insufficient permissions'' ''INSUFFICIENT_PERMISSIONS'' @
                               [(''requiredRoles'', Strs (allowedRoles roles)),
                                (''userRole'', Val (get u ''role''))]\<rparr>
           else Next c))"

section \<open>The database client and the handlers' effects\<close>

text \<open>
  The Supabase client is an external collaborator. A handler is a program that answers,
  or sends one operation to the database and goes on with its result. The operations
  are the query-builder chains of the source: the table, the selected columns, the
  \<open>.eq\<close> filters, \<open>.or\<close>, \<open>.order\<close>, \<open>.limit\<close> and \<open>.range\<close>.
  \<open>q_range\<close> keeps the \<open>page\<close> and \<open>limit\<close> the bounds are computed from.
\<close>

record query =
  q_table :: string
  q_columns :: string
  q_eq :: "(string \<times> jsval) list"
  q_or :: "string list"
  q_order :: "(string \<times> bool) list"
  q_limit :: "jsval option"
  q_range :: "(jsval \<times> jsval) option"

definition from_table :: "string \<Rightarrow> string \<Rightarrow> query" where
  "from_table t cols =
     \<lparr>q_table = t, q_columns = cols, q_eq = [], q_or = [], q_order = [],
      q_limit = None, q_range = None\<rparr>"

definition eq :: "string \<Rightarrow> jsval \<Rightarrow> query \<Rightarrow> query" where
  "eq col v q = q\<lparr>q_eq := q_eq q @ [(col, v)]\<rparr>"

definition eqs :: "(string \<times> jsval) list \<Rightarrow> query \<Rightarrow> query" where
  "eqs fs q = q\<lparr>q_eq := q_eq q @ fs\<rparr>"

definition order :: "string \<Rightarrow> bool \<Rightarrow> query \<Rightarrow> query" where
  "order col asc q = q\<lparr>q_order := q_order q @ [(col, asc)]\<rparr>"

text \<open>
  \<open>SelectRows\<close> is an awaited query, \<open>SelectSingle\<close> one ended by \<open>.single()\<close>,
  \<open>CountHead\<close> the \<open>head\<close> count of the connection test, \<open>InsertSingle\<close> is
  \<open>.insert([row]).select(cols).single()\<close>, \<open>UpdateSingle\<close> is
  \<open>.update(changes).eq(...).select(cols).single()\<close>, \<open>UpdateOnly\<close> the same without
  the selection, \<open>Rpc\<close> a stored procedure.
\<close>

datatype dbop =
    SelectRows query
  | SelectSingle query
  | CountHead string
  | InsertSingle string obj string
  | UpdateSingle string obj "(string \<times> jsval) list" string
  | UpdateOnly string obj "(string \<times> jsval) list"
  | Rpc string obj

record dberror =
  e_message :: string
  e_code :: string

text \<open>
  The client resolves to \<open>{data, error, count}\<close>: \<open>data\<close> is \<open>null\<close>, the rows of a
  list query, the row of a \<open>.single()\<close> query, or the value of a procedure.
\<close>

datatype dbdata = DNull | DRows "obj list" | DRow obj | DVal jsval

record dbres =
  d_data :: dbdata
  d_error :: "dberror option"
  d_count :: jsval

datatype prog = Respond response | Db dbop "dbres \<Rightarrow> prog"

text \<open>
  Running a program against a database \<open>exec\<close> with state \<open>s\<close>: the response, the
  state afterwards and the operations sent, in order.
\<close>

primrec run :: "(dbop \<Rightarrow> 's \<Rightarrow> dbres \<times> 's) \<Rightarrow> prog \<Rightarrow> 's \<Rightarrow> response \<times> 's \<times> dbop list" where
  "run exec (Respond r) = (\<lambda>s. (r, s, []))"
| "run exec (Db op k) =
     (\<lambda>s. case exec op s of
             (res, s') \<Rightarrow> (case run exec (k res) s' of (r, s'', ops) \<Rightarrow> (r, s'', op # ops)))"

definition rows_of :: "dbdata \<Rightarrow> obj list option" where
  "rows_of d = (case d of DRows rs \<Rightarrow> Some rs | _ \<Rightarrow> None)"

definition row_of :: "dbdata \<Rightarrow> obj option" where
  "row_of d = (case d of DRow r \<Rightarrow> Some r | _ \<Rightarrow> None)"

text \<open>\<open>rows || []\<close> and \<open>rows?.length || 0\<close>.\<close>

definition rows_or_empty :: "dbdata \<Rightarrow> obj list" where
  "rows_or_empty d = (case rows_of d of None \<Rightarrow> [] | Some rs \<Rightarrow> rs)"

definition count_rows :: "obj list \<Rightarrow> jsval" where
  "count_rows rs = JNum (int (length rs))"

text \<open>
  What a request's handling reads from the process: whether \<open>getSupabaseClient()\<close>
  resolved to a client (\<open>client\<close>) or to \<open>null\<close>, the clock, the token library with
  the server's secret (\<open>jwt.sign(claims, JWT_SECRET, {expiresIn: '7d'})\<close>, which is
  \<open>None\<close> when it throws, and \<open>jwt.verify(token, JWT_SECRET, cb)\<close>), the password
  hashing library, the number parsers, the subtraction of two values, and
  \<open>toUpperCase\<close>, whose result can leave the characters below 256 (the capital letter
  of U+00FF is U+0178).
\<close>

record env =
  client :: bool
  now :: string
  jwt_sign :: "obj \<Rightarrow> string option"
  jwt_verify :: "string \<Rightarrow> verify_result"
  bcrypt_hash :: "string \<Rightarrow> string"
  bcrypt_compare :: "string \<Rightarrow> string \<Rightarrow> bool"
  parseInt :: "jsval \<Rightarrow> jsval"
  parseFloat :: "jsval \<Rightarrow> jsval"
  js_minus :: "jsval \<Rightarrow> jsval \<Rightarrow> jsval"
  toUpperCase :: "string \<Rightarrow> string"

text \<open>
  The lazily initialised handle behind \<open>client\<close>: the global \<open>supabase\<close> (here:
  whether it is set) and \<open>initializationPromise\<close> (not started, or what the started
  initialisation resolves to: a client or \<open>null\<close>). \<open>initializeSupabase\<close> sets the
  global and resolves to it when the environment is valid and the client was created
  (\<open>ok\<close>), and resolves to \<open>null\<close> otherwise; a failed connection test is only logged.
\<close>

record handle =
  supabase :: bool
  initializationPromise :: "bool option"

definition initializeSupabase :: "bool \<Rightarrow> handle \<Rightarrow> bool \<times> handle" where
  "initializeSupabase ok h = (if ok then (True, h\<lparr>supabase := True\<rparr>) else (False, h))"

definition getSupabaseClient :: "bool \<Rightarrow> handle \<Rightarrow> bool \<times> handle" where
  "getSupabaseClient ok h =
     (if supabase h then (True, h)
      else (case initializationPromise h of
              Some p \<Rightarrow> (p, h)
            | None \<Rightarrow>
                (case initializeSupabase ok h of
                   (r, h') \<Rightarrow> (r, h'\<lparr>initializationPromise := Some r\<rparr>))))"

definition generateToken :: "(obj \<Rightarrow> string option) \<Rightarrow> obj \<Rightarrow> string option" where
  "generateToken sign u =
     sign [(''id'', get u ''id''), (''email'', get u ''email''), (''role'', get u ''role'')]"

definition json :: "nat \<Rightarrow> (string \<times> field) list \<Rightarrow> prog" where
  "json st b = Respond \<lparr>status = st, rbody = b\<rparr>"

definition unavailable :: "string \<Rightarrow> prog" where
  "unavailable msg = json 503 (err msg ''SERVICE_UNAVAILABLE'')"

text \<open>
  The \<open>catch\<close> of a handler: an exception inside the \<open>try\<close> is answered with 500
  (the \<open>message\<close> field that some handlers add, the exception's text, is left out).
\<close>

definition internal :: "string \<Rightarrow> prog" where
  "internal msg = json 500 (err msg ''INTERNAL_ERROR'')"

definition details :: "dberror \<Rightarrow> (string \<times> field) list" where
  "details e = [(''details'', Val (JStr (e_message e)))]"

definition timestamp :: "env \<Rightarrow> (string \<times> field) list" where
  "timestamp e = [(''timestamp'', Val (JStr (now e)))]"

text \<open>
  A string method called on a value: the result on a string, \<open>None\<close> (a TypeError)
  on another value.
\<close>

fun js_trim :: "jsval \<Rightarrow> string option" where
  "js_trim (JStr s) = Some (trim s)"
| "js_trim _ = None"

fun js_lower :: "jsval \<Rightarrow> string option" where
  "js_lower (JStr s) = Some (toLowerCase s)"
| "js_lower _ = None"

text \<open>\<open>v?.trim() || null\<close>.\<close>

fun opt_trim :: "jsval \<Rightarrow> jsval option" where
  "opt_trim JUndefined = Some JNull"
| "opt_trim JNull = Some JNull"
| "opt_trim (JStr s) = Some (orElse (JStr (trim s)) JNull)"
| "opt_trim _ = None"

section \<open>The handlers\<close>

subsection \<open>Root, health and the sync endpoints\<close>

text \<open>
  \<open>GET /\<close> and \<open>GET /health\<close>; of their bodies the fields about the process
  (environment, endpoint list, memory, response time) are left out.
\<close>

definition h_root :: "env \<Rightarrow> ctx \<Rightarrow> prog" where
  "h_root e c =
     json 200 ([(''message'', Val (JStr ''POS System API Server Running'')),
                (''status'', Val (JStr ''active''))] @ timestamp e @
               [(''version'', Val (JStr ''1.0.0''))])"

definition h_health :: "env \<Rightarrow> ctx \<Rightarrow> prog" where
  "h_health e c =
     (if client e then
        Db (CountHead ''users'') (\<lambda>r.
          case d_error r of
            Some er \<Rightarrow>
              json 503 ([(''status'', Val (JStr ''unhealthy'')),
                         (''database'', Val (JStr ''disconnected''))] @ timestamp e @
                        [(''error'', Val (JStr (e_message er)))])
          | None \<Rightarrow>
              json 200 ([(''status'', Val (JStr ''healthy'')),
                         (''database'', Val (JStr ''connected''))] @ timestamp e @
                        [(''user_count'', Val (orElse (d_count r) (JNum 0)))]))
      else
        json 503 ([(''status'', Val (JStr ''unhealthy'')),
                   (''database'', Val (JStr ''initialization_failed''))] @ timestamp e @
                  [(''error'', Val (JStr ''Could not initialize Supabase client''))]))"

text \<open>A joined column of a row is read under its dotted name.\<close>

definition format_sync_user :: "obj \<Rightarrow> obj" where
  "format_sync_user u =
     [(''id'', get u ''id''), (''email'', get u ''email''), (''name'', get u ''name''),
      (''role'', get u ''role''), (''phone'', get u ''phone''),
      (''company_id'', get u ''company_id''),
      (''company_name'', orElse (get u ''companies.name'') (JStr ''Unknown Company'')),
      (''is_active'', get u ''is_active''), (''created_at'', get u ''created_at''),
      (''updated_at'', get u ''updated_at''), (''last_login'', get u ''last_login'')]"

definition h_sync_users :: "env \<Rightarrow> ctx \<Rightarrow> prog" where
  "h_sync_users e c =
     (if \<not> client e then unavailable ''Database connection not available''
      else
        Db (SelectRows (order ''created_at'' False (from_table ''users''
              ''id, email, name, role, phone, company_id, is_active, created_at, updated_at, last_login, companies!company_id(name)'')))
          (\<lambda>r. case d_error r of
                  Some er \<Rightarrow>
                    json 500 (err ''Failed to fetch users from database'' ''DB_ERROR'' @ details er)
                | None \<Rightarrow>
                    (let us = map format_sync_user (rows_or_empty (d_data r))
                     in json 200 ([(''users'', Rows us), (''count'', Val (count_rows us))] @
                                  timestamp e @ [(''source'', Val (JStr ''supabase''))]))))"

text \<open>\<open>GET /sync/all\<close> as registered first (users only).\<close>

definition h_sync_all :: "env \<Rightarrow> ctx \<Rightarrow> prog" where
  "h_sync_all e c =
     (if \<not> client e then unavailable ''Database connection not available''
      else
        Db (SelectRows (order ''created_at'' False (from_table ''users''
              ''id, email, name, role, phone, is_active, created_at, updated_at, last_login'')))
          (\<lambda>r. case d_error r of
                  Some er \<Rightarrow>
                    json 500 (err ''Failed to fetch users from database'' ''DB_ERROR'' @ details er)
                | None \<Rightarrow>
                    json 200 ([(''users'', Rows (rows_or_empty (d_data r))),
                               (''counts'', Obj [(''users'', count_rows (rows_or_empty (d_data r)))])] @
                              timestamp e @ [(''source'', Val (JStr ''supabase''))])))"

text \<open>\<open>GET /sync/all\<close> as registered second (all tables).\<close>

definition select_all :: "string \<Rightarrow> dbop" where
  "select_all t = SelectRows (order ''created_at'' False (from_table t ''*''))"

definition h_sync_all_tables :: "env \<Rightarrow> ctx \<Rightarrow> prog" where
  "h_sync_all_tables e c =
     (if \<not> client e then unavailable ''Database connection not available''
      else
        Db (SelectRows (order ''created_at'' False (from_table ''users''
              ''id, email, name, role, phone, store_id, company_id, is_active, created_at, updated_at, last_login'')))
          (\<lambda>r. case d_error r of
                  Some er \<Rightarrow>
                    json 500 (err ''Failed to fetch users from database'' ''DB_ERROR'' @ details er)
                | None \<Rightarrow>
                    Db (select_all ''companies'') (\<lambda>rc.
                    Db (select_all ''stores'') (\<lambda>rs.
                    Db (select_all ''staff'') (\<lambda>rf.
                    Db (select_all ''categories'') (\<lambda>rg.
                    Db (select_all ''products'') (\<lambda>rp.
                      json 200
                        ([(''users'', Rows (rows_or_empty (d_data r))),
                          (''companies'', Rows (rows_or_empty (d_data rc))),
                          (''stores'', Rows (rows_or_empty (d_data rs))),
                          (''staff'', Rows (rows_or_empty (d_data rf))),
                          (''categories'', Rows (rows_or_empty (d_data rg))),
                          (''products'', Rows (rows_or_empty (d_data rp))),
                          (''counts'', Obj
                             [(''users'', count_rows (rows_or_empty (d_data r))),
                              (''companies'', count_rows (rows_or_empty (d_data rc))),
                              (''stores'', count_rows (rows_or_empty (d_data rs))),
                              (''staff'', count_rows (rows_or_empty (d_data rf))),
                              (''categories'', count_rows (rows_or_empty (d_data rg))),
                              (''products'', count_rows (rows_or_empty (d_data rp)))])] @
                         timestamp e @ [(''source'', Val (JStr ''supabase''))]))))))))"

subsection \<open>Login, registration, profile, logout\<close>

definition demoUsers :: "(string \<times> obj) list" where
  "demoUsers =
     [(''admin@techcorp.com'',
         [(''id'', JNum 1), (''name'', JStr ''Demo Admin''), (''role'', JStr ''super_admin''),
          (''email'', JStr ''admin@techcorp.com'')]),
      (''manager@techcorp.com'',
         [(''id'', JNum 2), (''name'', JStr ''Demo Manager''), (''role'', JStr ''manager''),
          (''email'', JStr ''manager@techcorp.com'')]),
      (''cashier@techcorp.com'',
         [(''id'', JNum 3), (''name'', JStr ''Demo Cashier''), (''role'', JStr ''cashier''),
          (''email'', JStr ''cashier@techcorp.com'')])]"

text \<open>
  \<open>demoUsers[key]\<close> also finds what the object inherits: of the lower-case keys,
  \<open>constructor\<close> (a function, which the JSON body drops) and \<open>__proto__\<close> (an
  object without properties). Neither has an id, an email or a role.
\<close>

definition login_ok :: "env \<Rightarrow> string \<Rightarrow> (string \<times> field) list \<Rightarrow> obj \<Rightarrow> string \<Rightarrow> prog" where
  "login_ok e msg ufield u source =
     (case generateToken (jwt_sign e) u of
        None \<Rightarrow> internal ''Internal server error''
      | Some tok \<Rightarrow>
          json 200 ([(''message'', Val (JStr msg))] @ ufield @
                    [(''token'', Val (JStr tok)), (''source'', Val (JStr source))]))"

definition login_fallback :: "env \<Rightarrow> jsval \<Rightarrow> jsval \<Rightarrow> prog" where
  "login_fallback e email password =
     (case js_lower email of
        None \<Rightarrow> internal ''Internal server error''
      | Some key \<Rightarrow>
          (let found =
                 (case map_of demoUsers key of
                    Some u \<Rightarrow> Some ([(''user'', Obj u)], u)
                  | None \<Rightarrow>
                      (if key = ''constructor'' then Some ([], [])
                       else if key = ''__proto__'' then Some ([(''user'', Obj [])], [])
                       else None))
           in case found of
                Some (ufield, u) \<Rightarrow>
                  (if password = JStr ''password123''
                   then login_ok e ''Login successful (fallback mode)'' ufield u ''fallback''
                   else json 401 (err ''Invalid email or password (fallback mode)''
                                      ''INVALID_CREDENTIALS''))
              | None \<Rightarrow>
                  json 401 (err ''Invalid email or password (fallback mode)''
                                ''INVALID_CREDENTIALS'')))"

definition h_login :: "env \<Rightarrow> ctx \<Rightarrow> prog" where
  "h_login e c =
     (let email = bparam c ''email''; password = bparam c ''password'' in
      if \<not> truthy email \<or> \<not> truthy password
      then json 400 (err ''Email and password are required'' ''MISSING_CREDENTIALS'')
      else if \<not> client e then login_fallback e email password
      else
        (case js_lower email of
           None \<Rightarrow> internal ''Internal server error''
         | Some le \<Rightarrow>
             Db (SelectSingle (eqs [(''email'', JStr le), (''is_active'', JBool True)]
                                 (from_table ''users'' ''*'')))
               (\<lambda>r. case (d_error r, row_of (d_data r)) of
                       (None, Some u) \<Rightarrow>
                         (case (password, get u ''password'') of
                            (JStr pw, JStr h) \<Rightarrow>
                              (if \<not> bcrypt_compare e pw h
                               then json 401 (err ''Invalid email or password''
                                                  ''INVALID_CREDENTIALS'')
                               else
                                 Db (UpdateOnly ''users'' [(''last_login'', JStr (now e))]
                                       [(''id'', get u ''id'')])
                                   (\<lambda>_. login_ok e ''Login successful''
                                           [(''user'', Obj (del_prop ''password'' u))] u
                                           ''supabase''))
                          | _ \<Rightarrow> internal ''Internal server error'')
                     | _ \<Rightarrow> json 401 (err ''Invalid email or password''
                                         ''INVALID_CREDENTIALS''))))"

text \<open>
  The email pattern \<open>/^[^\s@]+@[^\s@]+\.[^\s@]+$/\<close>: a sequence of pieces, each one
  character of a class or one or more of them, matched against the whole string.
  \<open>test\<close> on a value that is not a string matches its text, which for a number or a
  boolean has no \<open>@\<close>.
\<close>

datatype atom = NotSpaceAt | Ch char

datatype piece = One atom | Many atom

fun atom_ok :: "atom \<Rightarrow> char \<Rightarrow> bool" where
  "atom_ok NotSpaceAt x = (\<not> is_space x \<and> x \<noteq> CHR ''@'')"
| "atom_ok (Ch c) x = (x = c)"

fun rx_match :: "piece list \<Rightarrow> string \<Rightarrow> bool" where
  "rx_match [] s = (s = [])"
| "rx_match (One a # ps) [] = False"
| "rx_match (One a # ps) (x # xs) = (atom_ok a x \<and> rx_match ps xs)"
| "rx_match (Many a # ps) [] = False"
| "rx_match (Many a # ps) (x # xs) =
     (atom_ok a x \<and> (rx_match ps xs \<or> rx_match (Many a # ps) xs))"

definition emailRegex :: "piece list" where
  "emailRegex =
     [Many NotSpaceAt, One (Ch CHR ''@''), Many NotSpaceAt, One (Ch CHR ''.''), Many NotSpaceAt]"

fun emailRegex_test :: "jsval \<Rightarrow> bool" where
  "emailRegex_test (JStr s) = rx_match emailRegex s"
| "emailRegex_test _ = False"

text \<open>
  The shape \<open>local@domain.tld\<close> in words: a local part, an \<open>@\<close>, a domain, a dot
  and a top-level part, the three parts not empty and free of white space and \<open>@\<close>.
\<close>

definition local_at_domain_tld :: "string \<Rightarrow> bool" where
  "local_at_domain_tld s =
     (\<exists>l d t. s = l @ ''@'' @ d @ ''.'' @ t \<and> l \<noteq> [] \<and> d \<noteq> [] \<and> t \<noteq> [] \<and>
        list_all (atom_ok NotSpaceAt) (l @ d @ t))"

text \<open>\<open>password.length < 6\<close>: a number or a boolean has no length.\<close>

fun too_short :: "jsval \<Rightarrow> bool" where
  "too_short (JStr s) = (length s < 6)"
| "too_short _ = False"

definition register_insert :: "env \<Rightarrow> ctx \<Rightarrow> string \<Rightarrow> prog" where
  "register_insert e c le =
     (case (bparam c ''password'', js_trim (bparam c ''name''),
            (if truthy (bparam c ''phone'') then js_trim (bparam c ''phone'') else Some [])) of
        (JStr pw, Some nm, Some ph) \<Rightarrow>
          Db (InsertSingle ''users''
                ([(''email'', JStr (trim le)), (''password'', JStr (bcrypt_hash e pw)),
                  (''name'', JStr nm), (''role'', bparam c ''role''), (''is_active'', JBool True),
                  (''created_at'', JStr (now e))] @
                 (if ph \<noteq> [] then [(''phone'', JStr ph)] else []))
                ''id, email, name, role, phone, is_active, created_at'')
            (\<lambda>r. case d_error r of
                    Some er \<Rightarrow>
                      (if e_code er = ''23505''
                       then json 409 (err ''User with this email already exists'' ''USER_EXISTS'')
                       else json 400 (err ''Failed to create user account'' ''DB_INSERT_ERROR'' @
                                      details er))
                  | None \<Rightarrow>
                      (case row_of (d_data r) of
                         None \<Rightarrow> internal ''Internal server error during registration''
                       | Some u \<Rightarrow>
                           (case generateToken (jwt_sign e) u of
                              None \<Rightarrow> internal ''Internal server error during registration''
                            | Some tok \<Rightarrow>
                                json 201 [(''message'', Val (JStr ''User registered successfully'')),
                                          (''user'', Obj u), (''token'', Val (JStr tok)),
                                          (''source'', Val (JStr ''supabase''))])))
      | _ \<Rightarrow> internal ''Internal server error during registration'')"

definition h_register :: "env \<Rightarrow> ctx \<Rightarrow> prog" where
  "h_register e c =
     (let email = bparam c ''email''; password = bparam c ''password''; name = bparam c ''name'' in
      if \<not> truthy email \<or> \<not> truthy password \<or> \<not> truthy name
      then json 400 (err ''Email, password, and name are required'' ''MISSING_FIELDS'')
      else if \<not> emailRegex_test email
      then json 400 (err ''Invalid email format'' ''INVALID_EMAIL'')
      else if too_short password
      then json 400 (err ''Password must be at least 6 characters long'' ''WEAK_PASSWORD'')
      else if \<not> client e
      then unavailable ''Registration unavailable - database connection failed''
      else
        (case js_lower email of
           None \<Rightarrow> internal ''Internal server error during registration''
         | Some le \<Rightarrow>
             Db (SelectSingle (eqs [(''email'', JStr le)] (from_table ''users'' ''id, email'')))
               (\<lambda>r. if (case d_error r of None \<Rightarrow> False | Some er \<Rightarrow> e_code er \<noteq> ''PGRST116'')
                     then json 500 (err ''Database error while checking user'' ''DB_ERROR'')
                     else if row_of (d_data r) \<noteq> None
                     then json 409 (err ''User with this email already exists'' ''USER_EXISTS'')
                     else register_insert e c le)))"

definition h_profile :: "env \<Rightarrow> ctx \<Rightarrow> prog" where
  "h_profile e c =
     (if \<not> client e
      then json 200 [(''user'', (case user c of None \<Rightarrow> Val JUndefined | Some u \<Rightarrow> Obj u)),
                     (''source'', Val (JStr ''fallback''))]
      else
        (case user c of
           None \<Rightarrow> internal ''Internal server error''
         | Some u \<Rightarrow>
             Db (SelectSingle (eqs [(''id'', get u ''id'')]
                   (from_table ''users''
                      ''id, email, name, role, phone, is_active, created_at, last_login'')))
               (\<lambda>r. case (d_error r, row_of (d_data r)) of
                       (None, Some row) \<Rightarrow>
                         json 200 [(''user'', Obj row), (''source'', Val (JStr ''supabase''))]
                     | _ \<Rightarrow> json 404 (err ''User not found'' ''USER_NOT_FOUND''))))"

definition h_logout :: "env \<Rightarrow> ctx \<Rightarrow> prog" where
  "h_logout e c =
     json 200 [(''message'', Val (JStr ''Logout successful'')),
               (''code'', Val (JStr ''LOGOUT_SUCCESS''))]"

subsection \<open>Staff\<close>

text \<open>
  The handlers behind \<open>authenticateToken\<close> read \<open>req.user\<close>; where a handler would
  read a property of a missing \<open>req.user\<close> it throws, which its \<open>catch\<close> answers.
\<close>

definition is_role :: "obj \<Rightarrow> string \<Rightarrow> bool" where
  "is_role u r = (get u ''role'' = JStr r)"

definition staff_with_role :: "obj \<Rightarrow> obj" where
  "staff_with_role m =
     set_prop ''role'' (orElse (get m ''position'') (orElse (get m ''role'') (JStr ''staff''))) m"

definition h_get_staff :: "env \<Rightarrow> ctx \<Rightarrow> prog" where
  "h_get_staff e c =
     (case user c of
        None \<Rightarrow> internal ''Internal server error''
      | Some u \<Rightarrow>
          (if \<not> client e then unavailable ''Database connection not available''
           else
             (let q0 = order ''created_at'' False
                         (eqs [(''is_active'', JBool True)] (from_table ''staff'' ''*''));
                  q = (if is_role u ''manager'' \<and> truthy (get u ''store_id'')
                       then eq ''store_id'' (get u ''store_id'') q0
                       else if is_role u ''super_admin''
                       then (if truthy (qparam c ''store_id'')
                             then eq ''store_id'' (qparam c ''store_id'') q0 else q0)
                       else q0)
              in Db (SelectRows q)
                   (\<lambda>r. case d_error r of
                           Some er \<Rightarrow>
                             json 500 (err ''Failed to fetch staff from database'' ''DB_ERROR'' @
                                       details er)
                         | None \<Rightarrow>
                             (case rows_of (d_data r) of
                                None \<Rightarrow> internal ''Internal server error''
                              | Some rs \<Rightarrow>
                                  json 200 ([(''staff'', Rows (map staff_with_role rs)),
                                             (''count'', Val (count_rows rs))] @ timestamp e))))))"

definition quoted :: "string \<Rightarrow> string \<Rightarrow> string \<Rightarrow> string" where
  "quoted pre s post = pre @ [CHR 0x22] @ s @ [CHR 0x22] @ post"

text \<open>The store check of the creating handlers, for managers.\<close>

definition wrong_store :: "obj \<Rightarrow> jsval \<Rightarrow> bool" where
  "wrong_store u store_id =
     (is_role u ''manager'' \<and> truthy (get u ''store_id'') \<and> store_id \<noteq> get u ''store_id'')"

definition staff_insert :: "env \<Rightarrow> ctx \<Rightarrow> obj \<Rightarrow> string \<Rightarrow> prog" where
  "staff_insert e c u sid =
     (case (js_trim (bparam c ''name''), js_trim (bparam c ''passcode'')) of
        (Some nm, Some pc) \<Rightarrow>
          Db (InsertSingle ''staff''
                [(''name'', JStr nm), (''staff_id'', JStr (toUpperCase e sid)),
                 (''store_id'', bparam c ''store_id''), (''passcode'', JStr pc),
                 (''image_url'', orElse (bparam c ''image_url'') JNull),
                 (''role'', orElse (bparam c ''role'') (JStr ''staff'')),
                 (''hourly_rate'', (if truthy (bparam c ''hourly_rate'')
                                    then parseFloat e (bparam c ''hourly_rate'') else JNum 15)),
                 (''is_active'', JBool True), (''created_by'', get u ''id''),
                 (''created_at'', JStr (now e)), (''updated_at'', JStr (now e))]
                ''*'')
            (\<lambda>r. case d_error r of
                    Some er \<Rightarrow>
                      json 400 (err ''Failed to create staff member in database''
                                    ''DB_INSERT_ERROR'' @ details er)
                  | None \<Rightarrow>
                      (case row_of (d_data r) of
                         None \<Rightarrow> internal ''Internal server error''
                       | Some st \<Rightarrow>
                           json 201 [(''message'', Val (JStr ''Staff member created successfully'')),
                                     (''staff'', Obj st)]))
      | _ \<Rightarrow> internal ''Internal server error'')"

definition h_post_staff :: "env \<Rightarrow> ctx \<Rightarrow> prog" where
  "h_post_staff e c =
     (case user c of
        None \<Rightarrow> internal ''Internal server error''
      | Some u \<Rightarrow>
          (if \<not> truthy (bparam c ''name'') \<or> \<not> truthy (bparam c ''staff_id'') \<or>
              \<not> truthy (bparam c ''store_id'') \<or> \<not> truthy (bparam c ''passcode'')
           then json 400 (err ''Name, staff ID, store ID, and passcode are required''
                              ''MISSING_FIELDS'')
           else if wrong_store u (bparam c ''store_id'')
           then json 403 (err ''Managers can only create staff for their assigned store''
                              ''STORE_ACCESS_DENIED'')
           else if \<not> client e then unavailable ''Database connection not available''
           else
             (case js_trim (bparam c ''staff_id'') of
                None \<Rightarrow> internal ''Internal server error''
              | Some sid \<Rightarrow>
                  Db (SelectSingle (eqs [(''staff_id'', JStr (toUpperCase e sid)),
                                         (''is_active'', JBool True)]
                                      (from_table ''staff'' ''id, staff_id, store_id'')))
                    (\<lambda>r. case (case d_error r of
                                  None \<Rightarrow> None
                                | Some er \<Rightarrow> if e_code er \<noteq> ''PGRST116'' then Some er else None) of
                            Some er \<Rightarrow>
                              json 500 (err ''Database query error'' ''DB_CHECK_ERROR'' @ details er)
                          | None \<Rightarrow>
                              (if row_of (d_data r) \<noteq> None
                               then json 409
                                      (err (quoted ''Staff ID ''
                                              (case bparam c ''staff_id'' of JStr t \<Rightarrow> t | _ \<Rightarrow> [])
                                              '' already exists'')
                                           ''STAFF_ID_EXISTS'')
                               else staff_insert e c u sid)))))"

text \<open>
  The updating and the deleting handlers of staff, products and companies share one
  shape; they differ in the table, the selected columns and the texts.
\<close>

definition update_data :: "env \<Rightarrow> ctx \<Rightarrow> obj" where
  "update_data e c =
     del_prop ''created_by'' (del_prop ''created_at'' (del_prop ''id''
       (set_prop ''updated_at'' (JStr (now e)) (body (req c)))))"

definition put_row ::
  "env \<Rightarrow> ctx \<Rightarrow> string \<Rightarrow> string \<Rightarrow> string \<Rightarrow> string \<Rightarrow> string \<Rightarrow> string \<Rightarrow> string \<Rightarrow> string \<Rightarrow> prog" where
  "put_row e c table cols idparam failed missing missing_code okmsg okfield =
     (if \<not> client e then unavailable ''Database connection not available''
      else
        Db (UpdateSingle table (update_data e c) [(''id'', param c idparam)] cols)
          (\<lambda>r. case d_error r of
                  Some er \<Rightarrow> json 400 (err failed ''DB_UPDATE_ERROR'' @ details er)
                | None \<Rightarrow>
                    (case row_of (d_data r) of
                       None \<Rightarrow> json 404 (err missing missing_code)
                     | Some row \<Rightarrow> json 200 [(''message'', Val (JStr okmsg)), (okfield, Obj row)])))"

definition delete_row ::
  "env \<Rightarrow> ctx \<Rightarrow> string \<Rightarrow> string \<Rightarrow> string \<Rightarrow> string \<Rightarrow> string \<Rightarrow> string \<Rightarrow> prog" where
  "delete_row e c table idparam failed missing missing_code okmsg =
     (if \<not> client e then unavailable ''Database connection not available''
      else
        Db (UpdateSingle table [(''is_active'', JBool False), (''updated_at'', JStr (now e))]
              [(''id'', param c idparam)] ''*'')
          (\<lambda>r. case d_error r of
                  Some er \<Rightarrow> json 400 (err failed ''DB_DELETE_ERROR'')
                | None \<Rightarrow>
                    (case row_of (d_data r) of
                       None \<Rightarrow> json 404 (err missing missing_code)
                     | Some row \<Rightarrow> json 200 [(''message'', Val (JStr okmsg))])))"

definition h_put_staff :: "env \<Rightarrow> ctx \<Rightarrow> prog" where
  "h_put_staff e c =
     put_row e c ''staff'' ''*'' ''staffId'' ''Failed to update staff member''
       ''Staff member not found'' ''STAFF_NOT_FOUND'' ''Staff member updated successfully'' ''staff''"

definition h_delete_staff :: "env \<Rightarrow> ctx \<Rightarrow> prog" where
  "h_delete_staff e c =
     delete_row e c ''staff'' ''staffId'' ''Failed to delete staff member''
       ''Staff member not found'' ''STAFF_NOT_FOUND'' ''Staff member deleted successfully''"

subsection \<open>Stores and users\<close>

definition h_get_stores :: "env \<Rightarrow> ctx \<Rightarrow> prog" where
  "h_get_stores e c =
     (case user c of
        None \<Rightarrow> internal ''Internal server error''
      | Some u \<Rightarrow>
          (if \<not> client e then unavailable ''Database connection not available''
           else
             (let company_id = qparam c ''company_id'';
                  q0 = order ''created_at'' False
                         (eqs [(''is_active'', JBool True)] (from_table ''stores'' ''*''));
                  q = (if is_role u ''super_admin''
                       then (if truthy company_id then eq ''company_id'' company_id q0 else q0)
                       else if is_role u ''manager''
                       then (if truthy (get u ''company_id'')
                             then eq ''company_id'' (get u ''company_id'') q0
                             else if truthy (get u ''store_id'')
                             then eq ''id'' (get u ''store_id'') q0
                             else q0)
                       else if truthy (get u ''store_id'')
                       then eq ''id'' (get u ''store_id'') q0
                       else q0)
              in Db (SelectRows q)
                   (\<lambda>r. case d_error r of
                           Some er \<Rightarrow>
                             json 500 (err ''Failed to fetch stores from database'' ''DB_ERROR'' @
                                       details er)
                         | None \<Rightarrow>
                             json 200 ([(''stores'', Rows (rows_or_empty (d_data r))),
                                        (''count'', Val (count_rows (rows_or_empty (d_data r))))] @
                                       timestamp e)))))"

definition h_post_stores :: "env \<Rightarrow> ctx \<Rightarrow> prog" where
  "h_post_stores e c =
     (if \<not> truthy (bparam c ''name'') \<or> \<not> truthy (bparam c ''company_id'')
      then json 400 (err ''Store name and company ID are required'' ''MISSING_FIELDS'')
      else if \<not> client e then unavailable ''Database connection not available''
      else
        Db (SelectSingle (eqs [(''id'', bparam c ''company_id'')] (from_table ''companies'' ''name'')))
          (\<lambda>rc. case (js_trim (bparam c ''name''), opt_trim (bparam c ''address''),
                       opt_trim (bparam c ''phone'')) of
                   (Some nm, Some ad, Some ph) \<Rightarrow>
                     Db (InsertSingle ''stores''
                           [(''name'', JStr nm), (''address'', ad), (''phone'', ph),
                            (''manager_id'', orElse (bparam c ''manager_id'') JNull),
                            (''company_id'', bparam c ''company_id''),
                            (''company_name'',
                               orElse (case row_of (d_data rc) of
                                         None \<Rightarrow> JUndefined | Some co \<Rightarrow> get co ''name'')
                                      (JStr ''Unknown Company'')),
                            (''is_active'', JBool True), (''created_at'', JStr (now e)),
                            (''updated_at'', JStr (now e))]
                           ''*'')
                       (\<lambda>r. case d_error r of
                               Some er \<Rightarrow>
                                 json 400 (err ''Failed to create store'' ''DB_INSERT_ERROR'' @
                                           details er)
                             | None \<Rightarrow>
                                 (case row_of (d_data r) of
                                    None \<Rightarrow> internal ''Internal server error''
                                  | Some st \<Rightarrow>
                                      json 201 [(''message'', Val (JStr ''Store created successfully'')),
                                                (''store'', Obj st)]))
                 | _ \<Rightarrow> internal ''Internal server error''))"

text \<open>
  \<open>GET /users\<close>: \<open>page\<close> and \<open>limit\<close> default to 1 and 50 when the query does not
  give them; of the pagination, \<open>totalPages\<close> (a quotient of coerced numbers) is left out.
\<close>

definition with_default :: "jsval \<Rightarrow> jsval \<Rightarrow> jsval" where
  "with_default v d = (if v = JUndefined then d else v)"

definition h_get_users :: "env \<Rightarrow> ctx \<Rightarrow> prog" where
  "h_get_users e c =
     (if \<not> client e then unavailable ''Database unavailable''
      else
        (let page = with_default (qparam c ''page'') (JNum 1);
             limit = with_default (qparam c ''limit'') (JNum 50);
             q0 = from_table ''users''
                    ''id, email, name, role, phone, is_active, created_at, last_login'';
             q1 = (if truthy (qparam c ''role'') then eq ''role'' (qparam c ''role'') q0 else q0);
             q2 = (if qparam c ''active'' \<noteq> JUndefined
                   then eq ''is_active'' (JBool (qparam c ''active'' = JStr ''true'')) q1 else q1);
             q = order ''created_at'' False (q2\<lparr>q_range := Some (page, limit)\<rparr>)
         in Db (SelectRows q)
              (\<lambda>r. case d_error r of
                      Some er \<Rightarrow> json 500 (err ''Database query failed'' ''DB_ERROR'')
                    | None \<Rightarrow>
                        json 200 [(''users'', Rows (rows_or_empty (d_data r))),
                                  (''pagination'',
                                     Obj [(''page'', parseInt e page), (''limit'', parseInt e limit),
                                          (''total'', d_count r)])])))"

subsection \<open>Categories and products\<close>

text \<open>The store filter of the category and product listings.\<close>

definition store_scope :: "obj \<Rightarrow> ctx \<Rightarrow> query \<Rightarrow> query" where
  "store_scope u c q0 =
     (if is_role u ''manager'' \<and> truthy (get u ''store_id'')
      then eq ''store_id'' (get u ''store_id'') q0
      else if is_role u ''cashier'' \<and> truthy (get u ''store_id'')
      then eq ''store_id'' (get u ''store_id'') q0
      else if is_role u ''super_admin''
      then (if truthy (qparam c ''store_id'') then eq ''store_id'' (qparam c ''store_id'') q0
            else q0)
      else q0)"

definition h_get_categories :: "env \<Rightarrow> ctx \<Rightarrow> prog" where
  "h_get_categories e c =
     (case user c of
        None \<Rightarrow> internal ''Internal server error''
      | Some u \<Rightarrow>
          (if \<not> client e then unavailable ''Database connection not available''
           else
             Db (SelectRows (store_scope u c
                   (order ''name'' True
                      (eqs [(''is_active'', JBool True)] (from_table ''categories'' ''*'')))))
               (\<lambda>r. case d_error r of
                       Some er \<Rightarrow>
                         json 500 (err ''Failed to fetch categories from database'' ''DB_ERROR'' @
                                   details er)
                     | None \<Rightarrow>
                         json 200 ([(''categories'', Rows (rows_or_empty (d_data r))),
                                    (''count'', Val (count_rows (rows_or_empty (d_data r))))] @
                                   timestamp e))))"

definition h_post_categories :: "env \<Rightarrow> ctx \<Rightarrow> prog" where
  "h_post_categories e c =
     (case user c of
        None \<Rightarrow> internal ''Internal server error''
      | Some u \<Rightarrow>
          (if \<not> truthy (bparam c ''name'') \<or> \<not> truthy (bparam c ''store_id'')
           then json 400 (err ''Category name and store ID are required'' ''MISSING_FIELDS'')
           else if wrong_store u (bparam c ''store_id'')
           then json 403 (err ''Managers can only create categories for their assigned store''
                              ''STORE_ACCESS_DENIED'')
           else if \<not> client e then unavailable ''Database connection not available''
           else
             (case js_trim (bparam c ''name'') of
                None \<Rightarrow> internal ''Internal server error''
              | Some nm \<Rightarrow>
                  Db (InsertSingle ''categories''
                        [(''name'', JStr nm),
                         (''description'', orElse (bparam c ''description'') (JStr [])),
                         (''color'', orElse (bparam c ''color'') (JStr ''#3b82f6'')),
                         (''icon'', orElse (bparam c ''icon'') (JStr ''cube-outline'')),
                         (''store_id'', bparam c ''store_id''), (''is_active'', JBool True),
                         (''created_by'', get u ''id''), (''created_at'', JStr (now e)),
                         (''updated_at'', JStr (now e))]
                        ''*'')
                    (\<lambda>r. case d_error r of
                            Some er \<Rightarrow>
                              json 400 (err ''Failed to create category'' ''DB_INSERT_ERROR'' @
                                        details er)
                          | None \<Rightarrow>
                              (case row_of (d_data r) of
                                 None \<Rightarrow> internal ''Internal server error''
                               | Some ct \<Rightarrow>
                                   json 201 [(''message'', Val (JStr ''Category created successfully'')),
                                             (''category'', Obj ct)])))))"

definition product_columns :: string where
  "product_columns = ''*, categories:category_id (id, name, color, icon)''"

definition search_filter :: "string \<Rightarrow> string" where
  "search_filter s =
     ''name.ilike.%'' @ s @ ''%,sku.ilike.%'' @ s @ ''%,barcode.ilike.%'' @ s @ ''%''"

definition h_get_products :: "env \<Rightarrow> ctx \<Rightarrow> prog" where
  "h_get_products e c =
     (case user c of
        None \<Rightarrow> internal ''Internal server error''
      | Some u \<Rightarrow>
          (if \<not> client e then unavailable ''Database connection not available''
           else
             (let limit = with_default (qparam c ''limit'') (JNum 100);
                  q0 = (order ''name'' True
                          (eqs [(''is_active'', JBool True)]
                             (from_table ''products'' product_columns)))
                       \<lparr>q_limit := Some (parseInt e limit)\<rparr>;
                  q1 = store_scope u c q0;
                  q2 = (if truthy (qparam c ''category_id'')
                        then eq ''category_id'' (qparam c ''category_id'') q1 else q1);
                  q = (case map_of (query (req c)) ''search'' of
                         None \<Rightarrow> q2
                       | Some t \<Rightarrow> if t = [] then q2 else q2\<lparr>q_or := q_or q2 @ [search_filter t]\<rparr>)
              in Db (SelectRows q)
                   (\<lambda>r. case d_error r of
                           Some er \<Rightarrow>
                             json 500 (err ''Failed to fetch products from database'' ''DB_ERROR'' @
                                       details er)
                         | None \<Rightarrow>
                             json 200 ([(''products'', Rows (rows_or_empty (d_data r))),
                                        (''count'', Val (count_rows (rows_or_empty (d_data r))))] @
                                       timestamp e)))))"

definition opt_num :: "env \<Rightarrow> jsval \<Rightarrow> jsval" where
  "opt_num e v = (if truthy v then parseFloat e v else JNull)"

definition product_insert :: "env \<Rightarrow> ctx \<Rightarrow> obj \<Rightarrow> jsval \<Rightarrow> prog" where
  "product_insert e c u sku =
     (case js_trim (bparam c ''name'') of
        None \<Rightarrow> internal ''Internal server error''
      | Some nm \<Rightarrow>
          Db (InsertSingle ''products''
                [(''name'', JStr nm),
                 (''description'', orElse (bparam c ''description'') (JStr [])),
                 (''sku'', sku),
                 (''barcode'', orElse (bparam c ''barcode'') JNull),
                 (''category_id'', orElse (bparam c ''category_id'') JNull),
                 (''store_id'', bparam c ''store_id''),
                 (''default_price'', parseFloat e (bparam c ''default_price'')),
                 (''manila_price'', opt_num e (bparam c ''manila_price'')),
                 (''delivery_price'', opt_num e (bparam c ''delivery_price'')),
                 (''wholesale_price'', opt_num e (bparam c ''wholesale_price'')),
                 (''stock_quantity'', parseInt e (orElse (bparam c ''stock_quantity'') (JNum 0))),
                 (''min_stock_level'', parseInt e (orElse (bparam c ''min_stock_level'') (JNum 5))),
                 (''max_stock_level'', parseInt e (orElse (bparam c ''max_stock_level'') (JNum 100))),
                 (''unit'', orElse (bparam c ''unit'') (JStr ''pcs'')),
                 (''weight'', opt_num e (bparam c ''weight'')),
                 (''dimensions'', orElse (bparam c ''dimensions'') JNull),
                 (''image_url'', orElse (bparam c ''image_url'') JNull),
                 (''images'', orElse (bparam c ''images'') JNull),
                 (''is_active'', JBool True),
                 (''is_featured'', orElse (bparam c ''is_featured'') (JBool False)),
                 (''tags'', orElse (bparam c ''tags'') JNull),
                 (''created_by'', get u ''id''), (''created_at'', JStr (now e)),
                 (''updated_at'', JStr (now e))]
                product_columns)
            (\<lambda>r. case d_error r of
                    Some er \<Rightarrow>
                      json 400 (err ''Failed to create product'' ''DB_INSERT_ERROR'' @ details er)
                  | None \<Rightarrow>
                      (case row_of (d_data r) of
                         None \<Rightarrow> internal ''Internal server error''
                       | Some pr \<Rightarrow>
                           json 201 [(''message'', Val (JStr ''Product created successfully'')),
                                     (''product'', Obj pr)])))"

definition h_post_products :: "env \<Rightarrow> ctx \<Rightarrow> prog" where
  "h_post_products e c =
     (case user c of
        None \<Rightarrow> internal ''Internal server error''
      | Some u \<Rightarrow>
          (if \<not> truthy (bparam c ''name'') \<or> \<not> truthy (bparam c ''store_id'') \<or>
              \<not> truthy (bparam c ''default_price'')
           then json 400 (err ''Product name, store ID, and default price are required''
                              ''MISSING_FIELDS'')
           else if wrong_store u (bparam c ''store_id'')
           then json 403 (err ''Managers can only create products for their assigned store''
                              ''STORE_ACCESS_DENIED'')
           else if \<not> client e then unavailable ''Database connection not available''
           else if truthy (bparam c ''sku'')
           then
             (case bparam c ''sku'' of
                JStr t \<Rightarrow>
                  Db (SelectSingle (eqs [(''sku'', JStr (toUpperCase e (trim t))),
                                         (''is_active'', JBool True)]
                                      (from_table ''products'' ''id, sku'')))
                    (\<lambda>r. if row_of (d_data r) \<noteq> None
                          then json 409 (err (quoted ''SKU '' t '' already exists'') ''SKU_EXISTS'')
                          else product_insert e c u (JStr (toUpperCase e (trim t))))
              | _ \<Rightarrow> internal ''Internal server error'')
           else product_insert e c u JNull))"

definition h_put_products :: "env \<Rightarrow> ctx \<Rightarrow> prog" where
  "h_put_products e c =
     put_row e c ''products'' product_columns ''productId'' ''Failed to update product''
       ''Product not found'' ''PRODUCT_NOT_FOUND'' ''Product updated successfully'' ''product''"

definition h_delete_products :: "env \<Rightarrow> ctx \<Rightarrow> prog" where
  "h_delete_products e c =
     delete_row e c ''products'' ''productId'' ''Failed to delete product''
       ''Product not found'' ''PRODUCT_NOT_FOUND'' ''Product deleted successfully''"

subsection \<open>Inventory and statistics\<close>

definition h_get_movements :: "env \<Rightarrow> ctx \<Rightarrow> prog" where
  "h_get_movements e c =
     (if \<not> client e then unavailable ''Database connection not available''
      else
        (case user c of
           None \<Rightarrow> internal ''Internal server error''
         | Some u \<Rightarrow>
             (let limit = with_default (qparam c ''limit'') (JNum 50);
                  q0 = (order ''created_at'' False
                          (from_table ''inventory_movements'' ''*, products:product_id (id, name, sku)''))
                       \<lparr>q_limit := Some (parseInt e limit)\<rparr>;
                  q1 = (if is_role u ''manager'' \<and> truthy (get u ''store_id'')
                        then eq ''store_id'' (get u ''store_id'') q0 else q0);
                  q = (if truthy (qparam c ''product_id'')
                       then eq ''product_id'' (qparam c ''product_id'') q1 else q1)
              in Db (SelectRows q)
                   (\<lambda>r. case d_error r of
                           Some er \<Rightarrow>
                             json 500 (err ''Failed to fetch inventory movements'' ''DB_ERROR'' @
                                       details er)
                         | None \<Rightarrow>
                             json 200 ([(''movements'', Rows (rows_or_empty (d_data r))),
                                        (''count'', Val (count_rows (rows_or_empty (d_data r))))] @
                                       timestamp e)))))"

definition h_post_adjust :: "env \<Rightarrow> ctx \<Rightarrow> prog" where
  "h_post_adjust e c =
     (let product_id = bparam c ''product_id''; new_quantity = bparam c ''new_quantity'';
          movement_type = with_default (bparam c ''movement_type'') (JStr ''adjustment'');
          notes = with_default (bparam c ''notes'') (JStr [])
      in
      if \<not> truthy product_id \<or> new_quantity = JUndefined
      then json 400 (err ''Product ID and new quantity are required'' ''MISSING_FIELDS'')
      else if \<not> client e then unavailable ''Database connection not available''
      else
        Db (SelectSingle (eqs [(''id'', product_id)]
              (from_table ''products'' ''stock_quantity, store_id, name'')))
          (\<lambda>rp. case (d_error rp, row_of (d_data rp)) of
                   (None, Some product) \<Rightarrow>
                     Db (UpdateOnly ''products''
                           [(''stock_quantity'', new_quantity), (''updated_at'', JStr (now e))]
                           [(''id'', product_id)])
                       (\<lambda>ru. case d_error ru of
                                Some er \<Rightarrow>
                                  json 400 (err ''Failed to update product stock'' ''DB_UPDATE_ERROR'')
                              | None \<Rightarrow>
                                  (case user c of
                                     None \<Rightarrow> internal ''Internal server error''
                                   | Some u \<Rightarrow>
                                       Db (InsertSingle ''inventory_movements''
                                             [(''product_id'', product_id),
                                              (''store_id'', get product ''store_id''),
                                              (''movement_type'', movement_type),
                                              (''quantity'',
                                                 js_minus e new_quantity (get product ''stock_quantity'')),
                                              (''previous_stock'', get product ''stock_quantity''),
                                              (''new_stock'', new_quantity), (''notes'', notes),
                                              (''created_by'', get u ''id''),
                                              (''created_at'', JStr (now e))]
                                             ''*'')
                                         (\<lambda>rm. json 200
                                                  [(''message'', Val (JStr ''Stock updated successfully'')),
                                                   (''product_id'', Val product_id),
                                                   (''previous_stock'',
                                                      Val (get product ''stock_quantity'')),
                                                   (''new_stock'', Val new_quantity),
                                                   (''movement'',
                                                      (case row_of (d_data rm) of
                                                         None \<Rightarrow> Val JNull
                                                       | Some m \<Rightarrow> Obj m))])))
                 | _ \<Rightarrow> json 404 (err ''Product not found'' ''PRODUCT_NOT_FOUND'')))"

definition rpc_value :: "dbres \<Rightarrow> jsval" where
  "rpc_value r = orElse (case d_data r of DVal v \<Rightarrow> v | _ \<Rightarrow> JNull) (JNum 0)"

definition h_products_stats :: "env \<Rightarrow> ctx \<Rightarrow> prog" where
  "h_products_stats e c =
     (if \<not> client e then unavailable ''Database connection not available''
      else
        (case user c of
           None \<Rightarrow> internal ''Internal server error''
         | Some u \<Rightarrow>
             (let arg = [(''store_filter'', orElse (get u ''store_id'') JNull)] in
              Db (Rpc ''count_products'' arg) (\<lambda>r1.
              Db (Rpc ''count_categories'' arg) (\<lambda>r2.
              Db (Rpc ''count_low_stock_products'' arg) (\<lambda>r3.
              Db (Rpc ''count_out_of_stock_products'' arg) (\<lambda>r4.
                json 200 ([(''stats'', Obj [(''totalProducts'', rpc_value r1),
                                            (''totalCategories'', rpc_value r2),
                                            (''lowStockProducts'', rpc_value r3),
                                            (''outOfStockProducts'', rpc_value r4)])] @
                          timestamp e))))))))"

subsection \<open>Companies\<close>

text \<open>\<open>GET /companies\<close> as registered first.\<close>

definition h_get_companies :: "env \<Rightarrow> ctx \<Rightarrow> prog" where
  "h_get_companies e c =
     (if \<not> client e then unavailable ''Database connection not available''
      else
        Db (SelectRows (order ''created_at'' False
              (eqs [(''is_active'', JBool True)] (from_table ''companies'' ''*, stores:stores(count)''))))
          (\<lambda>r. case d_error r of
                  Some er \<Rightarrow>
                    json 500 (err ''Failed to fetch companies from database'' ''DB_ERROR'' @
                              details er)
                | None \<Rightarrow>
                    json 200 ([(''companies'', Rows (rows_or_empty (d_data r))),
                               (''count'', Val (count_rows (rows_or_empty (d_data r))))] @
                              timestamp e)))"

definition company_columns :: string where
  "company_columns =
     ''id, name, description, logo_url, website, contact_email, contact_phone, address, tax_id, email, phone, is_active, created_at, updated_at, stores:stores(count)''"

definition format_company :: "obj \<Rightarrow> obj" where
  "format_company co =
     map (\<lambda>k. (k, get co k))
       [''id'', ''name'', ''description'', ''logo_url'', ''website'', ''contact_email'',
        ''contact_phone'', ''address'', ''tax_id'', ''email'', ''phone'', ''is_active'',
        ''created_at'', ''updated_at''] @
     [(''stores_count'', orElse (get co ''stores.0.count'') (JNum 0))]"

text \<open>\<open>GET /companies\<close> as registered second.\<close>

definition h_get_companies_scoped :: "env \<Rightarrow> ctx \<Rightarrow> prog" where
  "h_get_companies_scoped e c =
     (case user c of
        None \<Rightarrow> internal ''Internal server error''
      | Some u \<Rightarrow>
          (if \<not> client e then unavailable ''Database connection not available''
           else
             (let q0 = order ''created_at'' False
                         (eqs [(''is_active'', JBool True)] (from_table ''companies'' company_columns));
                  listing = (\<lambda>q.
                    Db (SelectRows q)
                      (\<lambda>r. case d_error r of
                              Some er \<Rightarrow>
                                json 500 (err ''Failed to fetch companies from database''
                                              ''DB_ERROR'' @ details er)
                            | None \<Rightarrow>
                                (let cs = map format_company (rows_or_empty (d_data r))
                                 in json 200 ([(''companies'', Rows cs),
                                               (''count'', Val (count_rows cs))] @ timestamp e))))
              in if is_role u ''super_admin'' then listing q0
                 else if truthy (get u ''company_id'')
                 then listing (eq ''id'' (get u ''company_id'') q0)
                 else json 200 ([(''companies'', Rows []), (''count'', Val (JNum 0))] @
                                timestamp e))))"

text \<open>Of the new company's row the empty \<open>settings\<close> object is left out.\<close>

definition h_post_companies :: "env \<Rightarrow> ctx \<Rightarrow> prog" where
  "h_post_companies e c =
     (if \<not> truthy (bparam c ''name'')
      then json 400 (err ''Company name is required'' ''MISSING_FIELDS'')
      else if \<not> client e then unavailable ''Database connection not available''
      else
        (case bparam c ''name'' of
           JStr t \<Rightarrow>
             Db (SelectSingle (eqs [(''name'', JStr (trim t)), (''is_active'', JBool True)]
                                 (from_table ''companies'' ''id, name'')))
               (\<lambda>rc. if row_of (d_data rc) \<noteq> None
                      then json 409 (err (quoted ''Company '' t '' already exists'') ''COMPANY_EXISTS'')
                      else
                        (case user c of
                           None \<Rightarrow> internal ''Internal server error''
                         | Some u \<Rightarrow>
                             Db (InsertSingle ''companies''
                                   [(''name'', JStr (trim t)),
                                    (''description'', orElse (bparam c ''description'') JNull),
                                    (''logo_url'', orElse (bparam c ''logo_url'') JNull),
                                    (''website'', orElse (bparam c ''website'') JNull),
                                    (''contact_email'',
                                       orElse (orElse (bparam c ''contact_email'') (bparam c ''email'')) JNull),
                                    (''contact_phone'',
                                       orElse (orElse (bparam c ''contact_phone'') (bparam c ''phone'')) JNull),
                                    (''address'', orElse (bparam c ''address'') JNull),
                                    (''tax_id'', orElse (bparam c ''tax_id'') JNull),
                                    (''email'', orElse (bparam c ''email'') JNull),
                                    (''phone'', orElse (bparam c ''phone'') JNull),
                                    (''is_active'', JBool True), (''created_by'', get u ''id''),
                                    (''created_at'', JStr (now e)), (''updated_at'', JStr (now e))]
                                   ''*'')
                               (\<lambda>r. case d_error r of
                                       Some er \<Rightarrow>
                                         json 400 (err ''Failed to create company''
                                                       ''DB_INSERT_ERROR'' @ details er)
                                     | None \<Rightarrow>
                                         (case row_of (d_data r) of
                                            None \<Rightarrow> internal ''Internal server error''
                                          | Some co \<Rightarrow>
                                              json 201
                                                [(''message'', Val (JStr ''Company created successfully'')),
                                                 (''company'', Obj co)]))))
         | _ \<Rightarrow> internal ''Internal server error''))"

definition h_put_companies :: "env \<Rightarrow> ctx \<Rightarrow> prog" where
  "h_put_companies e c =
     put_row e c ''companies'' ''*'' ''companyId'' ''Failed to update company''
       ''Company not found'' ''COMPANY_NOT_FOUND'' ''Company updated successfully'' ''company''"

definition h_delete_companies :: "env \<Rightarrow> ctx \<Rightarrow> prog" where
  "h_delete_companies e c =
     delete_row e c ''companies'' ''companyId'' ''Failed to delete company''
       ''Company not found'' ''COMPANY_NOT_FOUND'' ''Company deleted successfully''"

section \<open>Routes and dispatch\<close>

text \<open>
  The routes in the order of their registration. Express runs the first route whose
  verb and path match; its middleware run in order, each answering or calling the next,
  and the handler answers. No handler calls \<open>next()\<close>, so a later route of the same
  verb and path is never tried. \<open>rpath\<close> holds the segments of the request's path;
  literal segments are compared as they are. The middleware registered for all routes
  (CORS, body parsing, logging) passes every request on and is left out, as are the
  verbs other than the four the routes are registered for.
\<close>

datatype seg = Lit string | Var string

datatype middleware = AuthenticateToken | OptionalAuthentication | RequireRole roles_arg

datatype handler =
    H_root | H_health | H_sync_users | H_sync_all | H_login
  | H_get_staff | H_post_staff | H_put_staff | H_delete_staff
  | H_get_stores | H_post_stores | H_sync_all_tables | H_register | H_profile | H_logout
  | H_get_users | H_get_categories | H_post_categories
  | H_get_products | H_post_products | H_put_products | H_delete_products
  | H_get_movements | H_post_adjust | H_products_stats
  | H_get_companies | H_get_companies_scoped | H_post_companies | H_put_companies
  | H_delete_companies

datatype route = Route http_method "seg list" "middleware list" handler

definition admin_manager :: "middleware list" where
  "admin_manager = [AuthenticateToken, RequireRole (RoleList [''super_admin'', ''manager''])]"

definition admin_manager_cashier :: "middleware list" where
  "admin_manager_cashier =
     [AuthenticateToken, RequireRole (RoleList [''super_admin'', ''manager'', ''cashier''])]"

definition admin_only :: "middleware list" where
  "admin_only = [AuthenticateToken, RequireRole (RoleList [''super_admin''])]"

definition routes :: "route list" where
  "routes =
     [Route GET [] [] H_root,
      Route GET [Lit ''health''] [] H_health,
      Route GET [Lit ''sync'', Lit ''users''] [] H_sync_users,
      Route GET [Lit ''sync'', Lit ''all''] [] H_sync_all,
      Route POST [Lit ''auth'', Lit ''login''] [] H_login,
      Route GET [Lit ''staff''] admin_manager H_get_staff,
      Route POST [Lit ''staff''] admin_manager H_post_staff,
      Route PUT [Lit ''staff'', Var ''staffId''] admin_manager H_put_staff,
      Route DELETE [Lit ''staff'', Var ''staffId''] admin_manager H_delete_staff,
      Route GET [Lit ''stores''] [AuthenticateToken] H_get_stores,
      Route POST [Lit ''stores''] admin_only H_post_stores,
      Route GET [Lit ''sync'', Lit ''all''] [] H_sync_all_tables,
      Route POST [Lit ''auth'', Lit ''register''] [] H_register,
      Route GET [Lit ''auth'', Lit ''profile''] [AuthenticateToken] H_profile,
      Route POST [Lit ''auth'', Lit ''logout''] [OptionalAuthentication] H_logout,
      Route GET [Lit ''users''] admin_manager H_get_users,
      Route GET [Lit ''categories''] admin_manager_cashier H_get_categories,
      Route POST [Lit ''categories''] admin_manager H_post_categories,
      Route GET [Lit ''products''] admin_manager_cashier H_get_products,
      Route POST [Lit ''products''] admin_manager H_post_products,
      Route PUT [Lit ''products'', Var ''productId''] admin_manager H_put_products,
      Route DELETE [Lit ''products'', Var ''productId''] admin_manager H_delete_products,
      Route GET [Lit ''inventory'', Lit ''movements''] admin_manager H_get_movements,
      Route POST [Lit ''inventory'', Lit ''adjust''] admin_manager H_post_adjust,
      Route GET [Lit ''products'', Lit ''stats''] admin_manager_cashier H_products_stats,
      Route GET [Lit ''companies''] admin_only H_get_companies,
      Route GET [Lit ''companies''] [AuthenticateToken] H_get_companies_scoped,
      Route POST [Lit ''companies''] admin_only H_post_companies,
      Route PUT [Lit ''companies'', Var ''companyId''] admin_only H_put_companies,
      Route DELETE [Lit ''companies'', Var ''companyId''] admin_only H_delete_companies]"

fun match_path :: "seg list \<Rightarrow> string list \<Rightarrow> (string \<times> string) list option" where
  "match_path [] [] = Some []"
| "match_path (Lit s # ps) (x # xs) = (if x = s then match_path ps xs else None)"
| "match_path (Var v # ps) (x # xs) =
     (if x = [] then None else map_option ((#) (v, x)) (match_path ps xs))"
| "match_path _ _ = None"

fun find_route :: "route list \<Rightarrow> request \<Rightarrow> (route \<times> (string \<times> string) list) option" where
  "find_route [] rq = None"
| "find_route (Route m p mws h # rs) rq =
     (if m = rmethod rq
      then (case match_path p (rpath rq) of
              Some ps \<Rightarrow> Some (Route m p mws h, ps)
            | None \<Rightarrow> find_route rs rq)
      else find_route rs rq)"

fun run_middleware :: "env \<Rightarrow> middleware \<Rightarrow> ctx \<Rightarrow> mw_result" where
  "run_middleware e AuthenticateToken c = authenticateToken (jwt_verify e) c"
| "run_middleware e OptionalAuthentication c = optionalAuthentication (jwt_verify e) c"
| "run_middleware e (RequireRole rs) c = requireRole rs c"

fun run_chain :: "env \<Rightarrow> middleware list \<Rightarrow> ctx \<Rightarrow> mw_result" where
  "run_chain e [] c = Next c"
| "run_chain e (m # ms) c =
     (case run_middleware e m c of Reply r \<Rightarrow> Reply r | Next c' \<Rightarrow> run_chain e ms c')"

definition not_found :: response where
  "not_found = \<lparr>status = 404, rbody = err ''Endpoint not found'' ''NOT_FOUND''\<rparr>"

text \<open>
  \<open>dispatch\<close> gives the handler that runs and the request it sees, or the response of
  the middleware (or of the 404 handler) that answered before any handler ran.
\<close>

definition dispatch :: "env \<Rightarrow> request \<Rightarrow> (handler \<times> ctx) + response" where
  "dispatch e rq =
     (case find_route routes rq of
        None \<Rightarrow> Inr not_found
      | Some (Route m p mws h, ps) \<Rightarrow>
          (case run_chain e mws \<lparr>req = rq, params = ps, user = None\<rparr> of
             Reply r \<Rightarrow> Inr r
           | Next c \<Rightarrow> Inl (h, c)))"

fun handler_prog :: "handler \<Rightarrow> env \<Rightarrow> ctx \<Rightarrow> prog" where
  "handler_prog H_root = h_root"
| "handler_prog H_health = h_health"
| "handler_prog H_sync_users = h_sync_users"
| "handler_prog H_sync_all = h_sync_all"
| "handler_prog H_login = h_login"
| "handler_prog H_get_staff = h_get_staff"
| "handler_prog H_post_staff = h_post_staff"
| "handler_prog H_put_staff = h_put_staff"
| "handler_prog H_delete_staff = h_delete_staff"
| "handler_prog H_get_stores = h_get_stores"
| "handler_prog H_post_stores = h_post_stores"
| "handler_prog H_sync_all_tables = h_sync_all_tables"
| "handler_prog H_register = h_register"
| "handler_prog H_profile = h_profile"
| "handler_prog H_logout = h_logout"
| "handler_prog H_get_users = h_get_users"
| "handler_prog H_get_categories = h_get_categories"
| "handler_prog H_post_categories = h_post_categories"
| "handler_prog H_get_products = h_get_products"
| "handler_prog H_post_products = h_post_products"
| "handler_prog H_put_products = h_put_products"
| "handler_prog H_delete_products = h_delete_products"
| "handler_prog H_get_movements = h_get_movements"
| "handler_prog H_post_adjust = h_post_adjust"
| "handler_prog H_products_stats = h_products_stats"
| "handler_prog H_get_companies = h_get_companies"
| "handler_prog H_get_companies_scoped = h_get_companies_scoped"
| "handler_prog H_post_companies = h_post_companies"
| "handler_prog H_put_companies = h_put_companies"
| "handler_prog H_delete_companies = h_delete_companies"

definition serve :: "env \<Rightarrow> request \<Rightarrow> prog" where
  "serve e rq =
     (case dispatch e rq of
        Inr r \<Rightarrow> Respond r
      | Inl (h, c) \<Rightarrow> handler_prog h e c)"

text \<open>
  The server handling requests one after the other: each with the environment it
  finds, against the database state the earlier ones left.
\<close>

fun serve_all ::
  "(dbop \<Rightarrow> 's \<Rightarrow> dbres \<times> 's) \<Rightarrow> (env \<times> request) list \<Rightarrow> 's \<Rightarrow> response list \<times> 's" where
  "serve_all exec [] s = ([], s)"
| "serve_all exec ((e, rq) # rest) s =
     (case run exec (serve e rq) s of
        (r, s', ops) \<Rightarrow> (case serve_all exec rest s' of (rs, s'') \<Rightarrow> (r # rs, s'')))"

text \<open>The rows a response carries.\<close>

fun field_rows :: "field \<Rightarrow> obj list" where
  "field_rows (Rows rs) = rs"
| "field_rows (Obj ob) = []"
| "field_rows (Val v) = []"
| "field_rows (Strs ss) = []"

definition response_rows :: "response \<Rightarrow> obj list" where
  "response_rows r = concat (map (\<lambda>kv. field_rows (snd kv)) (rbody r))"

section \<open>A sample environment and database\<close>

text \<open>
  Stand-ins for the external parts, to evaluate the handlers at concrete requests:
  a token library that knows a few tokens, and an in-memory database whose list
  queries return the rows that satisfy the \<open>.eq\<close> filters.
\<close>

definition sample_claims :: "string \<Rightarrow> string \<Rightarrow> obj" where
  "sample_claims email role = [(''id'', JNum 2), (''email'', JStr email), (''role'', JStr role)]"

definition sample_verify :: "string \<Rightarrow> verify_result" where
  "sample_verify t =
     (if t = ''manager'' then Decoded (sample_claims ''manager@techcorp.com'' ''manager'')
      else if t = ''manager7''
      then Decoded (sample_claims ''manager@techcorp.com'' ''manager'' @ [(''store_id'', JNum 7)])
      else if t = ''cashier7''
      then Decoded (sample_claims ''cashier@techcorp.com'' ''cashier'' @ [(''store_id'', JNum 7)])
      else if t = ''admin'' then Decoded (sample_claims ''admin@techcorp.com'' ''super_admin'')
      else if t = ''old'' then VerifyError ''TokenExpiredError''
      else if t = ''early'' then VerifyError ''NotBeforeError''
      else if t = ''garbled'' then VerifyError ''SyntaxError''
      else VerifyError ''JsonWebTokenError'')"

definition sample_sign :: "obj \<Rightarrow> string option" where
  "sample_sign claims =
     Some (''token:'' @ (case get claims ''email'' of JStr m \<Rightarrow> m | _ \<Rightarrow> []))"

definition sample_upper :: "string \<Rightarrow> string" where
  "sample_upper s =
     map (\<lambda>c. case map_of (zip ''abcdefghijklmnopqrstuvwxyz'' ''ABCDEFGHIJKLMNOPQRSTUVWXYZ'') c of
                None \<Rightarrow> c | Some d \<Rightarrow> d) s"

definition sample_env :: "bool \<Rightarrow> env" where
  "sample_env up =
     \<lparr>client = up, now = ''2025-01-01T00:00:00.000Z'', jwt_sign = sample_sign,
      jwt_verify = sample_verify, bcrypt_hash = (\<lambda>p. ''hash:'' @ p),
      bcrypt_compare = (\<lambda>p h. h = ''hash:'' @ p), parseInt = (\<lambda>v. v), parseFloat = (\<lambda>v. v),
      js_minus = (\<lambda>a b. case (a, b) of (JNum x, JNum y) \<Rightarrow> JNum (x - y) | _ \<Rightarrow> JUndefined),
      toUpperCase = sample_upper\<rparr>"

type_synonym database = "(string \<times> obj list) list"

definition table :: "database \<Rightarrow> string \<Rightarrow> obj list" where
  "table db t = (case map_of db t of None \<Rightarrow> [] | Some rs \<Rightarrow> rs)"

definition matches :: "(string \<times> jsval) list \<Rightarrow> obj \<Rightarrow> bool" where
  "matches fs row = list_all (\<lambda>kv. get row (fst kv) = snd kv) fs"

definition apply_changes :: "obj \<Rightarrow> obj \<Rightarrow> obj" where
  "apply_changes changes row = fold (\<lambda>kv r. set_prop (fst kv) (snd kv) r) changes row"

definition no_rows :: dberror where
  "no_rows = \<lparr>e_message = ''no rows or more than one row'', e_code = ''PGRST116''\<rparr>"

definition single :: "obj list \<Rightarrow> dbres" where
  "single rs =
     (case rs of
        [r] \<Rightarrow> \<lparr>d_data = DRow r, d_error = None, d_count = JNull\<rparr>
      | _ \<Rightarrow> \<lparr>d_data = DNull, d_error = Some no_rows, d_count = JNull\<rparr>)"

definition store_table :: "string \<Rightarrow> obj list \<Rightarrow> database \<Rightarrow> database" where
  "store_table t rs db = (t, rs) # filter (\<lambda>kv. fst kv \<noteq> t) db"

fun sample_exec :: "dbop \<Rightarrow> database \<Rightarrow> dbres \<times> database" where
  "sample_exec (SelectRows q) db =
     (\<lparr>d_data = DRows (filter (matches (q_eq q)) (table db (q_table q))), d_error = None,
       d_count = JNull\<rparr>, db)"
| "sample_exec (SelectSingle q) db = (single (filter (matches (q_eq q)) (table db (q_table q))), db)"
| "sample_exec (CountHead t) db =
     (\<lparr>d_data = DNull, d_error = None, d_count = JNum (int (length (table db t)))\<rparr>, db)"
| "sample_exec (InsertSingle t row cols) db =
     (\<lparr>d_data = DRow row, d_error = None, d_count = JNull\<rparr>, store_table t (table db t @ [row]) db)"
| "sample_exec (UpdateSingle t changes fs cols) db =
     (single (map (apply_changes changes) (filter (matches fs) (table db t))),
      store_table t (map (\<lambda>r. if matches fs r then apply_changes changes r else r) (table db t)) db)"
| "sample_exec (UpdateOnly t changes fs) db =
     (\<lparr>d_data = DNull, d_error = None, d_count = JNull\<rparr>,
      store_table t (map (\<lambda>r. if matches fs r then apply_changes changes r else r) (table db t)) db)"
| "sample_exec (Rpc f args) db = (\<lparr>d_data = DVal (JNum 0), d_error = None, d_count = JNull\<rparr>, db)"

definition sample_db :: database where
  "sample_db =
     [(''staff'',
         [[(''id'', JNum 1), (''name'', JStr ''Ana''), (''store_id'', JNum 7), (''is_active'', JBool True)],
          [(''id'', JNum 2), (''name'', JStr ''Ben''), (''store_id'', JNum 9), (''is_active'', JBool True)]]),
      (''products'',
         [[(''id'', JStr ''41''), (''name'', JStr ''Tea''), (''store_id'', JNum 7), (''is_active'', JBool True)],
          [(''id'', JStr ''42''), (''name'', JStr ''Rice''), (''store_id'', JNum 9), (''is_active'', JBool True)]]),
      (''stores'',
         [[(''id'', JNum 7), (''name'', JStr ''North''), (''company_id'', JNum 1), (''is_active'', JBool True)],
          [(''id'', JNum 9), (''name'', JStr ''South''), (''company_id'', JNum 2), (''is_active'', JBool True)]]),
      (''users'',
         [[(''id'', JNum 5), (''email'', JStr ''ana@shop.ph''), (''password'', JStr ''hash:secret1''),
           (''role'', JStr ''cashier''), (''is_active'', JBool True)]])]"

text \<open>A database honours the filters when a list query returns only rows that satisfy them.\<close>

definition honours_eq :: "(dbop \<Rightarrow> 's \<Rightarrow> dbres \<times> 's) \<Rightarrow> bool" where
  "honours_eq exec =
     (\<forall>q s. list_all (matches (q_eq q)) (rows_or_empty (d_data (fst (exec (SelectRows q) s)))))"

definition get_request :: "string list \<Rightarrow> string \<Rightarrow> (string \<times> string) list \<Rightarrow> request" where
  "get_request p tok qs =
     \<lparr>rmethod = GET, rpath = p, authorization = Some (''Bearer '' @ tok), body = [], query = qs\<rparr>"

definition write_request :: "http_method \<Rightarrow> string list \<Rightarrow> string \<Rightarrow> obj \<Rightarrow> request" where
  "write_request m p tok b =
     \<lparr>rmethod = m, rpath = p, authorization = Some (''Bearer '' @ tok), body = b, query = []\<rparr>"

definition anonymous :: "http_method \<Rightarrow> string list \<Rightarrow> obj \<Rightarrow> request" where
  "anonymous m p b = \<lparr>rmethod = m, rpath = p, authorization = None, body = b, query = []\<rparr>"

section \<open>Properties\<close>

subsection \<open>Characters above the ASCII range\<close>

text \<open>
  The no-break space is white space for the email pattern and for \<open>trim\<close>, the next
  line character U+0085 is not; \<open>toLowerCase\<close> maps the capital letters U+00C9 and
  U+00DE and keeps the multiplication sign and the sharp s.
\<close>

lemma latin1_characters:
  "is_space (CHR 0xA0) \<and> \<not> is_space (CHR 0x85) \<and>
   trim ([CHR 0xA0] @ ''Bea '' @ [CHR 0xA0]) = ''Bea'' \<and>
   \<not> emailRegex_test (JStr (''a'' @ [CHR 0xA0] @ ''b@shop.ph'')) \<and>
   emailRegex_test (JStr (''a'' @ [CHR 0x85] @ ''b@shop.ph'')) \<and>
   toLowerCase [CHR 0xC9, CHR 0xD7, CHR 0xDE, CHR 0xDF] = [CHR 0xE9, CHR 0xD7, CHR 0xFE, CHR 0xDF]"
  by (simp add: is_space_def trim_def emailRegex_def toLowerCase_def lower_char_def)

subsection \<open>What the middleware chains let through\<close>

lemma chain_admin_manager:
  "run_chain e admin_manager c = Next c' \<Longrightarrow>
     \<exists>t u. bearer_token (authorization (req c)) = Some t \<and> jwt_verify e t = Decoded u \<and>
           c' = c\<lparr>user := Some u\<rparr> \<and> get u ''role'' \<in> JStr ` {''super_admin'', ''manager''}"
  by (auto simp: admin_manager_def authenticateToken_def requireRole_def js_includes_def
           split: option.splits verify_result.splits if_splits)

lemma chain_admin_manager_cashier:
  "run_chain e admin_manager_cashier c = Next c' \<Longrightarrow>
     \<exists>t u. bearer_token (authorization (req c)) = Some t \<and> jwt_verify e t = Decoded u \<and>
           c' = c\<lparr>user := Some u\<rparr> \<and>
           get u ''role'' \<in> JStr ` {''super_admin'', ''manager'', ''cashier''}"
  by (auto simp: admin_manager_cashier_def authenticateToken_def requireRole_def js_includes_def
           split: option.splits verify_result.splits if_splits)

lemma chain_admin_only:
  "run_chain e admin_only c = Next c' \<Longrightarrow>
     \<exists>t u. bearer_token (authorization (req c)) = Some t \<and> jwt_verify e t = Decoded u \<and>
           c' = c\<lparr>user := Some u\<rparr> \<and> get u ''role'' = JStr ''super_admin''"
  by (auto simp: admin_only_def authenticateToken_def requireRole_def js_includes_def
           split: option.splits verify_result.splits if_splits)

lemma chain_auth_only:
  "run_chain e [AuthenticateToken] c = Next c' \<Longrightarrow>
     \<exists>t u. bearer_token (authorization (req c)) = Some t \<and> jwt_verify e t = Decoded u \<and>
           c' = c\<lparr>user := Some u\<rparr>"
  by (auto simp: authenticateToken_def split: option.splits verify_result.splits)

lemma chain_optional:
  "run_chain e [OptionalAuthentication] c = Next c' \<Longrightarrow>
     c' = c\<lparr>user := (case bearer_token (authorization (req c)) of
                         None \<Rightarrow> None
                       | Some t \<Rightarrow> (case jwt_verify e t of Decoded u \<Rightarrow> Some u
                                    | VerifyError n \<Rightarrow> None))\<rparr>"
  by (auto simp: optionalAuthentication_def split: option.splits verify_result.splits)

text \<open>
  The route that answers a request is the first that matches, so the second
  registrations of \<open>GET /sync/all\<close> and \<open>GET /companies\<close> never answer.
\<close>

lemma find_route_reachable:
  "find_route routes rq = Some (Route m p mws h, ps) \<Longrightarrow>
     (mws, h) \<in> set
       [([], H_root), ([], H_health), ([], H_sync_users), ([], H_sync_all), ([], H_login),
        (admin_manager, H_get_staff), (admin_manager, H_post_staff),
        (admin_manager, H_put_staff), (admin_manager, H_delete_staff),
        ([AuthenticateToken], H_get_stores), (admin_only, H_post_stores),
        ([], H_register), ([AuthenticateToken], H_profile),
        ([OptionalAuthentication], H_logout), (admin_manager, H_get_users),
        (admin_manager_cashier, H_get_categories), (admin_manager, H_post_categories),
        (admin_manager_cashier, H_get_products), (admin_manager, H_post_products),
        (admin_manager, H_put_products), (admin_manager, H_delete_products),
        (admin_manager, H_get_movements), (admin_manager, H_post_adjust),
        (admin_manager_cashier, H_products_stats), (admin_only, H_get_companies),
        (admin_only, H_post_companies), (admin_only, H_put_companies),
        (admin_only, H_delete_companies)]"
  unfolding routes_def
  by (cases "rmethod rq") (simp_all split: option.splits if_splits)

lemma dispatch_found:
  "dispatch e rq = Inl (h, c) \<Longrightarrow>
     \<exists>m p mws ps. find_route routes rq = Some (Route m p mws h, ps) \<and>
        run_chain e mws \<lparr>req = rq, params = ps, user = None\<rparr> = Next c"
  by (auto simp: dispatch_def split: option.splits route.splits mw_result.splits prod.splits)

lemma dispatch_cases:
  assumes "dispatch e rq = Inl (h, c)"
  shows "req c = rq \<and> h \<noteq> H_get_companies_scoped \<and> h \<noteq> H_sync_all_tables \<and>
     (h \<in> set [H_root, H_health, H_sync_users, H_sync_all, H_login, H_register] \<longrightarrow>
        user c = None) \<and>
     (h = H_logout \<longrightarrow>
        user c = (case bearer_token (authorization rq) of
                    None \<Rightarrow> None
                  | Some t \<Rightarrow> (case jwt_verify e t of Decoded u \<Rightarrow> Some u
                               | VerifyError n \<Rightarrow> None))) \<and>
     (h \<notin> set [H_root, H_health, H_sync_users, H_sync_all, H_login, H_register, H_logout] \<longrightarrow>
        (\<exists>t u. bearer_token (authorization rq) = Some t \<and> jwt_verify e t = Decoded u \<and>
               user c = Some u \<and>
               (h \<in> set [H_get_staff, H_post_staff, H_put_staff, H_delete_staff, H_get_users,
                          H_post_categories, H_post_products, H_put_products,
                          H_delete_products, H_get_movements, H_post_adjust] \<longrightarrow>
                  get u ''role'' \<in> JStr ` {''super_admin'', ''manager''}) \<and>
               (h \<in> set [H_get_categories, H_get_products, H_products_stats] \<longrightarrow>
                  get u ''role'' \<in> JStr ` {''super_admin'', ''manager'', ''cashier''}) \<and>
               (h \<in> set [H_post_stores, H_get_companies, H_post_companies, H_put_companies,
                          H_delete_companies] \<longrightarrow>
                  get u ''role'' = JStr ''super_admin'')))"
proof -
  from dispatch_found [OF assms] obtain m p mws ps where
    fr: "find_route routes rq = Some (Route m p mws h, ps)" and
    ch: "run_chain e mws \<lparr>req = rq, params = ps, user = None\<rparr> = Next c"
    by blast
  from find_route_reachable [OF fr] ch show ?thesis
    by (auto dest!: chain_admin_manager chain_admin_manager_cashier chain_admin_only
          chain_auth_only chain_optional)
qed

lemma serve_logout:
  "rmethod rq = POST \<Longrightarrow> rpath rq = [''auth'', ''logout''] \<Longrightarrow>
     serve e rq =
       Respond \<lparr>status = 200,
                rbody = [(''message'', Val (JStr ''Logout successful'')),
                         (''code'', Val (JStr ''LOGOUT_SUCCESS''))]\<rparr>"
  by (auto simp: optionalAuthentication_def serve_def dispatch_def routes_def h_logout_def
        json_def split: option.splits verify_result.splits)

lemmas handler_defs =
  h_sync_users_def h_sync_all_def h_get_staff_def h_post_staff_def h_put_staff_def
  h_delete_staff_def h_get_stores_def h_post_stores_def h_register_def h_get_users_def
  h_get_categories_def h_post_categories_def h_get_products_def h_post_products_def
  h_put_products_def h_delete_products_def h_get_movements_def h_post_adjust_def
  h_products_stats_def h_get_companies_def h_post_companies_def h_put_companies_def
  h_delete_companies_def put_row_def delete_row_def

subsection \<open>Store scope of managers and cashiers\<close>

lemma matches_mem: "matches fs row \<Longrightarrow> (k, v) \<in> set fs \<Longrightarrow> get row k = v"
  by (auto simp: matches_def list_all_iff)

lemma get_set_prop_other: "k \<noteq> k' \<Longrightarrow> get (set_prop k' v m) k = get m k"
  by (induction m) (auto simp: get_def set_prop_def del_prop_def)

lemma staff_with_role_store: "get (staff_with_role m) ''store_id'' = get m ''store_id''"
  by (simp add: staff_with_role_def get_set_prop_other)

lemma honoured_rows:
  assumes "honours_eq exec" and "(k, v) \<in> set (q_eq q)"
    and "exec (SelectRows q) s = (r, s')"
  shows "list_all (\<lambda>row. get row k = v) (rows_or_empty (d_data r))"
proof -
  from assms(1) have "list_all (matches (q_eq q)) (rows_or_empty (d_data (fst (exec (SelectRows q) s))))"
    by (simp add: honours_eq_def)
  with assms(3) have "list_all (matches (q_eq q)) (rows_or_empty (d_data r))" by simp
  with assms(2) show ?thesis
    by (auto simp: list_all_iff dest: matches_mem)
qed

text \<open>
  A listing is scoped to the store \<open>v\<close> when it answers without the database and
  without rows, or sends one list query that carries the filter \<open>store_id = v\<close> and
  answers with rows of that store if the query returned only such rows.
\<close>

lemma scoped_db:
  assumes "honours_eq exec" and "(''store_id'', v) \<in> set (q_eq q)"
    and "\<And>r. \<exists>resp. k r = Respond resp \<and>
           (list_all (\<lambda>row. get row ''store_id'' = v) (rows_or_empty (d_data r)) \<longrightarrow>
            list_all (\<lambda>row. get row ''store_id'' = v) (response_rows resp))"
  shows "list_all (\<lambda>row. get row ''store_id'' = v)
           (response_rows (fst (run exec (Db (SelectRows q) k) s)))"
proof -
  obtain r s' where ex: "exec (SelectRows q) s = (r, s')" by (cases "exec (SelectRows q) s")
  from assms(3) [of r] obtain resp where k: "k r = Respond resp"
    and imp: "list_all (\<lambda>row. get row ''store_id'' = v) (rows_or_empty (d_data r)) \<longrightarrow>
              list_all (\<lambda>row. get row ''store_id'' = v) (response_rows resp)"
    by blast
  from honoured_rows [OF assms(1,2) ex] imp
  have "list_all (\<lambda>row. get row ''store_id'' = v) (response_rows resp)" by blast
  then show ?thesis using ex k by simp
qed

lemma store_scope_filter:
  "(is_role u ''manager'' \<or> is_role u ''cashier'') \<Longrightarrow> truthy (get u ''store_id'') \<Longrightarrow>
     (''store_id'', get u ''store_id'') \<in> set (q_eq (store_scope u c q0))"
  by (auto simp: store_scope_def eq_def)

lemma listing_answer:
  "\<exists>resp. (case d_error r of
             Some er \<Rightarrow> json 500 (err msg ''DB_ERROR'' @ details er)
           | None \<Rightarrow>
               json 200 ([(name, Rows (rows_or_empty (d_data r))),
                          (''count'', Val (count_rows (rows_or_empty (d_data r))))] @
                         timestamp e)) = Respond resp \<and>
          (list_all P (rows_or_empty (d_data r)) \<longrightarrow> list_all P (response_rows resp))"
  by (auto simp: json_def response_rows_def err_def details_def timestamp_def
        split: option.splits)

lemma staff_answer:
  "\<exists>resp. (case d_error r of
             Some er \<Rightarrow> json 500 (err msg ''DB_ERROR'' @ details er)
           | None \<Rightarrow>
               (case rows_of (d_data r) of
                  None \<Rightarrow> internal ''Internal server error''
                | Some rs \<Rightarrow>
                    json 200 ([(''staff'', Rows (map staff_with_role rs)),
                               (''count'', Val (count_rows rs))] @ timestamp e))) = Respond resp \<and>
          (list_all (\<lambda>row. get row ''store_id'' = v) (rows_or_empty (d_data r)) \<longrightarrow>
           list_all (\<lambda>row. get row ''store_id'' = v) (response_rows resp))"
  by (auto simp: json_def internal_def response_rows_def err_def details_def timestamp_def
        rows_or_empty_def list_all_iff staff_with_role_store split: option.splits)

lemma unavailable_rows: "response_rows (fst (run exec (unavailable msg) s)) = []"
  by (simp add: unavailable_def json_def response_rows_def err_def)

lemma get_staff_scoped:
  assumes "honours_eq exec" "user c = Some u" "is_role u ''manager''" "truthy (get u ''store_id'')"
  shows "list_all (\<lambda>row. get row ''store_id'' = get u ''store_id'')
           (response_rows (fst (run exec (h_get_staff e c) s)))"
proof (cases "client e")
  case False
  with assms(2) show ?thesis by (simp add: h_get_staff_def unavailable_rows)
next
  case True
  have "h_get_staff e c =
      Db (SelectRows (eq ''store_id'' (get u ''store_id'')
              (order ''created_at'' False
                 (eqs [(''is_active'', JBool True)] (from_table ''staff'' ''*'')))))
        (\<lambda>r. case d_error r of
                Some er \<Rightarrow>
                  json 500 (err ''Failed to fetch staff from database'' ''DB_ERROR'' @ details er)
              | None \<Rightarrow>
                  (case rows_of (d_data r) of
                     None \<Rightarrow> internal ''Internal server error''
                   | Some rs \<Rightarrow>
                       json 200 ([(''staff'', Rows (map staff_with_role rs)),
                                  (''count'', Val (count_rows rs))] @ timestamp e)))"
    using True assms(2-4) by (simp add: h_get_staff_def Let_def)
  then show ?thesis
    by (simp only:) (rule scoped_db [OF assms(1)], simp add: eq_def, rule staff_answer)
qed

lemma get_categories_scoped:
  assumes "honours_eq exec" "user c = Some u" "is_role u ''manager'' \<or> is_role u ''cashier''"
    "truthy (get u ''store_id'')"
  shows "list_all (\<lambda>row. get row ''store_id'' = get u ''store_id'')
           (response_rows (fst (run exec (h_get_categories e c) s)))"
proof (cases "client e")
  case False
  with assms(2) show ?thesis by (simp add: h_get_categories_def unavailable_rows)
next
  case True
  have "h_get_categories e c =
      Db (SelectRows (store_scope u c
            (order ''name'' True
               (eqs [(''is_active'', JBool True)] (from_table ''categories'' ''*'')))))
        (\<lambda>r. case d_error r of
                Some er \<Rightarrow>
                  json 500 (err ''Failed to fetch categories from database'' ''DB_ERROR'' @
                            details er)
              | None \<Rightarrow>
                  json 200 ([(''categories'', Rows (rows_or_empty (d_data r))),
                             (''count'', Val (count_rows (rows_or_empty (d_data r))))] @
                            timestamp e))"
    using True assms(2) by (simp add: h_get_categories_def)
  then show ?thesis
    by (simp only:)
       (rule scoped_db [OF assms(1)], rule store_scope_filter [OF assms(3,4)], rule listing_answer)
qed

lemma get_products_scoped:
  assumes "honours_eq exec" "user c = Some u" "is_role u ''manager'' \<or> is_role u ''cashier''"
    "truthy (get u ''store_id'')"
  shows "list_all (\<lambda>row. get row ''store_id'' = get u ''store_id'')
           (response_rows (fst (run exec (h_get_products e c) s)))"
proof (cases "client e")
  case False
  with assms(2) show ?thesis by (simp add: h_get_products_def unavailable_rows)
next
  case True
  have f: "(''store_id'', get u ''store_id'') \<in> set (q_eq (store_scope u c' q0))" for c' q0
    by (rule store_scope_filter [OF assms(3,4)])
  have "\<exists>q. h_get_products e c =
      Db (SelectRows q)
        (\<lambda>r. case d_error r of
                Some er \<Rightarrow>
                  json 500 (err ''Failed to fetch products from database'' ''DB_ERROR'' @
                            details er)
              | None \<Rightarrow>
                  json 200 ([(''products'', Rows (rows_or_empty (d_data r))),
                             (''count'', Val (count_rows (rows_or_empty (d_data r))))] @
                            timestamp e)) \<and>
      (''store_id'', get u ''store_id'') \<in> set (q_eq q)"
    using True assms(2)
    by (auto simp: h_get_products_def Let_def eq_def f split: option.splits)
  then obtain q where h: "h_get_products e c =
      Db (SelectRows q)
        (\<lambda>r. case d_error r of
                Some er \<Rightarrow>
                  json 500 (err ''Failed to fetch products from database'' ''DB_ERROR'' @
                            details er)
              | None \<Rightarrow>
                  json 200 ([(''products'', Rows (rows_or_empty (d_data r))),
                             (''count'', Val (count_rows (rows_or_empty (d_data r))))] @
                            timestamp e))"
    and q: "(''store_id'', get u ''store_id'') \<in> set (q_eq q)"
    by blast
  from h q show ?thesis
    by (simp only:) (rule scoped_db [OF assms(1)], assumption, rule listing_answer)
qed

lemma get_movements_scoped:
  assumes "honours_eq exec" "user c = Some u" "is_role u ''manager''" "truthy (get u ''store_id'')"
  shows "list_all (\<lambda>row. get row ''store_id'' = get u ''store_id'')
           (response_rows (fst (run exec (h_get_movements e c) s)))"
proof (cases "client e")
  case False
  then show ?thesis by (simp add: h_get_movements_def unavailable_rows)
next
  case True
  obtain q where h: "h_get_movements e c =
      Db (SelectRows q)
        (\<lambda>r. case d_error r of
                Some er \<Rightarrow>
                  json 500 (err ''Failed to fetch inventory movements'' ''DB_ERROR'' @ details er)
              | None \<Rightarrow>
                  json 200 ([(''movements'', Rows (rows_or_empty (d_data r))),
                             (''count'', Val (count_rows (rows_or_empty (d_data r))))] @
                            timestamp e))"
    and q: "(''store_id'', get u ''store_id'') \<in> set (q_eq q)"
    using True assms(2-4)
    by (auto simp: h_get_movements_def Let_def eq_def)
  from h q show ?thesis
    by (simp only:) (rule scoped_db [OF assms(1)], assumption, rule listing_answer)
qed

lemma forbidden_rows:
  "response_rows \<lparr>status = 403,
                   rbody = err ''Insufficient permissions'' ''INSUFFICIENT_PERMISSIONS'' @
                           [(''requiredRoles'', Strs rs), (''userRole'', Val v)]\<rparr> = []"
  by (simp add: response_rows_def err_def)

lemma serve_listings:
  assumes "bearer_token (authorization rq) = Some t" "jwt_verify e t = Decoded u"
    and "rmethod rq = GET"
  shows "rpath rq = [''staff''] \<Longrightarrow>
           serve e rq =
             (if js_includes [''super_admin'', ''manager''] (get u ''role'')
              then h_get_staff e \<lparr>req = rq, params = [], user = Some u\<rparr>
              else Respond \<lparr>status = 403,
                            rbody = err ''Insufficient permissions'' ''INSUFFICIENT_PERMISSIONS'' @
                                    [(''requiredRoles'', Strs [''super_admin'', ''manager'']),
                                     (''userRole'', Val (get u ''role''))]\<rparr>)"
    and "rpath rq = [''inventory'', ''movements''] \<Longrightarrow>
           serve e rq =
             (if js_includes [''super_admin'', ''manager''] (get u ''role'')
              then h_get_movements e \<lparr>req = rq, params = [], user = Some u\<rparr>
              else Respond \<lparr>status = 403,
                            rbody = err ''Insufficient permissions'' ''INSUFFICIENT_PERMISSIONS'' @
                                    [(''requiredRoles'', Strs [''super_admin'', ''manager'']),
                                     (''userRole'', Val (get u ''role''))]\<rparr>)"
    and "rpath rq = [''categories''] \<Longrightarrow>
           serve e rq =
             (if js_includes [''super_admin'', ''manager'', ''cashier''] (get u ''role'')
              then h_get_categories e \<lparr>req = rq, params = [], user = Some u\<rparr>
              else Respond \<lparr>status = 403,
                            rbody = err ''Insufficient permissions'' ''INSUFFICIENT_PERMISSIONS'' @
                                    [(''requiredRoles'', Strs [''super_admin'', ''manager'', ''cashier'']),
                                     (''userRole'', Val (get u ''role''))]\<rparr>)"
    and "rpath rq = [''products''] \<Longrightarrow>
           serve e rq =
             (if js_includes [''super_admin'', ''manager'', ''cashier''] (get u ''role'')
              then h_get_products e \<lparr>req = rq, params = [], user = Some u\<rparr>
              else Respond \<lparr>status = 403,
                            rbody = err ''Insufficient permissions'' ''INSUFFICIENT_PERMISSIONS'' @
                                    [(''requiredRoles'', Strs [''super_admin'', ''manager'', ''cashier'']),
                                     (''userRole'', Val (get u ''role''))]\<rparr>)"
  using assms
  by (simp_all add: serve_def dispatch_def routes_def admin_manager_def admin_manager_cashier_def
        authenticateToken_def requireRole_def)

lemma listings_scoped:
  assumes "bearer_token (authorization rq) = Some t" "jwt_verify e t = Decoded u"
    and "truthy (get u ''store_id'')" "is_role u ''manager'' \<or> is_role u ''cashier''"
    and "honours_eq exec" "rmethod rq = GET"
    and "rpath rq \<in> {[''staff''], [''categories''], [''products''], [''inventory'', ''movements'']}"
  shows "list_all (\<lambda>row. get row ''store_id'' = get u ''store_id'')
           (response_rows (fst (run exec (serve e rq) s)))"
proof -
  let ?c = "\<lparr>req = rq, params = [], user = Some u\<rparr>"
  have uc: "user ?c = Some u" by simp
  from assms(4) have role: "get u ''role'' = JStr ''manager'' \<or> get u ''role'' = JStr ''cashier''"
    by (simp add: is_role_def)
  from assms(7) consider "rpath rq = [''staff'']" | "rpath rq = [''categories'']"
    | "rpath rq = [''products'']" | "rpath rq = [''inventory'', ''movements'']" by auto
  then show ?thesis
  proof cases
    case 1
    from role show ?thesis
    proof
      assume "get u ''role'' = JStr ''manager''"
      then show ?thesis
        using get_staff_scoped [OF assms(5) uc _ assms(3), of e s]
        by (simp add: serve_listings(1) [OF assms(1,2,6) 1] js_includes_def is_role_def)
    next
      assume "get u ''role'' = JStr ''cashier''"
      then show ?thesis
        by (simp add: serve_listings(1) [OF assms(1,2,6) 1] js_includes_def forbidden_rows)
    qed
  next
    case 2
    from role show ?thesis
      using get_categories_scoped [OF assms(5) uc assms(4,3), of e s]
      by (auto simp: serve_listings(3) [OF assms(1,2,6) 2] js_includes_def)
  next
    case 3
    from role show ?thesis
      using get_products_scoped [OF assms(5) uc assms(4,3), of e s]
      by (auto simp: serve_listings(4) [OF assms(1,2,6) 3] js_includes_def)
  next
    case 4
    from role show ?thesis
    proof
      assume "get u ''role'' = JStr ''manager''"
      then show ?thesis
        using get_movements_scoped [OF assms(5) uc _ assms(3), of e s]
        by (simp add: serve_listings(2) [OF assms(1,2,6) 4] js_includes_def is_role_def)
    next
      assume "get u ''role'' = JStr ''cashier''"
      then show ?thesis
        by (simp add: serve_listings(2) [OF assms(1,2,6) 4] js_includes_def forbidden_rows)
    qed
  qed
qed

lemma manager_creates_in_own_store_only:
  assumes "bearer_token (authorization rq) = Some t" "jwt_verify e t = Decoded u"
    and "truthy (get u ''store_id'')" "is_role u ''manager''" "rmethod rq = POST"
    and "truthy (get (body rq) ''store_id'')" "get (body rq) ''store_id'' \<noteq> get u ''store_id''"
  shows "rpath rq = [''staff''] \<and> truthy (get (body rq) ''name'') \<and>
         truthy (get (body rq) ''staff_id'') \<and> truthy (get (body rq) ''passcode'') \<longrightarrow>
           serve e rq =
             Respond \<lparr>status = 403,
                      rbody = err ''Managers can only create staff for their assigned store''
                                  ''STORE_ACCESS_DENIED''\<rparr>"
    and "rpath rq = [''products''] \<and> truthy (get (body rq) ''name'') \<and>
         truthy (get (body rq) ''default_price'') \<longrightarrow>
           serve e rq =
             Respond \<lparr>status = 403,
                      rbody = err ''Managers can only create products for their assigned store''
                                  ''STORE_ACCESS_DENIED''\<rparr>"
    and "rpath rq = [''categories''] \<and> truthy (get (body rq) ''name'') \<longrightarrow>
           serve e rq =
             Respond \<lparr>status = 403,
                      rbody = err ''Managers can only create categories for their assigned store''
                                  ''STORE_ACCESS_DENIED''\<rparr>"
  using assms
  by (simp_all add: serve_def dispatch_def routes_def admin_manager_def authenticateToken_def
        requireRole_def js_includes_def is_role_def h_post_staff_def h_post_products_def
        h_post_categories_def bparam_def wrong_store_def json_def)

lemma cashier_writes_refused:
  assumes "bearer_token (authorization rq) = Some t" "jwt_verify e t = Decoded u"
    and "is_role u ''cashier''"
    and "(rmethod rq = POST \<and>
          rpath rq \<in> {[''staff''], [''products''], [''categories''], [''inventory'', ''adjust'']}) \<or>
         (rmethod rq \<in> {PUT, DELETE} \<and>
          (\<exists>i. i \<noteq> [] \<and> rpath rq \<in> {[''staff'', i], [''products'', i]}))"
  shows "serve e rq =
           Respond \<lparr>status = 403,
                    rbody = err ''Insufficient permissions'' ''INSUFFICIENT_PERMISSIONS'' @
                            [(''requiredRoles'', Strs [''super_admin'', ''manager'']),
                             (''userRole'', Val (JStr ''cashier''))]\<rparr>"
  using assms
  by (auto simp: serve_def dispatch_def routes_def admin_manager_def authenticateToken_def
        requireRole_def js_includes_def is_role_def)

lemma sample_exec_honours: "honours_eq sample_exec"
  by (simp add: honours_eq_def rows_or_empty_def rows_of_def list_all_iff)

text \<open>
  C1, as the code has it. For a manager or cashier whose token carries a truthy
  \<open>store_id\<close> S, and a database that honours the filters (a list query returns only
  rows whose columns equal the values of its \<open>.eq\<close> filters): the listings \<open>GET /staff\<close>,
  \<open>GET /categories\<close>, \<open>GET /products\<close> and \<open>GET /inventory/movements\<close> return no
  row of another store, whatever the query parameters (a cashier is refused the staff
  and the movements by the role policy). A manager's \<open>POST /staff\<close>, \<open>POST /products\<close>
  or \<open>POST /categories\<close> with the required fields present and a \<open>store_id\<close> that is
  not identical to S is answered 403 STORE_ACCESS_DENIED with nothing sent to the
  database. A cashier's \<open>POST /staff\<close>, \<open>POST /products\<close>, \<open>POST /categories\<close> or
  \<open>POST /inventory/adjust\<close>, and a cashier's \<open>PUT\<close> or \<open>DELETE\<close> of
  \<open>/staff/:staffId\<close> or \<open>/products/:productId\<close>, is answered 403
  INSUFFICIENT_PERMISSIONS by the role policy, again with nothing sent to the database.
  (No route updates or deletes a category.)
\<close>

theorem store_scope_of_managers_and_cashiers:
  assumes "bearer_token (authorization rq) = Some t" "jwt_verify e t = Decoded u"
    and "truthy (get u ''store_id'')" "is_role u ''manager'' \<or> is_role u ''cashier''"
  shows "(honours_eq exec \<and> rmethod rq = GET \<and>
      rpath rq \<in> {[''staff''], [''categories''], [''products''], [''inventory'', ''movements'']} \<longrightarrow>
        list_all (\<lambda>row. get row ''store_id'' = get u ''store_id'')
          (response_rows (fst (run exec (serve e rq) s)))) \<and>
     (is_role u ''manager'' \<and> rmethod rq = POST \<and> truthy (get (body rq) ''store_id'') \<and>
      get (body rq) ''store_id'' \<noteq> get u ''store_id'' \<and> rpath rq = [''staff''] \<and>
      truthy (get (body rq) ''name'') \<and> truthy (get (body rq) ''staff_id'') \<and>
      truthy (get (body rq) ''passcode'') \<longrightarrow>
        run exec (serve e rq) s =
          (\<lparr>status = 403,
            rbody = err ''Managers can only create staff for their assigned store''
                        ''STORE_ACCESS_DENIED''\<rparr>, s, [])) \<and>
     (is_role u ''manager'' \<and> rmethod rq = POST \<and> truthy (get (body rq) ''store_id'') \<and>
      get (body rq) ''store_id'' \<noteq> get u ''store_id'' \<and> rpath rq = [''products''] \<and>
      truthy (get (body rq) ''name'') \<and> truthy (get (body rq) ''default_price'') \<longrightarrow>
        run exec (serve e rq) s =
          (\<lparr>status = 403,
            rbody = err ''Managers can only create products for their assigned store''
                        ''STORE_ACCESS_DENIED''\<rparr>, s, [])) \<and>
     (is_role u ''manager'' \<and> rmethod rq = POST \<and> truthy (get (body rq) ''store_id'') \<and>
      get (body rq) ''store_id'' \<noteq> get u ''store_id'' \<and> rpath rq = [''categories''] \<and>
      truthy (get (body rq) ''name'') \<longrightarrow>
        run exec (serve e rq) s =
          (\<lparr>status = 403,
            rbody = err ''Managers can only create categories for their assigned store''
                        ''STORE_ACCESS_DENIED''\<rparr>, s, [])) \<and>
     (is_role u ''cashier'' \<and>
      ((rmethod rq = POST \<and>
        rpath rq \<in> {[''staff''], [''products''], [''categories''], [''inventory'', ''adjust'']}) \<or>
       (rmethod rq \<in> {PUT, DELETE} \<and>
        (\<exists>i. i \<noteq> [] \<and> rpath rq \<in> {[''staff'', i], [''products'', i]}))) \<longrightarrow>
        run exec (serve e rq) s =
          (\<lparr>status = 403,
            rbody = err ''Insufficient permissions'' ''INSUFFICIENT_PERMISSIONS'' @
                    [(''requiredRoles'', Strs [''super_admin'', ''manager'']),
                     (''userRole'', Val (JStr ''cashier''))]\<rparr>, s, []))"
proof -
  have a: "honours_eq exec \<and> rmethod rq = GET \<and>
      rpath rq \<in> {[''staff''], [''categories''], [''products''], [''inventory'', ''movements'']} \<longrightarrow>
        list_all (\<lambda>row. get row ''store_id'' = get u ''store_id'')
          (response_rows (fst (run exec (serve e rq) s)))"
    by (intro impI, elim conjE) (rule listings_scoped [OF assms])
  have b: "is_role u ''manager'' \<and> rmethod rq = POST \<and> truthy (get (body rq) ''store_id'') \<and>
      get (body rq) ''store_id'' \<noteq> get u ''store_id'' \<and> rpath rq = [''staff''] \<and>
      truthy (get (body rq) ''name'') \<and> truthy (get (body rq) ''staff_id'') \<and>
      truthy (get (body rq) ''passcode'') \<longrightarrow>
        run exec (serve e rq) s =
          (\<lparr>status = 403,
            rbody = err ''Managers can only create staff for their assigned store''
                        ''STORE_ACCESS_DENIED''\<rparr>, s, [])"
    using manager_creates_in_own_store_only(1) [OF assms(1-3)] by simp
  have c: "is_role u ''manager'' \<and> rmethod rq = POST \<and> truthy (get (body rq) ''store_id'') \<and>
      get (body rq) ''store_id'' \<noteq> get u ''store_id'' \<and> rpath rq = [''products''] \<and>
      truthy (get (body rq) ''name'') \<and> truthy (get (body rq) ''default_price'') \<longrightarrow>
        run exec (serve e rq) s =
          (\<lparr>status = 403,
            rbody = err ''Managers can only create products for their assigned store''
                        ''STORE_ACCESS_DENIED''\<rparr>, s, [])"
    using manager_creates_in_own_store_only(2) [OF assms(1-3)] by simp
  have d: "is_role u ''manager'' \<and> rmethod rq = POST \<and> truthy (get (body rq) ''store_id'') \<and>
      get (body rq) ''store_id'' \<noteq> get u ''store_id'' \<and> rpath rq = [''categories''] \<and>
      truthy (get (body rq) ''name'') \<longrightarrow>
        run exec (serve e rq) s =
          (\<lparr>status = 403,
            rbody = err ''Managers can only create categories for their assigned store''
                        ''STORE_ACCESS_DENIED''\<rparr>, s, [])"
    using manager_creates_in_own_store_only(3) [OF assms(1-3)] by simp
  have f: "is_role u ''cashier'' \<and>
      ((rmethod rq = POST \<and>
        rpath rq \<in> {[''staff''], [''products''], [''categories''], [''inventory'', ''adjust'']}) \<or>
       (rmethod rq \<in> {PUT, DELETE} \<and>
        (\<exists>i. i \<noteq> [] \<and> rpath rq \<in> {[''staff'', i], [''products'', i]}))) \<longrightarrow>
        run exec (serve e rq) s =
          (\<lparr>status = 403,
            rbody = err ''Insufficient permissions'' ''INSUFFICIENT_PERMISSIONS'' @
                    [(''requiredRoles'', Strs [''super_admin'', ''manager'']),
                     (''userRole'', Val (JStr ''cashier''))]\<rparr>, s, [])"
    using cashier_writes_refused [OF assms(1,2)] by simp
  show ?thesis using a b c d f by blast
qed

theorem store_scope_of_managers_and_cashiers_witness:
  "honours_eq sample_exec \<and>
   list_all (\<lambda>row. get row ''store_id'' = JNum 7)
     (response_rows (fst (run sample_exec
        (serve (sample_env True) (get_request [''staff''] ''manager7'' [(''store_id'', ''9'')]))
        sample_db))) \<and>
   run sample_exec
     (serve (sample_env True)
        (write_request POST [''staff''] ''manager7''
           [(''name'', JStr ''Cara''), (''staff_id'', JStr ''s3''), (''store_id'', JNum 9),
            (''passcode'', JStr ''1234'')])) sample_db =
     (\<lparr>status = 403,
       rbody = err ''Managers can only create staff for their assigned store''
                   ''STORE_ACCESS_DENIED''\<rparr>, sample_db, []) \<and>
   run sample_exec
     (serve (sample_env True) (write_request DELETE [''products'', ''42''] ''cashier7'' []))
     sample_db =
     (\<lparr>status = 403,
       rbody = err ''Insufficient permissions'' ''INSUFFICIENT_PERMISSIONS'' @
               [(''requiredRoles'', Strs [''super_admin'', ''manager'']),
                (''userRole'', Val (JStr ''cashier''))]\<rparr>, sample_db, [])"
proof -
  let ?u = "sample_claims ''manager@techcorp.com'' ''manager'' @ [(''store_id'', JNum 7)]"
  let ?k = "sample_claims ''cashier@techcorp.com'' ''cashier'' @ [(''store_id'', JNum 7)]"
  let ?listing = "get_request [''staff''] ''manager7'' [(''store_id'', ''9'')]"
  let ?post = "write_request POST [''staff''] ''manager7''
           [(''name'', JStr ''Cara''), (''staff_id'', JStr ''s3''), (''store_id'', JNum 9),
            (''passcode'', JStr ''1234'')]"
  let ?del = "write_request DELETE [''products'', ''42''] ''cashier7'' []"
  have v: "jwt_verify (sample_env True) ''manager7'' = Decoded ?u"
    and vk: "jwt_verify (sample_env True) ''cashier7'' = Decoded ?k"
    by (simp_all add: sample_env_def sample_verify_def)
  have s: "truthy (get ?u ''store_id'')" "get ?u ''store_id'' = JNum 7"
    and m: "is_role ?u ''manager'' \<or> is_role ?u ''cashier''" "is_role ?u ''manager''"
    and sk: "truthy (get ?k ''store_id'')"
    and mk: "is_role ?k ''manager'' \<or> is_role ?k ''cashier''" "is_role ?k ''cashier''"
    by (simp_all add: get_def sample_claims_def is_role_def)
  have t1: "bearer_token (authorization ?listing) = Some ''manager7''"
    and t2: "bearer_token (authorization ?post) = Some ''manager7''"
    and t3: "bearer_token (authorization ?del) = Some ''cashier7''"
    by (simp_all add: get_request_def write_request_def bearer_token_def)
  from store_scope_of_managers_and_cashiers
         [OF t1 v s(1) m(1), where exec = sample_exec and s = sample_db, THEN conjunct1]
       sample_exec_honours
  have r: "list_all (\<lambda>row. get row ''store_id'' = JNum 7)
     (response_rows (fst (run sample_exec (serve (sample_env True) ?listing) sample_db)))"
    by (simp add: get_request_def s(2))
  from store_scope_of_managers_and_cashiers
         [OF t2 v s(1) m(1), where exec = sample_exec and s = sample_db,
          THEN conjunct2, THEN conjunct1] m(2)
  have w: "run sample_exec (serve (sample_env True) ?post) sample_db =
     (\<lparr>status = 403,
       rbody = err ''Managers can only create staff for their assigned store''
                   ''STORE_ACCESS_DENIED''\<rparr>, sample_db, [])"
    by (simp add: write_request_def get_def sample_claims_def)
  from store_scope_of_managers_and_cashiers
         [OF t3 vk sk mk(1), where exec = sample_exec and s = sample_db,
          THEN conjunct2, THEN conjunct2, THEN conjunct2, THEN conjunct2] mk(2)
  have x: "run sample_exec (serve (sample_env True) ?del) sample_db =
     (\<lparr>status = 403,
       rbody = err ''Insufficient permissions'' ''INSUFFICIENT_PERMISSIONS'' @
               [(''requiredRoles'', Strs [''super_admin'', ''manager'']),
                (''userRole'', Val (JStr ''cashier''))]\<rparr>, sample_db, [])"
    by (simp add: write_request_def)
  from r w x sample_exec_honours show ?thesis by simp
qed

text \<open>
  The claim as stated fails on the code of the refusal. A cashier of store 7 who posts a
  product for store 9 is refused by the role policy, which runs before the handler, with
  the code INSUFFICIENT_PERMISSIONS; a manager of store 7 who posts a staff member for
  store 9 without a passcode is refused by the validation, which the handler runs before
  its store check, with 400 MISSING_FIELDS. Neither answer is 403 STORE_ACCESS_DENIED.
\<close>

theorem write_to_other_store_other_code:
  "run sample_exec
     (serve (sample_env True)
        (write_request POST [''products''] ''cashier7''
           [(''name'', JStr ''Tea''), (''store_id'', JNum 9), (''default_price'', JNum 5)]))
     sample_db =
     (\<lparr>status = 403,
       rbody = err ''Insufficient permissions'' ''INSUFFICIENT_PERMISSIONS'' @
               [(''requiredRoles'', Strs [''super_admin'', ''manager'']),
                (''userRole'', Val (JStr ''cashier''))]\<rparr>, sample_db, []) \<and>
   run sample_exec
     (serve (sample_env True)
        (write_request POST [''staff''] ''manager7''
           [(''name'', JStr ''Cara''), (''staff_id'', JStr ''s3''), (''store_id'', JNum 9)]))
     sample_db =
     (\<lparr>status = 400,
       rbody = err ''Name, staff ID, store ID, and passcode are required'' ''MISSING_FIELDS''\<rparr>,
      sample_db, [])"
  by (simp add: serve_def dispatch_def routes_def write_request_def sample_env_def
        sample_verify_def authenticateToken_def bearer_token_def requireRole_def
        admin_manager_def js_includes_def get_def sample_claims_def h_post_staff_def
        bparam_def json_def)

text \<open>
  The updating and the deleting handlers compare no stores. \<open>POST /products\<close> refuses a
  manager the store of another; \<open>PUT /products/:productId\<close> does not: a manager of
  store 7 who puts to product 42, a row of store 9, reaches the database, which updates
  the row.
\<close>

lemma manager_updates_product_of_other_store:
  "filter (\<lambda>row. get row ''id'' = JStr ''42'') (table sample_db ''products'') =
     [[(''id'', JStr ''42''), (''name'', JStr ''Rice''), (''store_id'', JNum 9),
       (''is_active'', JBool True)]] \<and>
   fst (run sample_exec
          (serve (sample_env True)
             (write_request PUT [''products'', ''42''] ''manager7''
                [(''store_id'', JNum 9), (''name'', JStr ''Mine'')])) sample_db) =
     \<lparr>status = 200,
      rbody = [(''message'', Val (JStr ''Product updated successfully'')),
               (''product'', Obj [(''id'', JStr ''42''), (''is_active'', JBool True),
                                  (''store_id'', JNum 9), (''name'', JStr ''Mine''),
                                  (''updated_at'', JStr ''2025-01-01T00:00:00.000Z'')])]\<rparr> \<and>
   snd (snd (run sample_exec
          (serve (sample_env True)
             (write_request PUT [''products'', ''42''] ''manager7''
                [(''store_id'', JNum 9), (''name'', JStr ''Mine'')])) sample_db)) =
     [UpdateSingle ''products''
        [(''store_id'', JNum 9), (''name'', JStr ''Mine''),
         (''updated_at'', JStr ''2025-01-01T00:00:00.000Z'')]
        [(''id'', JStr ''42'')] product_columns]"
  by (simp add: serve_def dispatch_def routes_def write_request_def sample_env_def
        sample_verify_def authenticateToken_def bearer_token_def requireRole_def
        admin_manager_def js_includes_def get_def sample_claims_def h_put_products_def
        put_row_def update_data_def set_prop_def del_prop_def param_def
        sample_db_def table_def matches_def single_def apply_changes_def store_table_def
        row_of_def json_def)

subsection \<open>The order of the gate, the role policy and the handlers\<close>

text \<open>
  C2, as the code has it. Whenever a handler runs, it sees the request that arrived.
  The handlers of \<open>GET /\<close>, \<open>GET /health\<close>, \<open>GET /sync/users\<close>, \<open>GET /sync/all\<close>,
  \<open>POST /auth/login\<close> and \<open>POST /auth/register\<close> are registered without middleware and
  run for every request, token or not, with no identity; logout runs with the identity
  of a valid token or none. Every other handler runs only after the authentication
  gate accepted the request's token, with the decoded identity attached; where the
  route names required roles the identity's role is one of them. \<open>GET /stores\<close> and
  \<open>GET /auth/profile\<close> have the gate but no role check. The narrowing of the query
  to the identity's store or company is part of the handlers.
\<close>

theorem gate_before_handler:
  assumes "dispatch e rq = Inl (h, c)"
  shows "req c = rq \<and>
     (h \<in> set [H_root, H_health, H_sync_users, H_sync_all, H_login, H_register] \<longrightarrow>
        user c = None) \<and>
     (h = H_logout \<longrightarrow>
        user c = (case bearer_token (authorization rq) of
                    None \<Rightarrow> None
                  | Some t \<Rightarrow> (case jwt_verify e t of Decoded u \<Rightarrow> Some u
                               | VerifyError n \<Rightarrow> None))) \<and>
     (h \<notin> set [H_root, H_health, H_sync_users, H_sync_all, H_login, H_register, H_logout] \<longrightarrow>
        (\<exists>t u. bearer_token (authorization rq) = Some t \<and> jwt_verify e t = Decoded u \<and>
               user c = Some u \<and>
               (h \<in> set [H_get_staff, H_post_staff, H_put_staff, H_delete_staff, H_get_users,
                          H_post_categories, H_post_products, H_put_products,
                          H_delete_products, H_get_movements, H_post_adjust] \<longrightarrow>
                  get u ''role'' \<in> JStr ` {''super_admin'', ''manager''}) \<and>
               (h \<in> set [H_get_categories, H_get_products, H_products_stats] \<longrightarrow>
                  get u ''role'' \<in> JStr ` {''super_admin'', ''manager'', ''cashier''}) \<and>
               (h \<in> set [H_post_stores, H_get_companies, H_post_companies, H_put_companies,
                          H_delete_companies] \<longrightarrow>
                  get u ''role'' = JStr ''super_admin'')))"
  using dispatch_cases [OF assms] by blast

theorem gate_before_handler_witness:
  "dispatch (sample_env True) (get_request [''staff''] ''manager7'' []) =
     Inl (H_get_staff,
          \<lparr>req = get_request [''staff''] ''manager7'' [], params = [],
           user = Some (sample_claims ''manager@techcorp.com'' ''manager'' @
                        [(''store_id'', JNum 7)])\<rparr>) \<and>
   (\<exists>t u. bearer_token (authorization (get_request [''staff''] ''manager7'' [])) = Some t \<and>
          jwt_verify (sample_env True) t = Decoded u \<and>
          get u ''role'' \<in> JStr ` {''super_admin'', ''manager''})"
proof -
  have d: "dispatch (sample_env True) (get_request [''staff''] ''manager7'' []) =
     Inl (H_get_staff,
          \<lparr>req = get_request [''staff''] ''manager7'' [], params = [],
           user = Some (sample_claims ''manager@techcorp.com'' ''manager'' @
                        [(''store_id'', JNum 7)])\<rparr>)"
    by (simp add: dispatch_def routes_def get_request_def sample_env_def sample_verify_def
          authenticateToken_def bearer_token_def requireRole_def admin_manager_def
          js_includes_def get_def sample_claims_def)
  from gate_before_handler [OF d] d show ?thesis by auto
qed

text \<open>
  The claim as stated fails: \<open>GET /sync/users\<close> without an authorization header reaches
  its handler, which answers with the users of the database.
\<close>

theorem sync_users_without_token:
  "bearer_token (authorization (anonymous GET [''sync'', ''users''] [])) = None \<and>
   dispatch (sample_env True) (anonymous GET [''sync'', ''users''] []) =
     Inl (H_sync_users,
          \<lparr>req = anonymous GET [''sync'', ''users''] [], params = [], user = None\<rparr>) \<and>
   fst (run sample_exec (serve (sample_env True) (anonymous GET [''sync'', ''users''] []))
          sample_db) =
     \<lparr>status = 200,
      rbody = [(''users'',
                  Rows [format_sync_user
                          [(''id'', JNum 5), (''email'', JStr ''ana@shop.ph''),
                           (''password'', JStr ''hash:secret1''), (''role'', JStr ''cashier''),
                           (''is_active'', JBool True)]]),
               (''count'', Val (JNum 1)),
               (''timestamp'', Val (JStr ''2025-01-01T00:00:00.000Z'')),
               (''source'', Val (JStr ''supabase''))]\<rparr>"
  by (simp add: serve_def dispatch_def routes_def anonymous_def h_sync_users_def sample_env_def
        from_table_def order_def sample_db_def table_def matches_def rows_or_empty_def rows_of_def
        json_def count_rows_def timestamp_def bearer_token_def)

subsection \<open>The claims of an issued token\<close>

text \<open>
  C3 does not hold of the code. \<open>generateToken\<close> signs the id, the email and the role of
  the user record and nothing else: for a manager's record with \<open>store_id\<close> 7 and
  \<open>company_id\<close> 3 the signed claims have neither field, and two records that differ
  only in these fields get the same token, so no verification can recover them. The
  handlers read \<open>req.user.store_id\<close> and \<open>req.user.company_id\<close> from the decoded token.
\<close>

theorem generateToken_leaves_out_scope:
  "generateToken sign
     [(''id'', JNum 2), (''email'', JStr ''manager@techcorp.com''), (''role'', JStr ''manager''),
      (''store_id'', JNum 7), (''company_id'', JNum 3)] =
     sign [(''id'', JNum 2), (''email'', JStr ''manager@techcorp.com''),
           (''role'', JStr ''manager'')] \<and>
   generateToken sign
     [(''id'', JNum 2), (''email'', JStr ''manager@techcorp.com''), (''role'', JStr ''manager''),
      (''store_id'', JNum 7), (''company_id'', JNum 3)] =
   generateToken sign
     [(''id'', JNum 2), (''email'', JStr ''manager@techcorp.com''), (''role'', JStr ''manager''),
      (''store_id'', JNum 9), (''company_id'', JNum 4)]"
  by (simp add: generateToken_def get_def)

subsection \<open>The authentication gate\<close>

text \<open>
  C4, as the code has it. When the authorization header yields no token (no header,
  an empty one, or no non-empty second piece after a space) the gate answers 401
  NO_TOKEN. When the token library rejects the token the gate answers 403, with
  TOKEN_EXPIRED for a \<open>TokenExpiredError\<close>, MALFORMED_TOKEN for a
  \<open>JsonWebTokenError\<close>, TOKEN_NOT_ACTIVE for a \<open>NotBeforeError\<close> and INVALID_TOKEN for an
  error of any other name. In both cases the gate's answer is the answer of the route:
  no later middleware and no handler runs. When the token verifies, the decoded
  identity is attached and the rest of the route runs.
\<close>

theorem authenticateToken_outcomes:
  "(bearer_token (authorization (req c)) = None \<longrightarrow>
      authenticateToken (jwt_verify e) c =
        Reply \<lparr>status = 401, rbody = err ''Access token required'' ''NO_TOKEN''\<rparr>) \<and>
   (\<forall>t name. bearer_token (authorization (req c)) = Some t \<and>
        jwt_verify e t = VerifyError name \<longrightarrow>
      (\<exists>r. authenticateToken (jwt_verify e) c = Reply r \<and> status r = 403 \<and>
           code_of r =
             Some (Val (JStr (if name = ''TokenExpiredError'' then ''TOKEN_EXPIRED''
                              else if name = ''JsonWebTokenError'' then ''MALFORMED_TOKEN''
                              else if name = ''NotBeforeError'' then ''TOKEN_NOT_ACTIVE''
                              else ''INVALID_TOKEN''))))) \<and>
   (\<forall>t u. bearer_token (authorization (req c)) = Some t \<and> jwt_verify e t = Decoded u \<longrightarrow>
      authenticateToken (jwt_verify e) c = Next (c\<lparr>user := Some u\<rparr>)) \<and>
   (\<forall>r ms. authenticateToken (jwt_verify e) c = Reply r \<longrightarrow>
      run_chain e (AuthenticateToken # ms) c = Reply r) \<and>
   (\<forall>c' ms. authenticateToken (jwt_verify e) c = Next c' \<longrightarrow>
      run_chain e (AuthenticateToken # ms) c = run_chain e ms c') \<and>
   (\<forall>m p ms h ps r.
      find_route routes rq = Some (Route m p (AuthenticateToken # ms) h, ps) \<and>
      authenticateToken (jwt_verify e) \<lparr>req = rq, params = ps, user = None\<rparr> = Reply r \<longrightarrow>
      serve e rq = Respond r)"
  by (auto simp: authenticateToken_def token_error_code_def code_of_def err_def serve_def
        dispatch_def split: option.splits verify_result.splits)

theorem authenticateToken_outcomes_witness:
  "authenticateToken sample_verify
     \<lparr>req = anonymous GET [''staff''] [], params = [], user = None\<rparr> =
     Reply \<lparr>status = 401, rbody = err ''Access token required'' ''NO_TOKEN''\<rparr> \<and>
   (\<exists>r. authenticateToken sample_verify
           \<lparr>req = get_request [''staff''] ''old'' [], params = [], user = None\<rparr> = Reply r \<and>
        status r = 403 \<and> code_of r = Some (Val (JStr ''TOKEN_EXPIRED''))) \<and>
   authenticateToken sample_verify
     \<lparr>req = get_request [''staff''] ''admin'' [], params = [], user = None\<rparr> =
     Next \<lparr>req = get_request [''staff''] ''admin'' [], params = [],
           user = Some (sample_claims ''admin@techcorp.com'' ''super_admin'')\<rparr> \<and>
   serve (sample_env True) (anonymous GET [''staff''] []) =
     Respond \<lparr>status = 401, rbody = err ''Access token required'' ''NO_TOKEN''\<rparr>"
proof -
  have f: "find_route routes (anonymous GET [''staff''] []) =
      Some (Route GET [Lit ''staff'']
              (AuthenticateToken # [RequireRole (RoleList [''super_admin'', ''manager''])])
              H_get_staff, [])"
    by (simp add: routes_def anonymous_def admin_manager_def)
  have n: "bearer_token (authorization (anonymous GET [''staff''] [])) = None"
    by (simp add: anonymous_def bearer_token_def)
  have v: "jwt_verify (sample_env True) = sample_verify"
    by (simp add: sample_env_def)
  show ?thesis
    using authenticateToken_outcomes
        [of "\<lparr>req = anonymous GET [''staff''] [], params = [], user = None\<rparr>" "sample_env True"
            "anonymous GET [''staff''] []"]
      authenticateToken_outcomes
        [of "\<lparr>req = get_request [''staff''] ''old'' [], params = [], user = None\<rparr>"
            "sample_env True" "anonymous GET [''staff''] []"]
      authenticateToken_outcomes
        [of "\<lparr>req = get_request [''staff''] ''admin'' [], params = [], user = None\<rparr>"
            "sample_env True" "anonymous GET [''staff''] []"]
      f n
    by (simp add: v get_request_def bearer_token_def sample_verify_def)
qed

text \<open>
  The claim as stated fails: a verification error whose name is none of the three the
  gate knows is answered 403 with the code INVALID_TOKEN.
\<close>

theorem other_verify_error_gets_invalid_token:
  "authenticateToken (\<lambda>t. VerifyError ''SyntaxError'')
     \<lparr>req = get_request [''staff''] ''abc.def.ghi'' [], params = [], user = None\<rparr> =
     Reply \<lparr>status = 403, rbody = err ''Invalid or expired token'' ''INVALID_TOKEN''\<rparr>"
  by (simp add: authenticateToken_def get_request_def bearer_token_def token_error_code_def)

subsection \<open>The role policy\<close>


text \<open>
  C5. The role check lets a request pass exactly when it carries an identity whose role
  is one of the required roles. Without an identity the answer is 401 AUTH_REQUIRED; with
  an identity whose role is not listed it is 403 INSUFFICIENT_PERMISSIONS, and the body
  repeats the required roles and the identity's role. Nothing but membership in the list
  lets a role through.
\<close>

theorem requireRole_membership:
  "((\<exists>c'. requireRole R c = Next c') =
      (\<exists>u. user c = Some u \<and> get u ''role'' \<in> JStr ` set (allowedRoles R))) \<and>
   (\<forall>c'. requireRole R c = Next c' \<longrightarrow> c' = c) \<and>
   (user c = None \<longrightarrow>
      requireRole R c =
        Reply \<lparr>status = 401, rbody = err ''Authentication required'' ''AUTH_REQUIRED''\<rparr>) \<and>
   (\<forall>u. user c = Some u \<and> get u ''role'' \<notin> JStr ` set (allowedRoles R) \<longrightarrow>
      (\<exists>r. requireRole R c = Reply r \<and> status r = 403 \<and>
           code_of r = Some (Val (JStr ''INSUFFICIENT_PERMISSIONS'')) \<and>
           map_of (rbody r) ''requiredRoles'' = Some (Strs (allowedRoles R)) \<and>
           map_of (rbody r) ''userRole'' = Some (Val (get u ''role''))))"
  by (auto simp: requireRole_def js_includes_def code_of_def err_def split: option.splits)

theorem requireRole_membership_witness:
  "(\<exists>c'. requireRole (RoleList [''super_admin'', ''manager''])
           \<lparr>req = \<lparr>rmethod = GET, rpath = [''staff''], authorization = None, body = [], query = []\<rparr>,
            params = [], user = Some [(''id'', JNum 2), (''role'', JStr ''manager'')]\<rparr> = Next c') \<and>
   (\<exists>r. requireRole (RoleList [''super_admin''])
           \<lparr>req = \<lparr>rmethod = GET, rpath = [''companies''], authorization = None, body = [], query = []\<rparr>,
            params = [], user = Some [(''id'', JNum 2), (''role'', JStr ''manager'')]\<rparr> = Reply r \<and>
        status r = 403 \<and> code_of r = Some (Val (JStr ''INSUFFICIENT_PERMISSIONS'')) \<and>
        map_of (rbody r) ''requiredRoles'' = Some (Strs [''super_admin'']) \<and>
        map_of (rbody r) ''userRole'' = Some (Val (JStr ''manager''))) \<and>
   requireRole (RoleName ''manager'')
      \<lparr>req = \<lparr>rmethod = GET, rpath = [''staff''], authorization = None, body = [], query = []\<rparr>,
       params = [], user = None\<rparr> =
     Reply \<lparr>status = 401, rbody = err ''Authentication required'' ''AUTH_REQUIRED''\<rparr>"
  using
    requireRole_membership [of "RoleList [''super_admin'', ''manager'']"
      "\<lparr>req = \<lparr>rmethod = GET, rpath = [''staff''], authorization = None, body = [], query = []\<rparr>,
        params = [], user = Some [(''id'', JNum 2), (''role'', JStr ''manager'')]\<rparr>"]
    requireRole_membership [of "RoleList [''super_admin'']"
      "\<lparr>req = \<lparr>rmethod = GET, rpath = [''companies''], authorization = None, body = [], query = []\<rparr>,
        params = [], user = Some [(''id'', JNum 2), (''role'', JStr ''manager'')]\<rparr>"]
    requireRole_membership [of "RoleName ''manager''"
      "\<lparr>req = \<lparr>rmethod = GET, rpath = [''staff''], authorization = None, body = [], query = []\<rparr>,
        params = [], user = None\<rparr>"]
  by (simp add: get_def)

subsection \<open>A database client that failed to initialise\<close>

lemma serve_dispatched: "dispatch e rq = Inl (h, c) \<Longrightarrow> serve e rq = handler_prog h e c"
  by (simp add: serve_def)

lemma null_client_responds:
  assumes "\<not> client e"
  shows "\<exists>r. serve e rq = Respond r \<and> run exec (serve e rq) s = (r, s, [])"
proof -
  have "\<exists>r. handler_prog h e c = Respond r" for h c
    using assms
    by (cases h)
       (auto simp: handler_defs h_root_def h_health_def h_login_def login_fallback_def
          login_ok_def h_profile_def h_logout_def h_sync_all_tables_def
          h_get_companies_scoped_def unavailable_def internal_def json_def Let_def
          split: option.splits)
  then have "\<exists>r. serve e rq = Respond r"
    by (auto simp: serve_def split: sum.splits)
  then show ?thesis by auto
qed

lemma null_client_plain:
  assumes "\<not> client e"
  shows "dispatch e rq = Inl (h, c) \<and>
     h \<in> set [H_sync_users, H_sync_all, H_get_staff, H_put_staff, H_delete_staff, H_get_stores,
              H_get_categories, H_get_products, H_put_products, H_delete_products,
              H_get_movements, H_products_stats, H_get_companies, H_put_companies,
              H_delete_companies] \<longrightarrow>
       serve e rq = unavailable ''Database connection not available''"
proof (intro impI, elim conjE)
  assume d: "dispatch e rq = Inl (h, c)"
    and h: "h \<in> set [H_sync_users, H_sync_all, H_get_staff, H_put_staff, H_delete_staff,
              H_get_stores, H_get_categories, H_get_products, H_put_products, H_delete_products,
              H_get_movements, H_products_stats, H_get_companies, H_put_companies,
              H_delete_companies]"
  from dispatch_cases [OF d]
  have u: "h \<notin> set [H_root, H_health, H_sync_users, H_sync_all, H_login, H_register, H_logout]
             \<longrightarrow> (\<exists>u. user c = Some u)"
    by blast
  show "serve e rq = unavailable ''Database connection not available''"
    using assms h u by (auto simp: serve_dispatched [OF d] handler_defs)
qed

lemma null_client_users:
  assumes "\<not> client e"
  shows "dispatch e rq = Inl (H_get_users, c) \<longrightarrow>
           serve e rq = unavailable ''Database unavailable''"
  using assms by (auto simp: serve_def h_get_users_def)

lemma null_client_post_stores:
  assumes "\<not> client e"
  shows "dispatch e rq = Inl (H_post_stores, c) \<longrightarrow>
     serve e rq =
       (if truthy (get (body rq) ''name'') \<and> truthy (get (body rq) ''company_id'')
        then unavailable ''Database connection not available''
        else json 400 (err ''Store name and company ID are required'' ''MISSING_FIELDS''))"
    (is "_ \<longrightarrow> ?concl")
proof
  assume d: "dispatch e rq = Inl (H_post_stores, c)"
  from dispatch_cases [OF d] have "req c = rq" by blast
  then show ?concl
    using assms by (auto simp: serve_dispatched [OF d] h_post_stores_def bparam_def)
qed

lemma null_client_post_companies:
  assumes "\<not> client e"
  shows "dispatch e rq = Inl (H_post_companies, c) \<longrightarrow>
     serve e rq =
       (if truthy (get (body rq) ''name'')
        then unavailable ''Database connection not available''
        else json 400 (err ''Company name is required'' ''MISSING_FIELDS''))"
    (is "_ \<longrightarrow> ?concl")
proof
  assume d: "dispatch e rq = Inl (H_post_companies, c)"
  from dispatch_cases [OF d] have "req c = rq" by blast
  then show ?concl
    using assms by (auto simp: serve_dispatched [OF d] h_post_companies_def bparam_def)
qed

lemma null_client_post_adjust:
  assumes "\<not> client e"
  shows "dispatch e rq = Inl (H_post_adjust, c) \<longrightarrow>
     serve e rq =
       (if truthy (get (body rq) ''product_id'') \<and> get (body rq) ''new_quantity'' \<noteq> JUndefined
        then unavailable ''Database connection not available''
        else json 400 (err ''Product ID and new quantity are required'' ''MISSING_FIELDS''))"
    (is "_ \<longrightarrow> ?concl")
proof
  assume d: "dispatch e rq = Inl (H_post_adjust, c)"
  from dispatch_cases [OF d] have "req c = rq" by blast
  then show ?concl
    using assms by (auto simp: serve_dispatched [OF d] h_post_adjust_def bparam_def Let_def)
qed

lemma null_client_post_staff:
  assumes "\<not> client e"
  shows "dispatch e rq = Inl (H_post_staff, c) \<longrightarrow>
     (\<exists>t u. bearer_token (authorization rq) = Some t \<and> jwt_verify e t = Decoded u \<and>
        serve e rq =
          (if \<not> (truthy (get (body rq) ''name'') \<and> truthy (get (body rq) ''staff_id'') \<and>
                  truthy (get (body rq) ''store_id'') \<and> truthy (get (body rq) ''passcode''))
           then json 400 (err ''Name, staff ID, store ID, and passcode are required''
                              ''MISSING_FIELDS'')
           else if wrong_store u (get (body rq) ''store_id'')
           then json 403 (err ''Managers can only create staff for their assigned store''
                              ''STORE_ACCESS_DENIED'')
           else unavailable ''Database connection not available''))"
    (is "_ \<longrightarrow> ?concl")
proof
  assume d: "dispatch e rq = Inl (H_post_staff, c)"
  from dispatch_cases [OF d] obtain t u where "req c = rq"
    "bearer_token (authorization rq) = Some t" "jwt_verify e t = Decoded u" "user c = Some u"
    by auto
  then show ?concl
    using assms by (auto simp: serve_dispatched [OF d] h_post_staff_def bparam_def)
qed

lemma null_client_post_categories:
  assumes "\<not> client e"
  shows "dispatch e rq = Inl (H_post_categories, c) \<longrightarrow>
     (\<exists>t u. bearer_token (authorization rq) = Some t \<and> jwt_verify e t = Decoded u \<and>
        serve e rq =
          (if \<not> (truthy (get (body rq) ''name'') \<and> truthy (get (body rq) ''store_id''))
           then json 400 (err ''Category name and store ID are required'' ''MISSING_FIELDS'')
           else if wrong_store u (get (body rq) ''store_id'')
           then json 403 (err ''Managers can only create categories for their assigned store''
                              ''STORE_ACCESS_DENIED'')
           else unavailable ''Database connection not available''))"
    (is "_ \<longrightarrow> ?concl")
proof
  assume d: "dispatch e rq = Inl (H_post_categories, c)"
  from dispatch_cases [OF d] obtain t u where "req c = rq"
    "bearer_token (authorization rq) = Some t" "jwt_verify e t = Decoded u" "user c = Some u"
    by auto
  then show ?concl
    using assms by (auto simp: serve_dispatched [OF d] h_post_categories_def bparam_def)
qed

lemma null_client_post_products:
  assumes "\<not> client e"
  shows "dispatch e rq = Inl (H_post_products, c) \<longrightarrow>
     (\<exists>t u. bearer_token (authorization rq) = Some t \<and> jwt_verify e t = Decoded u \<and>
        serve e rq =
          (if \<not> (truthy (get (body rq) ''name'') \<and> truthy (get (body rq) ''store_id'') \<and>
                  truthy (get (body rq) ''default_price''))
           then json 400 (err ''Product name, store ID, and default price are required''
                              ''MISSING_FIELDS'')
           else if wrong_store u (get (body rq) ''store_id'')
           then json 403 (err ''Managers can only create products for their assigned store''
                              ''STORE_ACCESS_DENIED'')
           else unavailable ''Database connection not available''))"
    (is "_ \<longrightarrow> ?concl")
proof
  assume d: "dispatch e rq = Inl (H_post_products, c)"
  from dispatch_cases [OF d] obtain t u where "req c = rq"
    "bearer_token (authorization rq) = Some t" "jwt_verify e t = Decoded u" "user c = Some u"
    by auto
  then show ?concl
    using assms by (auto simp: serve_dispatched [OF d] h_post_products_def bparam_def)
qed

lemma null_client_register:
  assumes "\<not> client e"
  shows "dispatch e rq = Inl (H_register, c) \<longrightarrow>
     serve e rq =
       (if \<not> (truthy (get (body rq) ''email'') \<and> truthy (get (body rq) ''password'') \<and>
               truthy (get (body rq) ''name''))
        then json 400 (err ''Email, password, and name are required'' ''MISSING_FIELDS'')
        else if \<not> emailRegex_test (get (body rq) ''email'')
        then json 400 (err ''Invalid email format'' ''INVALID_EMAIL'')
        else if too_short (get (body rq) ''password'')
        then json 400 (err ''Password must be at least 6 characters long'' ''WEAK_PASSWORD'')
        else unavailable ''Registration unavailable - database connection failed'')"
    (is "_ \<longrightarrow> ?concl")
proof
  assume d: "dispatch e rq = Inl (H_register, c)"
  from dispatch_cases [OF d] have "req c = rq" by blast
  then show ?concl
    using assms by (auto simp: serve_dispatched [OF d] h_register_def bparam_def Let_def)
qed

lemma demoUsers_key: "map_of demoUsers k = Some u \<Longrightarrow> k \<noteq> []"
  by (auto simp: demoUsers_def)

lemma null_client_login:
  assumes "\<not> client e"
  shows "dispatch e rq = Inl (H_login, c) \<longrightarrow>
     (\<not> truthy (get (body rq) ''email'') \<or> \<not> truthy (get (body rq) ''password'') \<longrightarrow>
        serve e rq = json 400 (err ''Email and password are required'' ''MISSING_CREDENTIALS'')) \<and>
     (\<forall>em u tok. get (body rq) ''email'' = JStr em \<and>
        map_of demoUsers (toLowerCase em) = Some u \<and>
        get (body rq) ''password'' = JStr ''password123'' \<and>
        jwt_sign e [(''id'', get u ''id''), (''email'', get u ''email''),
                    (''role'', get u ''role'')] = Some tok \<longrightarrow>
        serve e rq =
          json 200 [(''message'', Val (JStr ''Login successful (fallback mode)'')),
                    (''user'', Obj u), (''token'', Val (JStr tok)),
                    (''source'', Val (JStr ''fallback''))]) \<and>
     (\<forall>em. get (body rq) ''email'' = JStr em \<and> em \<noteq> [] \<and>
        truthy (get (body rq) ''password'') \<and>
        (get (body rq) ''password'' \<noteq> JStr ''password123'' \<or>
         toLowerCase em \<notin> set (map fst demoUsers @ [''constructor'', ''__proto__''])) \<longrightarrow>
        serve e rq =
          json 401 (err ''Invalid email or password (fallback mode)'' ''INVALID_CREDENTIALS'')) \<and>
     (\<exists>r. serve e rq = Respond r \<and> status r \<in> {200, 400, 401, 500})"
    (is "_ \<longrightarrow> ?concl")
proof
  assume d: "dispatch e rq = Inl (H_login, c)"
  from dispatch_cases [OF d] have rc: "req c = rq" by blast
  have s: "serve e rq = h_login e c" by (simp add: serve_dispatched [OF d])
  have a: "\<not> truthy (get (body rq) ''email'') \<or> \<not> truthy (get (body rq) ''password'') \<longrightarrow>
        serve e rq = json 400 (err ''Email and password are required'' ''MISSING_CREDENTIALS'')"
    using rc by (auto simp: s h_login_def bparam_def)
  have b: "serve e rq =
          json 200 [(''message'', Val (JStr ''Login successful (fallback mode)'')),
                    (''user'', Obj u), (''token'', Val (JStr tok)),
                    (''source'', Val (JStr ''fallback''))]"
    if "get (body rq) ''email'' = JStr em" "map_of demoUsers (toLowerCase em) = Some u"
      "get (body rq) ''password'' = JStr ''password123''"
      "jwt_sign e [(''id'', get u ''id''), (''email'', get u ''email''),
                   (''role'', get u ''role'')] = Some tok" for em u tok
  proof -
    from demoUsers_key [OF that(2)] have "em \<noteq> []" by (auto simp: toLowerCase_def)
    with that assms rc show ?thesis
      by (simp add: s h_login_def bparam_def login_fallback_def login_ok_def generateToken_def)
  qed
  have k: "map_of demoUsers x = None" if "x \<notin> set (map fst demoUsers)" for x
    using that by (simp add: map_of_eq_None_iff)
  have c: "serve e rq =
          json 401 (err ''Invalid email or password (fallback mode)'' ''INVALID_CREDENTIALS'')"
    if "get (body rq) ''email'' = JStr em" "em \<noteq> []" "truthy (get (body rq) ''password'')"
      "get (body rq) ''password'' \<noteq> JStr ''password123'' \<or>
       toLowerCase em \<notin> set (map fst demoUsers @ [''constructor'', ''__proto__''])" for em
    using that assms rc
    by (auto simp: s h_login_def bparam_def login_fallback_def k split: option.splits)
  have f: "\<exists>r. serve e rq = Respond r \<and> status r \<in> {200, 400, 401, 500}"
    using assms
    by (auto simp: s h_login_def login_fallback_def login_ok_def internal_def json_def Let_def
          split: option.splits)
  from a b c f show ?concl
    by blast
qed

lemma null_client_profile:
  assumes "\<not> client e"
  shows "dispatch e rq = Inl (H_profile, c) \<longrightarrow>
     (\<exists>t u. bearer_token (authorization rq) = Some t \<and> jwt_verify e t = Decoded u \<and>
        serve e rq = json 200 [(''user'', Obj u), (''source'', Val (JStr ''fallback''))])"
    (is "_ \<longrightarrow> ?concl")
proof
  assume d: "dispatch e rq = Inl (H_profile, c)"
  from dispatch_cases [OF d] obtain t u where
    "bearer_token (authorization rq) = Some t" "jwt_verify e t = Decoded u" "user c = Some u"
    by auto
  then show ?concl
    using assms by (auto simp: serve_dispatched [OF d] h_profile_def)
qed

lemma null_client_health:
  assumes "\<not> client e"
  shows "dispatch e rq = Inl (H_health, c) \<longrightarrow>
     serve e rq =
       json 503 ([(''status'', Val (JStr ''unhealthy'')),
                  (''database'', Val (JStr ''initialization_failed''))] @ timestamp e @
                 [(''error'', Val (JStr ''Could not initialize Supabase client''))])"
  using assms by (auto simp: serve_def h_health_def)

lemma null_handle_stays:
  "\<not> fst (getSupabaseClient ok hd0) \<longrightarrow>
      \<not> supabase hd0 \<and> (initializationPromise hd0 = None \<longrightarrow> \<not> ok) \<and>
      \<not> fst (getSupabaseClient ok' (snd (getSupabaseClient ok hd0)))"
  by (auto simp: getSupabaseClient_def initializeSupabase_def split: if_splits option.splits)

text \<open>
  C6, as the code has it. With no database client every request is answered with
  nothing sent to the database. The handlers that only read, update or delete answer 503
  SERVICE_UNAVAILABLE. The creating handlers and registration first run their checks: a
  request that fails them is answered 400 (MISSING_FIELDS, and for registration
  INVALID_EMAIL or WEAK_PASSWORD) or, for a manager who names another store than the own,
  403 STORE_ACCESS_DENIED; a request that passes them is answered 503
  SERVICE_UNAVAILABLE. Login does not answer 503: it falls back to the built-in demo
  users, answering 400 MISSING_CREDENTIALS without an email or a password, 200 with the
  demo user, a token for it and the source \<open>fallback\<close> for a demo user's email (in any
  case of its letters) with the password \<open>password123\<close>, and 401 INVALID_CREDENTIALS
  for another password or an email that is none of the demo users'. The profile answers
  200 with the identity of the token and the source \<open>fallback\<close>, the health check 503
  without a code. The handle is \<open>null\<close> only when its initialisation failed, and then
  every later request finds it \<open>null\<close> again: the initialisation is not tried a second
  time.
\<close>

theorem null_client_answers:
  "(\<not> client e \<longrightarrow>
      (\<exists>r. serve e rq = Respond r \<and> run exec (serve e rq) s = (r, s, [])) \<and>
      (dispatch e rq = Inl (h, c) \<and>
       h \<in> set [H_sync_users, H_sync_all, H_get_staff, H_put_staff, H_delete_staff, H_get_stores,
                H_get_categories, H_get_products, H_put_products, H_delete_products,
                H_get_movements, H_products_stats, H_get_companies, H_put_companies,
                H_delete_companies] \<longrightarrow>
         serve e rq = unavailable ''Database connection not available'') \<and>
      (dispatch e rq = Inl (H_get_users, c) \<longrightarrow>
         serve e rq = unavailable ''Database unavailable'') \<and>
      (dispatch e rq = Inl (H_post_stores, c) \<longrightarrow>
         serve e rq =
           (if truthy (get (body rq) ''name'') \<and> truthy (get (body rq) ''company_id'')
            then unavailable ''Database connection not available''
            else json 400 (err ''Store name and company ID are required'' ''MISSING_FIELDS''))) \<and>
      (dispatch e rq = Inl (H_post_companies, c) \<longrightarrow>
         serve e rq =
           (if truthy (get (body rq) ''name'')
            then unavailable ''Database connection not available''
            else json 400 (err ''Company name is required'' ''MISSING_FIELDS''))) \<and>
      (dispatch e rq = Inl (H_post_adjust, c) \<longrightarrow>
         serve e rq =
           (if truthy (get (body rq) ''product_id'') \<and>
               get (body rq) ''new_quantity'' \<noteq> JUndefined
            then unavailable ''Database connection not available''
            else json 400 (err ''Product ID and new quantity are required'' ''MISSING_FIELDS''))) \<and>
      (dispatch e rq = Inl (H_post_staff, c) \<longrightarrow>
         (\<exists>t u. bearer_token (authorization rq) = Some t \<and> jwt_verify e t = Decoded u \<and>
            serve e rq =
              (if \<not> (truthy (get (body rq) ''name'') \<and> truthy (get (body rq) ''staff_id'') \<and>
                      truthy (get (body rq) ''store_id'') \<and> truthy (get (body rq) ''passcode''))
               then json 400 (err ''Name, staff ID, store ID, and passcode are required''
                                  ''MISSING_FIELDS'')
               else if wrong_store u (get (body rq) ''store_id'')
               then json 403 (err ''Managers can only create staff for their assigned store''
                                  ''STORE_ACCESS_DENIED'')
               else unavailable ''Database connection not available''))) \<and>
      (dispatch e rq = Inl (H_post_categories, c) \<longrightarrow>
         (\<exists>t u. bearer_token (authorization rq) = Some t \<and> jwt_verify e t = Decoded u \<and>
            serve e rq =
              (if \<not> (truthy (get (body rq) ''name'') \<and> truthy (get (body rq) ''store_id''))
               then json 400 (err ''Category name and store ID are required'' ''MISSING_FIELDS'')
               else if wrong_store u (get (body rq) ''store_id'')
               then json 403 (err ''Managers can only create categories for their assigned store''
                                  ''STORE_ACCESS_DENIED'')
               else unavailable ''Database connection not available''))) \<and>
      (dispatch e rq = Inl (H_post_products, c) \<longrightarrow>
         (\<exists>t u. bearer_token (authorization rq) = Some t \<and> jwt_verify e t = Decoded u \<and>
            serve e rq =
              (if \<not> (truthy (get (body rq) ''name'') \<and> truthy (get (body rq) ''store_id'') \<and>
                      truthy (get (body rq) ''default_price''))
               then json 400 (err ''Product name, store ID, and default price are required''
                                  ''MISSING_FIELDS'')
               else if wrong_store u (get (body rq) ''store_id'')
               then json 403 (err ''Managers can only create products for their assigned store''
                                  ''STORE_ACCESS_DENIED'')
               else unavailable ''Database connection not available''))) \<and>
      (dispatch e rq = Inl (H_register, c) \<longrightarrow>
         serve e rq =
           (if \<not> (truthy (get (body rq) ''email'') \<and> truthy (get (body rq) ''password'') \<and>
                   truthy (get (body rq) ''name''))
            then json 400 (err ''Email, password, and name are required'' ''MISSING_FIELDS'')
            else if \<not> emailRegex_test (get (body rq) ''email'')
            then json 400 (err ''Invalid email format'' ''INVALID_EMAIL'')
            else if too_short (get (body rq) ''password'')
            then json 400 (err ''Password must be at least 6 characters long'' ''WEAK_PASSWORD'')
            else unavailable ''Registration unavailable - database connection failed'')) \<and>
      (dispatch e rq = Inl (H_login, c) \<longrightarrow>
         (\<not> truthy (get (body rq) ''email'') \<or> \<not> truthy (get (body rq) ''password'') \<longrightarrow>
            serve e rq =
              json 400 (err ''Email and password are required'' ''MISSING_CREDENTIALS'')) \<and>
         (\<forall>em u tok. get (body rq) ''email'' = JStr em \<and>
            map_of demoUsers (toLowerCase em) = Some u \<and>
            get (body rq) ''password'' = JStr ''password123'' \<and>
            jwt_sign e [(''id'', get u ''id''), (''email'', get u ''email''),
                        (''role'', get u ''role'')] = Some tok \<longrightarrow>
            serve e rq =
              json 200 [(''message'', Val (JStr ''Login successful (fallback mode)'')),
                        (''user'', Obj u), (''token'', Val (JStr tok)),
                        (''source'', Val (JStr ''fallback''))]) \<and>
         (\<forall>em. get (body rq) ''email'' = JStr em \<and> em \<noteq> [] \<and>
            truthy (get (body rq) ''password'') \<and>
            (get (body rq) ''password'' \<noteq> JStr ''password123'' \<or>
             toLowerCase em \<notin> set (map fst demoUsers @ [''constructor'', ''__proto__''])) \<longrightarrow>
            serve e rq =
              json 401 (err ''Invalid email or password (fallback mode)''
                            ''INVALID_CREDENTIALS'')) \<and>
         (\<exists>r. serve e rq = Respond r \<and> status r \<in> {200, 400, 401, 500})) \<and>
      (dispatch e rq = Inl (H_profile, c) \<longrightarrow>
         (\<exists>t u. bearer_token (authorization rq) = Some t \<and> jwt_verify e t = Decoded u \<and>
            serve e rq = json 200 [(''user'', Obj u), (''source'', Val (JStr ''fallback''))])) \<and>
      (dispatch e rq = Inl (H_health, c) \<longrightarrow>
         serve e rq =
           json 503 ([(''status'', Val (JStr ''unhealthy'')),
                      (''database'', Val (JStr ''initialization_failed''))] @ timestamp e @
                     [(''error'', Val (JStr ''Could not initialize Supabase client''))]))) \<and>
   (\<not> fst (getSupabaseClient ok hd0) \<longrightarrow>
      \<not> supabase hd0 \<and> (initializationPromise hd0 = None \<longrightarrow> \<not> ok) \<and>
      \<not> fst (getSupabaseClient ok' (snd (getSupabaseClient ok hd0))))"
  (is "(_ \<longrightarrow> ?A) \<and> ?B")
proof -
  have "?A" if n: "\<not> client e"
    by (intro conjI;
        rule null_client_responds [OF n] null_client_plain [OF n] null_client_users [OF n]
          null_client_post_stores [OF n] null_client_post_companies [OF n]
          null_client_post_adjust [OF n] null_client_post_staff [OF n]
          null_client_post_categories [OF n] null_client_post_products [OF n]
          null_client_register [OF n] null_client_login [OF n] null_client_profile [OF n]
          null_client_health [OF n])
  moreover have "?B" by (rule null_handle_stays)
  ultimately show ?thesis by blast
qed

theorem null_client_answers_witness:
  "\<not> client (sample_env False) \<and>
   serve (sample_env False) (get_request [''staff''] ''manager7'' []) =
     unavailable ''Database connection not available'' \<and>
   serve (sample_env False)
     (write_request POST [''stores''] ''admin''
        [(''name'', JStr ''East''), (''company_id'', JNum 1)]) =
     unavailable ''Database connection not available'' \<and>
   serve (sample_env False)
     (write_request POST [''stores''] ''admin'' [(''name'', JStr ''East'')]) =
     json 400 (err ''Store name and company ID are required'' ''MISSING_FIELDS'')"
proof -
  let ?e = "sample_env False"
  let ?g = "get_request [''staff''] ''manager7'' []"
  let ?p = "write_request POST [''stores''] ''admin''
              [(''name'', JStr ''East''), (''company_id'', JNum 1)]"
  let ?q = "write_request POST [''stores''] ''admin'' [(''name'', JStr ''East'')]"
  let ?m = "sample_claims ''manager@techcorp.com'' ''manager'' @ [(''store_id'', JNum 7)]"
  let ?a = "sample_claims ''admin@techcorp.com'' ''super_admin''"
  have n: "\<not> client ?e"
    by (simp add: sample_env_def)
  have d1: "dispatch ?e ?g = Inl (H_get_staff, \<lparr>req = ?g, params = [], user = Some ?m\<rparr>)"
    and d2: "dispatch ?e ?p = Inl (H_post_stores, \<lparr>req = ?p, params = [], user = Some ?a\<rparr>)"
    and d3: "dispatch ?e ?q = Inl (H_post_stores, \<lparr>req = ?q, params = [], user = Some ?a\<rparr>)"
    by (simp_all add: dispatch_def routes_def get_request_def write_request_def sample_env_def
          sample_verify_def authenticateToken_def bearer_token_def requireRole_def
          admin_manager_def admin_only_def js_includes_def get_def sample_claims_def)
  from null_client_answers
         [where e = ?e and rq = ?g and h = H_get_staff
            and c = "\<lparr>req = ?g, params = [], user = Some ?m\<rparr>",
          THEN conjunct1, THEN mp, OF n, THEN conjunct2, THEN conjunct1] d1
  have r1: "serve ?e ?g = unavailable ''Database connection not available''"
    by simp
  from null_client_answers
         [where e = ?e and rq = ?p and c = "\<lparr>req = ?p, params = [], user = Some ?a\<rparr>",
          THEN conjunct1, THEN mp, OF n, THEN conjunct2, THEN conjunct2, THEN conjunct2,
          THEN conjunct1] d2
  have r2: "serve ?e ?p = unavailable ''Database connection not available''"
    by (simp add: write_request_def get_def)
  from null_client_answers
         [where e = ?e and rq = ?q and c = "\<lparr>req = ?q, params = [], user = Some ?a\<rparr>",
          THEN conjunct1, THEN mp, OF n, THEN conjunct2, THEN conjunct2, THEN conjunct2,
          THEN conjunct1] d3
  have r3: "serve ?e ?q =
      json 400 (err ''Store name and company ID are required'' ''MISSING_FIELDS'')"
    by (simp add: write_request_def get_def)
  from n r1 r2 r3 show ?thesis by simp
qed

text \<open>
  The claim as stated fails: with no database client, a login with the demo
  administrator's credentials is answered 200 with a token.
\<close>

theorem login_with_null_client_authenticates:
  "serve (sample_env False)
     (anonymous POST [''auth'', ''login'']
        [(''email'', JStr ''admin@techcorp.com''), (''password'', JStr ''password123'')]) =
     Respond \<lparr>status = 200,
              rbody = [(''message'', Val (JStr ''Login successful (fallback mode)'')),
                       (''user'', Obj [(''id'', JNum 1), (''name'', JStr ''Demo Admin''),
                                       (''role'', JStr ''super_admin''),
                                       (''email'', JStr ''admin@techcorp.com'')]),
                       (''token'', Val (JStr ''token:admin@techcorp.com'')),
                       (''source'', Val (JStr ''fallback''))]\<rparr>"
  by (simp add: serve_def dispatch_def routes_def anonymous_def h_login_def bparam_def get_def
        sample_env_def login_fallback_def toLowerCase_def lower_char_def demoUsers_def
        login_ok_def generateToken_def sample_sign_def json_def)

subsection \<open>Identities without a store or a company\<close>

text \<open>
  C7 does not hold of the code. A manager whose token carries neither \<open>store_id\<close> nor
  \<open>company_id\<close> (every token \<open>generateToken\<close> issues) lists the staff, the stores and
  the products of all stores: the query keeps only the \<open>is_active\<close> filter. Only the
  second \<open>GET /companies\<close> handler has the empty default.
\<close>

theorem unaffiliated_manager_lists_everything:
  "run sample_exec (serve (sample_env True) (get_request [''staff''] ''manager'' [])) sample_db =
     (\<lparr>status = 200,
       rbody = [(''staff'',
                   Rows [[(''id'', JNum 1), (''name'', JStr ''Ana''), (''store_id'', JNum 7),
                          (''is_active'', JBool True), (''role'', JStr ''staff'')],
                         [(''id'', JNum 2), (''name'', JStr ''Ben''), (''store_id'', JNum 9),
                          (''is_active'', JBool True), (''role'', JStr ''staff'')]]),
                (''count'', Val (JNum 2)),
                (''timestamp'', Val (JStr ''2025-01-01T00:00:00.000Z''))]\<rparr>,
      sample_db,
      [SelectRows \<lparr>q_table = ''staff'', q_columns = ''*'', q_eq = [(''is_active'', JBool True)],
                   q_or = [], q_order = [(''created_at'', False)], q_limit = None,
                   q_range = None\<rparr>]) \<and>
   fst (run sample_exec (serve (sample_env True) (get_request [''stores''] ''manager'' []))
          sample_db) =
     \<lparr>status = 200,
      rbody = [(''stores'', Rows (table sample_db ''stores'')), (''count'', Val (JNum 2)),
               (''timestamp'', Val (JStr ''2025-01-01T00:00:00.000Z''))]\<rparr> \<and>
   fst (run sample_exec (serve (sample_env True) (get_request [''products''] ''manager'' []))
          sample_db) =
     \<lparr>status = 200,
      rbody = [(''products'', Rows (table sample_db ''products'')), (''count'', Val (JNum 2)),
               (''timestamp'', Val (JStr ''2025-01-01T00:00:00.000Z''))]\<rparr>"
  by (simp add: serve_def dispatch_def routes_def get_request_def sample_env_def sample_verify_def
        authenticateToken_def bearer_token_def requireRole_def admin_manager_def
        admin_manager_cashier_def js_includes_def get_def sample_claims_def
        h_get_staff_def h_get_stores_def h_get_products_def store_scope_def is_role_def
        from_table_def eqs_def eq_def order_def with_default_def qparam_def
        sample_db_def table_def matches_def rows_or_empty_def rows_of_def
        json_def count_rows_def timestamp_def staff_with_role_def set_prop_def del_prop_def
        orElse_def)

subsection \<open>Logout\<close>

text \<open>
  C8. The optional authentication never answers the request itself. \<open>POST /auth/logout\<close>
  is answered 200 with the same body whatever the authorization header, the verdict of
  the token library and the state of the database client; nothing is sent to the
  database and its state is the one before. So any sequence of logout requests gets
  that answer each time and leaves the state as it found it.
\<close>

theorem logout_always_succeeds:
  "(\<exists>c'. optionalAuthentication verify c = Next c') \<and>
   (rmethod rq = POST \<and> rpath rq = [''auth'', ''logout''] \<longrightarrow>
      run exec (serve e rq) s =
        (\<lparr>status = 200,
          rbody = [(''message'', Val (JStr ''Logout successful'')),
                   (''code'', Val (JStr ''LOGOUT_SUCCESS''))]\<rparr>, s, [])) \<and>
   ((\<forall>p \<in> set ers. rmethod (snd p) = POST \<and> rpath (snd p) = [''auth'', ''logout'']) \<longrightarrow>
      serve_all exec ers s =
        (replicate (length ers)
           \<lparr>status = 200,
            rbody = [(''message'', Val (JStr ''Logout successful'')),
                     (''code'', Val (JStr ''LOGOUT_SUCCESS''))]\<rparr>, s))"
proof -
  have a: "\<exists>c'. optionalAuthentication verify c = Next c'"
    by (auto simp: optionalAuthentication_def split: option.splits verify_result.splits)
  have b: "(\<forall>p \<in> set ers. rmethod (snd p) = POST \<and> rpath (snd p) = [''auth'', ''logout'']) \<Longrightarrow>
      serve_all exec ers s =
        (replicate (length ers)
           \<lparr>status = 200,
            rbody = [(''message'', Val (JStr ''Logout successful'')),
                     (''code'', Val (JStr ''LOGOUT_SUCCESS''))]\<rparr>, s)"
    by (induction ers arbitrary: s) (auto simp: serve_logout)
  show ?thesis using a b by (auto simp: serve_logout)
qed

theorem logout_always_succeeds_witness:
  "serve_all sample_exec
     [(sample_env True, write_request POST [''auth'', ''logout''] ''manager7'' []),
      (sample_env True, write_request POST [''auth'', ''logout''] ''old'' []),
      (sample_env False, write_request POST [''auth'', ''logout''] ''garbled'' []),
      (sample_env True, anonymous POST [''auth'', ''logout''] [])] sample_db =
     (replicate 4
        \<lparr>status = 200,
         rbody = [(''message'', Val (JStr ''Logout successful'')),
                  (''code'', Val (JStr ''LOGOUT_SUCCESS''))]\<rparr>, sample_db)"
  using logout_always_succeeds
    [of sample_verify
        "\<lparr>req = anonymous POST [''auth'', ''logout''] [], params = [], user = None\<rparr>"
        "anonymous POST [''auth'', ''logout''] []" sample_exec
        "sample_env True" sample_db
        "[(sample_env True, write_request POST [''auth'', ''logout''] ''manager7'' []),
          (sample_env True, write_request POST [''auth'', ''logout''] ''old'' []),
          (sample_env False, write_request POST [''auth'', ''logout''] ''garbled'' []),
          (sample_env True, anonymous POST [''auth'', ''logout''] [])]"]
  by (simp add: write_request_def anonymous_def eval_nat_numeral)

subsection \<open>Registration\<close>

lemma serve_register:
  "rmethod rq = POST \<Longrightarrow> rpath rq = [''auth'', ''register''] \<Longrightarrow>
     serve e rq = h_register e \<lparr>req = rq, params = [], user = None\<rparr>"
  by (simp add: serve_def dispatch_def routes_def)

lemma emailRegex_empty: "\<not> rx_match emailRegex []"
  by (simp add: emailRegex_def)

lemma emailRegex_truthy: "emailRegex_test v \<Longrightarrow> truthy v"
  by (cases v) (auto simp: emailRegex_def)

lemma many_iff:
  "rx_match (Many a # ps) s =
     (\<exists>u v. s = u @ v \<and> u \<noteq> [] \<and> list_all (atom_ok a) u \<and> rx_match ps v)"
proof (induction s)
  case Nil
  then show ?case by simp
next
  case (Cons x xs)
  show ?case
  proof
    assume "rx_match (Many a # ps) (x # xs)"
    then have ok: "atom_ok a x" and or: "rx_match ps xs \<or> rx_match (Many a # ps) xs" by auto
    from or show "\<exists>u v. x # xs = u @ v \<and> u \<noteq> [] \<and> list_all (atom_ok a) u \<and> rx_match ps v"
    proof
      assume "rx_match ps xs"
      with ok have "x # xs = [x] @ xs \<and> [x] \<noteq> [] \<and> list_all (atom_ok a) [x] \<and> rx_match ps xs"
        by simp
      then show ?thesis by blast
    next
      assume "rx_match (Many a # ps) xs"
      with Cons.IH obtain u v where "xs = u @ v" "u \<noteq> []" "list_all (atom_ok a) u" "rx_match ps v"
        by blast
      with ok have "x # xs = (x # u) @ v \<and> x # u \<noteq> [] \<and> list_all (atom_ok a) (x # u) \<and>
          rx_match ps v" by simp
      then show ?thesis by blast
    qed
  next
    assume "\<exists>u v. x # xs = u @ v \<and> u \<noteq> [] \<and> list_all (atom_ok a) u \<and> rx_match ps v"
    then obtain u v where uv: "x # xs = u @ v" "u \<noteq> []" "list_all (atom_ok a) u" "rx_match ps v"
      by blast
    then obtain u' where u: "u = x # u'" by (cases u) auto
    with uv have ok: "atom_ok a x" and xs: "xs = u' @ v" and rest: "list_all (atom_ok a) u'" by auto
    show "rx_match (Many a # ps) (x # xs)"
    proof (cases "u' = []")
      case True
      with xs uv(4) ok show ?thesis by simp
    next
      case False
      with xs rest uv(4) Cons.IH have "rx_match (Many a # ps) xs" by blast
      with ok show ?thesis by simp
    qed
  qed
qed

lemma one_iff:
  "rx_match (One a # ps) s = (\<exists>x v. s = x # v \<and> atom_ok a x \<and> rx_match ps v)"
  by (cases s) auto

text \<open>The pattern of the handler accepts exactly the strings of the shape \<open>local@domain.tld\<close>.\<close>

lemma emailRegex_shape: "rx_match emailRegex s = local_at_domain_tld s"
  unfolding emailRegex_def local_at_domain_tld_def
  by (auto simp: many_iff one_iff) metis+

lemma register_rejections:
  assumes "rmethod rq = POST" "rpath rq = [''auth'', ''register'']"
  shows "(\<not> truthy (get (body rq) ''email'') \<or> \<not> truthy (get (body rq) ''password'') \<or>
          \<not> truthy (get (body rq) ''name'') \<longrightarrow>
            serve e rq =
              Respond \<lparr>status = 400,
                       rbody = err ''Email, password, and name are required''
                                   ''MISSING_FIELDS''\<rparr>)"
   and "(\<not> emailRegex_test (get (body rq) ''email'') \<and> truthy (get (body rq) ''email'') \<and>
         truthy (get (body rq) ''password'') \<and> truthy (get (body rq) ''name'') \<longrightarrow>
            serve e rq = Respond \<lparr>status = 400,
                                   rbody = err ''Invalid email format'' ''INVALID_EMAIL''\<rparr>)"
   and "(get (body rq) ''password'' = JStr pw \<and> pw \<noteq> [] \<and> length pw < 6 \<and>
          truthy (get (body rq) ''name'') \<and> emailRegex_test (get (body rq) ''email'') \<longrightarrow>
            serve e rq =
              Respond \<lparr>status = 400,
                       rbody = err ''Password must be at least 6 characters long''
                                   ''WEAK_PASSWORD''\<rparr>)"
   and "(get (body rq) ''password'' = JStr pw \<and> length pw < 6 \<longrightarrow>
            (\<exists>r. serve e rq = Respond r \<and> status r = 400 \<and>
                 code_of r \<in> (\<lambda>x. Some (Val (JStr x))) `
                               {''MISSING_FIELDS'', ''INVALID_EMAIL'', ''WEAK_PASSWORD''}))"
   and "(\<not> emailRegex_test (get (body rq) ''email'') \<longrightarrow>
            (\<exists>r. serve e rq = Respond r \<and> status r = 400 \<and>
                 code_of r \<in> (\<lambda>x. Some (Val (JStr x))) ` {''MISSING_FIELDS'', ''INVALID_EMAIL''}))"
  using assms
  by (auto simp: serve_register h_register_def bparam_def json_def code_of_def err_def Let_def
        dest: emailRegex_truthy)

lemma register_unavailable:
  assumes "rmethod rq = POST" "rpath rq = [''auth'', ''register'']"
  shows "get (body rq) ''email'' = JStr em \<and> local_at_domain_tld em \<and>
     truthy (get (body rq) ''password'') \<and>
     (\<forall>pw. get (body rq) ''password'' = JStr pw \<longrightarrow> 6 \<le> length pw) \<and>
     truthy (get (body rq) ''name'') \<and> \<not> client e \<longrightarrow>
       run exec (serve e rq) s =
         (\<lparr>status = 503,
           rbody = err ''Registration unavailable - database connection failed''
                       ''SERVICE_UNAVAILABLE''\<rparr>, s, [])"
proof (intro impI, elim conjE)
  assume a: "get (body rq) ''email'' = JStr em" "local_at_domain_tld em"
    "truthy (get (body rq) ''password'')"
    "\<forall>pw. get (body rq) ''password'' = JStr pw \<longrightarrow> 6 \<le> length pw"
    "truthy (get (body rq) ''name'')" "\<not> client e"
  from a(2) have m: "rx_match emailRegex em" by (simp add: emailRegex_shape)
  then have "em \<noteq> []" using emailRegex_empty by auto
  moreover from a(4) have "\<not> too_short (get (body rq) ''password'')"
    by (cases "get (body rq) ''password''") auto
  ultimately show "run exec (serve e rq) s =
         (\<lparr>status = 503,
           rbody = err ''Registration unavailable - database connection failed''
                       ''SERVICE_UNAVAILABLE''\<rparr>, s, [])"
    using a m
    by (simp add: serve_register [OF assms] h_register_def bparam_def unavailable_def json_def)
qed

lemma register_email_shape:
  assumes "rmethod rq = POST" "rpath rq = [''auth'', ''register'']"
  shows "get (body rq) ''email'' = JStr em \<and> \<not> local_at_domain_tld em \<longrightarrow>
           (\<exists>r. serve e rq = Respond r \<and> status r = 400 \<and>
                code_of r \<in> (\<lambda>x. Some (Val (JStr x))) ` {''MISSING_FIELDS'', ''INVALID_EMAIL''})"
  using register_rejections(5) [OF assms, of e] by (auto simp: emailRegex_shape)

lemma emailRegex_test_shape: "\<forall>em. emailRegex_test (JStr em) = local_at_domain_tld em"
  by (simp add: emailRegex_shape)

lemma register_database_outcomes:
  assumes "rmethod rq = POST" "rpath rq = [''auth'', ''register'']"
  shows "get (body rq) ''email'' = JStr em \<and> local_at_domain_tld em \<and>
     get (body rq) ''password'' = JStr pw \<and> 6 \<le> length pw \<and>
     truthy (get (body rq) ''name'') \<and> client e \<and>
     exec (SelectSingle (eqs [(''email'', JStr (toLowerCase em))]
                           (from_table ''users'' ''id, email''))) s = (r1, s1) \<longrightarrow>
     ((\<exists>er. d_error r1 = Some er \<and> e_code er \<noteq> ''PGRST116'') \<longrightarrow>
        run exec (serve e rq) s =
          (\<lparr>status = 500, rbody = err ''Database error while checking user'' ''DB_ERROR''\<rparr>,
           s1,
           [SelectSingle (eqs [(''email'', JStr (toLowerCase em))]
                            (from_table ''users'' ''id, email''))])) \<and>
     ((d_error r1 = None \<or> (\<exists>er. d_error r1 = Some er \<and> e_code er = ''PGRST116'')) \<and>
      row_of (d_data r1) \<noteq> None \<longrightarrow>
        run exec (serve e rq) s =
          (\<lparr>status = 409, rbody = err ''User with this email already exists'' ''USER_EXISTS''\<rparr>,
           s1,
           [SelectSingle (eqs [(''email'', JStr (toLowerCase em))]
                            (from_table ''users'' ''id, email''))])) \<and>
     ((d_error r1 = None \<or> (\<exists>er. d_error r1 = Some er \<and> e_code er = ''PGRST116'')) \<and>
      row_of (d_data r1) = None \<and> get (body rq) ''name'' = JStr nm \<and>
      (if truthy (get (body rq) ''phone'') then js_trim (get (body rq) ''phone'') else Some [])
        = Some ph \<and>
      exec (InsertSingle ''users''
             ([(''email'', JStr (trim (toLowerCase em))),
               (''password'', JStr (bcrypt_hash e pw)),
               (''name'', JStr (trim nm)), (''role'', get (body rq) ''role''),
               (''is_active'', JBool True), (''created_at'', JStr (now e))] @
              (if ph \<noteq> [] then [(''phone'', JStr ph)] else []))
             ''id, email, name, role, phone, is_active, created_at'') s1 = (r2, s2) \<longrightarrow>
        (d_error r2 = None \<and> d_data r2 = DRow u \<and>
         jwt_sign e [(''id'', get u ''id''), (''email'', get u ''email''),
                     (''role'', get u ''role'')] = Some tok \<longrightarrow>
           run exec (serve e rq) s =
             (\<lparr>status = 201,
               rbody = [(''message'', Val (JStr ''User registered successfully'')),
                        (''user'', Obj u), (''token'', Val (JStr tok)),
                        (''source'', Val (JStr ''supabase''))]\<rparr>,
              s2,
              [SelectSingle (eqs [(''email'', JStr (toLowerCase em))]
                               (from_table ''users'' ''id, email'')),
               InsertSingle ''users''
                 ([(''email'', JStr (trim (toLowerCase em))),
                   (''password'', JStr (bcrypt_hash e pw)),
                   (''name'', JStr (trim nm)), (''role'', get (body rq) ''role''),
                   (''is_active'', JBool True), (''created_at'', JStr (now e))] @
                  (if ph \<noteq> [] then [(''phone'', JStr ph)] else []))
                 ''id, email, name, role, phone, is_active, created_at''])) \<and>
        (\<forall>er. d_error r2 = Some er \<longrightarrow>
           run exec (serve e rq) s =
             ((if e_code er = ''23505''
               then \<lparr>status = 409,
                     rbody = err ''User with this email already exists'' ''USER_EXISTS''\<rparr>
               else \<lparr>status = 400,
                     rbody = err ''Failed to create user account'' ''DB_INSERT_ERROR'' @
                             details er\<rparr>),
              s2,
              [SelectSingle (eqs [(''email'', JStr (toLowerCase em))]
                               (from_table ''users'' ''id, email'')),
               InsertSingle ''users''
                 ([(''email'', JStr (trim (toLowerCase em))),
                   (''password'', JStr (bcrypt_hash e pw)),
                   (''name'', JStr (trim nm)), (''role'', get (body rq) ''role''),
                   (''is_active'', JBool True), (''created_at'', JStr (now e))] @
                  (if ph \<noteq> [] then [(''phone'', JStr ph)] else []))
                 ''id, email, name, role, phone, is_active, created_at''])))"
  using assms
  by (auto simp: serve_register h_register_def register_insert_def bparam_def json_def
        row_of_def generateToken_def Let_def emailRegex_empty emailRegex_shape [symmetric]
        split: option.splits)

text \<open>
  C9, as the code has it. Registration checks, in this order: that email, password and
  name are present (400 MISSING_FIELDS when one is missing or empty), the shape
  \<open>local@domain.tld\<close> of the email (400 INVALID_EMAIL), the length of the password (400
  WEAK_PASSWORD), the database client (503 SERVICE_UNAVAILABLE), whether the email is
  taken (409 USER_EXISTS, or 500 DB_ERROR when the lookup fails). So a password shorter
  than 6 characters is always answered 400, with WEAK_PASSWORD when it is not empty, the
  name is present and the email has the right shape; an email of the wrong shape is
  always answered 400, with INVALID_EMAIL when the three fields are present. A request
  that passes the three checks is answered 503 with nothing sent to the database when
  there is no database client. With the client, it is answered 409 USER_EXISTS when the
  lookup finds the email, after the lookup only; when the lookup finds none and the
  insertion returns the new row, it is answered 201 with that row, a token for it and
  the source; when the insertion fails, 409 USER_EXISTS for the error of a duplicate key
  and 400 DB_INSERT_ERROR otherwise. The pattern of the email check accepts exactly the
  strings of the shape \<open>local@domain.tld\<close>.
\<close>

theorem register_outcomes:
  assumes "rmethod rq = POST" "rpath rq = [''auth'', ''register'']"
  shows "(\<not> truthy (get (body rq) ''email'') \<or> \<not> truthy (get (body rq) ''password'') \<or>
      \<not> truthy (get (body rq) ''name'') \<longrightarrow>
        serve e rq =
          Respond \<lparr>status = 400,
                   rbody = err ''Email, password, and name are required''
                               ''MISSING_FIELDS''\<rparr>) \<and>
     (\<not> emailRegex_test (get (body rq) ''email'') \<and> truthy (get (body rq) ''email'') \<and>
      truthy (get (body rq) ''password'') \<and> truthy (get (body rq) ''name'') \<longrightarrow>
        serve e rq = Respond \<lparr>status = 400,
                               rbody = err ''Invalid email format'' ''INVALID_EMAIL''\<rparr>) \<and>
     (get (body rq) ''password'' = JStr pw \<and> pw \<noteq> [] \<and> length pw < 6 \<and>
      truthy (get (body rq) ''name'') \<and> emailRegex_test (get (body rq) ''email'') \<longrightarrow>
        serve e rq =
          Respond \<lparr>status = 400,
                   rbody = err ''Password must be at least 6 characters long''
                               ''WEAK_PASSWORD''\<rparr>) \<and>
     (get (body rq) ''email'' = JStr em \<and> local_at_domain_tld em \<and>
      truthy (get (body rq) ''password'') \<and>
      (\<forall>pw. get (body rq) ''password'' = JStr pw \<longrightarrow> 6 \<le> length pw) \<and>
      truthy (get (body rq) ''name'') \<and> \<not> client e \<longrightarrow>
        run exec (serve e rq) s =
          (\<lparr>status = 503,
            rbody = err ''Registration unavailable - database connection failed''
                        ''SERVICE_UNAVAILABLE''\<rparr>, s, [])) \<and>
     (get (body rq) ''email'' = JStr em \<and> local_at_domain_tld em \<and>
      get (body rq) ''password'' = JStr pw' \<and> 6 \<le> length pw' \<and>
      truthy (get (body rq) ''name'') \<and> client e \<and>
      exec (SelectSingle (eqs [(''email'', JStr (toLowerCase em))]
                            (from_table ''users'' ''id, email''))) s = (r1, s1) \<longrightarrow>
      ((\<exists>er. d_error r1 = Some er \<and> e_code er \<noteq> ''PGRST116'') \<longrightarrow>
         run exec (serve e rq) s =
           (\<lparr>status = 500, rbody = err ''Database error while checking user'' ''DB_ERROR''\<rparr>,
            s1,
            [SelectSingle (eqs [(''email'', JStr (toLowerCase em))]
                             (from_table ''users'' ''id, email''))])) \<and>
      ((d_error r1 = None \<or> (\<exists>er. d_error r1 = Some er \<and> e_code er = ''PGRST116'')) \<and>
       row_of (d_data r1) \<noteq> None \<longrightarrow>
         run exec (serve e rq) s =
           (\<lparr>status = 409, rbody = err ''User with this email already exists'' ''USER_EXISTS''\<rparr>,
            s1,
            [SelectSingle (eqs [(''email'', JStr (toLowerCase em))]
                             (from_table ''users'' ''id, email''))])) \<and>
      ((d_error r1 = None \<or> (\<exists>er. d_error r1 = Some er \<and> e_code er = ''PGRST116'')) \<and>
       row_of (d_data r1) = None \<and> get (body rq) ''name'' = JStr nm \<and>
       (if truthy (get (body rq) ''phone'') then js_trim (get (body rq) ''phone'') else Some [])
         = Some ph \<and>
       exec (InsertSingle ''users''
              ([(''email'', JStr (trim (toLowerCase em))),
                (''password'', JStr (bcrypt_hash e pw')),
                (''name'', JStr (trim nm)), (''role'', get (body rq) ''role''),
                (''is_active'', JBool True), (''created_at'', JStr (now e))] @
               (if ph \<noteq> [] then [(''phone'', JStr ph)] else []))
              ''id, email, name, role, phone, is_active, created_at'') s1 = (r2, s2) \<longrightarrow>
         (d_error r2 = None \<and> d_data r2 = DRow u \<and>
          jwt_sign e [(''id'', get u ''id''), (''email'', get u ''email''),
                      (''role'', get u ''role'')] = Some tok \<longrightarrow>
            run exec (serve e rq) s =
              (\<lparr>status = 201,
                rbody = [(''message'', Val (JStr ''User registered successfully'')),
                         (''user'', Obj u), (''token'', Val (JStr tok)),
                         (''source'', Val (JStr ''supabase''))]\<rparr>,
               s2,
               [SelectSingle (eqs [(''email'', JStr (toLowerCase em))]
                                (from_table ''users'' ''id, email'')),
                InsertSingle ''users''
                  ([(''email'', JStr (trim (toLowerCase em))),
                    (''password'', JStr (bcrypt_hash e pw')),
                    (''name'', JStr (trim nm)), (''role'', get (body rq) ''role''),
                    (''is_active'', JBool True), (''created_at'', JStr (now e))] @
                   (if ph \<noteq> [] then [(''phone'', JStr ph)] else []))
                  ''id, email, name, role, phone, is_active, created_at''])) \<and>
         (\<forall>er. d_error r2 = Some er \<longrightarrow>
            run exec (serve e rq) s =
              ((if e_code er = ''23505''
                then \<lparr>status = 409,
                      rbody = err ''User with this email already exists'' ''USER_EXISTS''\<rparr>
                else \<lparr>status = 400,
                      rbody = err ''Failed to create user account'' ''DB_INSERT_ERROR'' @
                              details er\<rparr>),
               s2,
               [SelectSingle (eqs [(''email'', JStr (toLowerCase em))]
                                (from_table ''users'' ''id, email'')),
                InsertSingle ''users''
                  ([(''email'', JStr (trim (toLowerCase em))),
                    (''password'', JStr (bcrypt_hash e pw')),
                    (''name'', JStr (trim nm)), (''role'', get (body rq) ''role''),
                    (''is_active'', JBool True), (''created_at'', JStr (now e))] @
                   (if ph \<noteq> [] then [(''phone'', JStr ph)] else []))
                  ''id, email, name, role, phone, is_active, created_at''])))) \<and>
     (get (body rq) ''password'' = JStr pw \<and> length pw < 6 \<longrightarrow>
        (\<exists>r. serve e rq = Respond r \<and> status r = 400 \<and>
             code_of r \<in> (\<lambda>x. Some (Val (JStr x))) `
                           {''MISSING_FIELDS'', ''INVALID_EMAIL'', ''WEAK_PASSWORD''})) \<and>
     (\<not> emailRegex_test (get (body rq) ''email'') \<longrightarrow>
        (\<exists>r. serve e rq = Respond r \<and> status r = 400 \<and>
             code_of r \<in> (\<lambda>x. Some (Val (JStr x))) ` {''MISSING_FIELDS'', ''INVALID_EMAIL''})) \<and>
     (get (body rq) ''email'' = JStr em' \<and> \<not> local_at_domain_tld em' \<longrightarrow>
        (\<exists>r. serve e rq = Respond r \<and> status r = 400 \<and>
             code_of r \<in> (\<lambda>x. Some (Val (JStr x))) ` {''MISSING_FIELDS'', ''INVALID_EMAIL''})) \<and>
     (\<forall>em. emailRegex_test (JStr em) = local_at_domain_tld em)"
  by (intro conjI;
      rule register_rejections [OF assms] register_unavailable [OF assms]
        register_database_outcomes [OF assms] register_email_shape [OF assms]
        emailRegex_test_shape)

text \<open>
  The claim as stated fails: the password \<open>abc12\<close> with an email of the wrong shape is
  answered INVALID_EMAIL, not WEAK_PASSWORD, and with an email that is already taken it
  is answered 400, not 409.
\<close>

theorem register_checks_in_order:
  "serve (sample_env True)
     (anonymous POST [''auth'', ''register'']
        [(''email'', JStr ''not-an-email''), (''password'', JStr ''abc12''),
         (''name'', JStr ''Ana'')]) =
     Respond \<lparr>status = 400, rbody = err ''Invalid email format'' ''INVALID_EMAIL''\<rparr> \<and>
   table sample_db ''users'' =
     [[(''id'', JNum 5), (''email'', JStr ''ana@shop.ph''), (''password'', JStr ''hash:secret1''),
       (''role'', JStr ''cashier''), (''is_active'', JBool True)]] \<and>
   run sample_exec
     (serve (sample_env True)
        (anonymous POST [''auth'', ''register'']
           [(''email'', JStr ''ana@shop.ph''), (''password'', JStr ''abc12''),
            (''name'', JStr ''Ana'')])) sample_db =
     (\<lparr>status = 400,
       rbody = err ''Password must be at least 6 characters long'' ''WEAK_PASSWORD''\<rparr>,
      sample_db, [])"
  by (simp add: serve_def dispatch_def routes_def anonymous_def h_register_def bparam_def
        get_def emailRegex_def is_space_def json_def sample_db_def table_def)

theorem register_outcomes_witness:
  "serve (sample_env True)
     (anonymous POST [''auth'', ''register'']
        [(''email'', JStr ''new@shop.ph''), (''password'', JStr ''abc12''),
         (''name'', JStr ''Ana'')]) =
     Respond \<lparr>status = 400,
              rbody = err ''Password must be at least 6 characters long'' ''WEAK_PASSWORD''\<rparr> \<and>
   serve (sample_env True)
     (anonymous POST [''auth'', ''register'']
        [(''email'', JStr ''new@shop.ph''), (''password'', JStr ''abc123'')]) =
     Respond \<lparr>status = 400,
              rbody = err ''Email, password, and name are required'' ''MISSING_FIELDS''\<rparr> \<and>
   serve (sample_env True)
     (anonymous POST [''auth'', ''register'']
        [(''email'', JStr (''new'' @ [CHR 0xA0] @ ''a@shop.ph'')), (''password'', JStr ''abc123''),
         (''name'', JStr ''Ana'')]) =
     Respond \<lparr>status = 400, rbody = err ''Invalid email format'' ''INVALID_EMAIL''\<rparr> \<and>
   run sample_exec
     (serve (sample_env False)
        (anonymous POST [''auth'', ''register'']
           [(''email'', JStr ''new@shop.ph''), (''password'', JStr ''abc123''),
            (''name'', JStr '' Bea '')])) sample_db =
     (\<lparr>status = 503,
       rbody = err ''Registration unavailable - database connection failed''
                   ''SERVICE_UNAVAILABLE''\<rparr>, sample_db, []) \<and>
   run sample_exec
     (serve (sample_env True)
        (anonymous POST [''auth'', ''register'']
           [(''email'', JStr ''Ana@shop.ph''), (''password'', JStr ''abc123''),
            (''name'', JStr ''Ana'')])) sample_db =
     (\<lparr>status = 409, rbody = err ''User with this email already exists'' ''USER_EXISTS''\<rparr>,
      sample_db,
      [SelectSingle (eqs [(''email'', JStr ''ana@shop.ph'')] (from_table ''users'' ''id, email''))]) \<and>
   fst (run sample_exec
          (serve (sample_env True)
             (anonymous POST [''auth'', ''register'']
                [(''email'', JStr ''new@shop.ph''), (''password'', JStr ''abc123''),
                 (''name'', JStr '' Bea '')])) sample_db) =
     \<lparr>status = 201,
      rbody = [(''message'', Val (JStr ''User registered successfully'')),
               (''user'', Obj [(''email'', JStr ''new@shop.ph''),
                               (''password'', JStr ''hash:abc123''), (''name'', JStr ''Bea''),
                               (''role'', JUndefined), (''is_active'', JBool True),
                               (''created_at'', JStr ''2025-01-01T00:00:00.000Z'')]),
               (''token'', Val (JStr ''token:new@shop.ph'')),
               (''source'', Val (JStr ''supabase''))]\<rparr>"
proof -
  let ?e = "sample_env True"
  let ?weak = "anonymous POST [''auth'', ''register'']
        [(''email'', JStr ''new@shop.ph''), (''password'', JStr ''abc12''),
         (''name'', JStr ''Ana'')]"
  let ?anon = "anonymous POST [''auth'', ''register'']
        [(''email'', JStr ''new@shop.ph''), (''password'', JStr ''abc123'')]"
  let ?nbsp = "anonymous POST [''auth'', ''register'']
        [(''email'', JStr (''new'' @ [CHR 0xA0] @ ''a@shop.ph'')), (''password'', JStr ''abc123''),
         (''name'', JStr ''Ana'')]"
  let ?dup = "anonymous POST [''auth'', ''register'']
        [(''email'', JStr ''Ana@shop.ph''), (''password'', JStr ''abc123''),
         (''name'', JStr ''Ana'')]"
  let ?new = "anonymous POST [''auth'', ''register'']
        [(''email'', JStr ''new@shop.ph''), (''password'', JStr ''abc123''),
         (''name'', JStr '' Bea '')]"
  let ?row = "[(''email'', JStr ''new@shop.ph''), (''password'', JStr ''hash:abc123''),
               (''name'', JStr ''Bea''), (''role'', JUndefined), (''is_active'', JBool True),
               (''created_at'', JStr ''2025-01-01T00:00:00.000Z'')]"
  have m1: "rx_match emailRegex ''new@shop.ph''" and m2: "rx_match emailRegex ''Ana@shop.ph''"
    by (simp_all add: emailRegex_def is_space_def)
  from m1 m2 have g1: "local_at_domain_tld ''new@shop.ph''"
    and g2: "local_at_domain_tld ''Ana@shop.ph''"
    by (simp_all add: emailRegex_shape)
  have l1: "toLowerCase ''Ana@shop.ph'' = ''ana@shop.ph''"
    and l2: "toLowerCase ''new@shop.ph'' = ''new@shop.ph''"
    by (simp_all add: toLowerCase_def lower_char_def)
  have t1: "trim '' Bea '' = ''Bea''" and t2: "trim ''new@shop.ph'' = ''new@shop.ph''"
    by (simp_all add: trim_def is_space_def)
  have q1: "sample_exec (SelectSingle (eqs [(''email'', JStr ''ana@shop.ph'')]
                           (from_table ''users'' ''id, email''))) sample_db =
            (\<lparr>d_data = DRow (hd (table sample_db ''users'')), d_error = None, d_count = JNull\<rparr>,
             sample_db)"
    by (simp add: eqs_def from_table_def sample_db_def table_def matches_def get_def single_def)
  have q2: "sample_exec (SelectSingle (eqs [(''email'', JStr ''new@shop.ph'')]
                           (from_table ''users'' ''id, email''))) sample_db =
            (\<lparr>d_data = DNull, d_error = Some no_rows, d_count = JNull\<rparr>, sample_db)"
    by (simp add: eqs_def from_table_def sample_db_def table_def matches_def get_def single_def)
  have q3: "sample_exec (InsertSingle ''users'' ?row
              ''id, email, name, role, phone, is_active, created_at'') sample_db =
            (\<lparr>d_data = DRow ?row, d_error = None, d_count = JNull\<rparr>,
             store_table ''users'' (table sample_db ''users'' @ [?row]) sample_db)"
    by simp
  have p1: "rmethod ?weak = POST" "rpath ?weak = [''auth'', ''register'']"
    and p2: "rmethod ?dup = POST" "rpath ?dup = [''auth'', ''register'']"
    and p3: "rmethod ?new = POST" "rpath ?new = [''auth'', ''register'']"
    and p4: "rmethod ?anon = POST" "rpath ?anon = [''auth'', ''register'']"
    and p5: "rmethod ?nbsp = POST" "rpath ?nbsp = [''auth'', ''register'']"
    by (simp_all add: anonymous_def)
  have b: "serve ?e ?nbsp =
     Respond \<lparr>status = 400, rbody = err ''Invalid email format'' ''INVALID_EMAIL''\<rparr>"
    using register_outcomes [where rq = ?nbsp and e = ?e, OF p5, THEN conjunct2, THEN conjunct1]
    by (simp add: anonymous_def get_def emailRegex_def is_space_def)
  have w: "serve ?e ?weak =
     Respond \<lparr>status = 400,
              rbody = err ''Password must be at least 6 characters long'' ''WEAK_PASSWORD''\<rparr>"
    using register_outcomes [where rq = ?weak and pw = "''abc12''" and e = ?e, OF p1,
        THEN conjunct2, THEN conjunct2, THEN conjunct1] m1
    by (simp add: anonymous_def get_def)
  have a: "serve ?e ?anon =
     Respond \<lparr>status = 400,
              rbody = err ''Email, password, and name are required'' ''MISSING_FIELDS''\<rparr>"
    using register_outcomes [where rq = ?anon and e = ?e, OF p4, THEN conjunct1]
    by (simp add: anonymous_def get_def)
  have u: "run sample_exec (serve (sample_env False) ?new) sample_db =
     (\<lparr>status = 503,
       rbody = err ''Registration unavailable - database connection failed''
                   ''SERVICE_UNAVAILABLE''\<rparr>, sample_db, [])"
    using register_outcomes [where rq = ?new and e = "sample_env False"
        and em = "''new@shop.ph''" and exec = sample_exec and s = sample_db, OF p3,
        THEN conjunct2, THEN conjunct2, THEN conjunct2, THEN conjunct1] g1
    by (simp add: anonymous_def get_def sample_env_def)
  have d: "run sample_exec (serve ?e ?dup) sample_db =
     (\<lparr>status = 409, rbody = err ''User with this email already exists'' ''USER_EXISTS''\<rparr>,
      sample_db,
      [SelectSingle (eqs [(''email'', JStr ''ana@shop.ph'')] (from_table ''users'' ''id, email''))])"
    using register_outcomes [where rq = ?dup and e = ?e and em = "''Ana@shop.ph''"
        and pw' = "''abc123''" and exec = sample_exec and s = sample_db and ?s1.0 = sample_db
        and nm = "[]" and ph = "[]" and u = "[]" and tok = "[]" and ?s2.0 = sample_db
        and ?r2.0 = "\<lparr>d_data = DNull, d_error = None, d_count = JNull\<rparr>"
        and ?r1.0 = "\<lparr>d_data = DRow (hd (table sample_db ''users'')), d_error = None,
                       d_count = JNull\<rparr>",
        OF p2, THEN conjunct2, THEN conjunct2, THEN conjunct2, THEN conjunct2, THEN conjunct1]
      g2 q1
    by (simp add: anonymous_def get_def l1 sample_env_def row_of_def)
  have n: "run sample_exec (serve ?e ?new) sample_db =
     (\<lparr>status = 201,
       rbody = [(''message'', Val (JStr ''User registered successfully'')), (''user'', Obj ?row),
                (''token'', Val (JStr ''token:new@shop.ph'')),
                (''source'', Val (JStr ''supabase''))]\<rparr>,
      store_table ''users'' (table sample_db ''users'' @ [?row]) sample_db,
      [SelectSingle (eqs [(''email'', JStr ''new@shop.ph'')] (from_table ''users'' ''id, email'')),
       InsertSingle ''users'' ?row ''id, email, name, role, phone, is_active, created_at''])"
    using register_outcomes [where rq = ?new and e = ?e and em = "''new@shop.ph''"
        and pw' = "''abc123''" and exec = sample_exec and s = sample_db and ?s1.0 = sample_db
        and ?r1.0 = "\<lparr>d_data = DNull, d_error = Some no_rows, d_count = JNull\<rparr>"
        and nm = "'' Bea ''" and ph = "[]" and u = ?row
        and ?r2.0 = "\<lparr>d_data = DRow ?row, d_error = None, d_count = JNull\<rparr>"
        and ?s2.0 = "store_table ''users'' (table sample_db ''users'' @ [?row]) sample_db"
        and tok = "''token:new@shop.ph''",
        OF p3, THEN conjunct2, THEN conjunct2, THEN conjunct2, THEN conjunct2, THEN conjunct1]
      g1 q2 q3
    by (simp add: anonymous_def get_def l2 t1 t2 sample_env_def row_of_def no_rows_def
          sample_sign_def)
  show ?thesis using w a b u d n by simp
qed

subsection \<open>The two registrations of the company listing\<close>

text \<open>
  C10. A \<open>GET /companies\<close> request with a valid token whose role is not
  \<open>super_admin\<close> is answered 403 INSUFFICIENT_PERMISSIONS by the role check of the
  route registered first, and no request at all reaches the handler registered second.
  That handler would give a caller without a company an empty list, and a caller with a
  company the listing narrowed to it.
\<close>

theorem companies_second_handler_unreachable:
  "(rmethod rq = GET \<and> rpath rq = [''companies''] \<and> bearer_token (authorization rq) = Some t \<and>
    jwt_verify e t = Decoded u \<and> get u ''role'' \<noteq> JStr ''super_admin'' \<longrightarrow>
      serve e rq =
        Respond \<lparr>status = 403,
                 rbody = err ''Insufficient permissions'' ''INSUFFICIENT_PERMISSIONS'' @
                         [(''requiredRoles'', Strs [''super_admin'']),
                          (''userRole'', Val (get u ''role''))]\<rparr>) \<and>
   (\<forall>c. dispatch e rq \<noteq> Inl (H_get_companies_scoped, c)) \<and>
   (client e \<and> user c = Some u \<and> get u ''role'' \<noteq> JStr ''super_admin'' \<and>
    \<not> truthy (get u ''company_id'') \<longrightarrow>
      h_get_companies_scoped e c =
        json 200 ([(''companies'', Rows []), (''count'', Val (JNum 0))] @ timestamp e)) \<and>
   (client e \<and> user c = Some u \<and> get u ''role'' \<noteq> JStr ''super_admin'' \<and>
    truthy (get u ''company_id'') \<longrightarrow>
      (\<exists>q k. h_get_companies_scoped e c = Db (SelectRows q) k \<and>
             (''id'', get u ''company_id'') \<in> set (q_eq q)))"
proof -
  have a: "\<forall>c. dispatch e rq \<noteq> Inl (H_get_companies_scoped, c)"
    using dispatch_cases [of e rq H_get_companies_scoped] by blast
  have b: "rmethod rq = GET \<and> rpath rq = [''companies''] \<and>
      bearer_token (authorization rq) = Some t \<and>
      jwt_verify e t = Decoded u \<and> get u ''role'' \<noteq> JStr ''super_admin'' \<longrightarrow>
      serve e rq =
        Respond \<lparr>status = 403,
                 rbody = err ''Insufficient permissions'' ''INSUFFICIENT_PERMISSIONS'' @
                         [(''requiredRoles'', Strs [''super_admin'']),
                          (''userRole'', Val (get u ''role''))]\<rparr>"
    by (simp add: serve_def dispatch_def routes_def admin_only_def authenticateToken_def
          requireRole_def js_includes_def)
  have c: "client e \<and> user c = Some u \<and> get u ''role'' \<noteq> JStr ''super_admin'' \<and>
      \<not> truthy (get u ''company_id'') \<longrightarrow>
      h_get_companies_scoped e c =
        json 200 ([(''companies'', Rows []), (''count'', Val (JNum 0))] @ timestamp e)"
    by (simp add: h_get_companies_scoped_def is_role_def)
  have d: "client e \<and> user c = Some u \<and> get u ''role'' \<noteq> JStr ''super_admin'' \<and>
      truthy (get u ''company_id'') \<longrightarrow>
      (\<exists>q k. h_get_companies_scoped e c = Db (SelectRows q) k \<and>
             (''id'', get u ''company_id'') \<in> set (q_eq q))"
    by (auto simp: h_get_companies_scoped_def is_role_def eq_def Let_def)
  show ?thesis using a b c d by blast
qed

theorem companies_second_handler_unreachable_witness:
  "serve (sample_env True) (get_request [''companies''] ''manager7'' []) =
     Respond \<lparr>status = 403,
              rbody = err ''Insufficient permissions'' ''INSUFFICIENT_PERMISSIONS'' @
                      [(''requiredRoles'', Strs [''super_admin'']),
                       (''userRole'', Val (JStr ''manager''))]\<rparr> \<and>
   h_get_companies_scoped (sample_env True)
     \<lparr>req = get_request [''companies''] ''manager7'' [], params = [],
      user = Some (sample_claims ''manager@techcorp.com'' ''manager'' @ [(''store_id'', JNum 7)])\<rparr> =
     json 200 ([(''companies'', Rows []), (''count'', Val (JNum 0))] @
               timestamp (sample_env True))"
  using companies_second_handler_unreachable
    [of "get_request [''companies''] ''manager7'' []" "''manager7''" "sample_env True"
        "sample_claims ''manager@techcorp.com'' ''manager'' @ [(''store_id'', JNum 7)]"
        "\<lparr>req = get_request [''companies''] ''manager7'' [], params = [],
          user = Some (sample_claims ''manager@techcorp.com'' ''manager'' @
                       [(''store_id'', JNum 7)])\<rparr>"]
  by (simp add: get_request_def bearer_token_def sample_env_def sample_verify_def
        sample_claims_def get_def)

end
